theory Spec2Isabelle
  imports Main
begin

section \<open>Python values, errors and tables\<close>

text \<open>
  The module \<^verbatim>\<open>mlprocess.py\<close> is glue code around pandas, scikit-learn, imbalanced-learn
  and requests. The functions of the module are embedded as HOL functions; every call into
  one of those libraries whose result cannot be read off the module's own text is a
  parameter of the embedding (named after the library call), so that a theorem holds for
  whatever the library computes. A raised exception is the \<open>Inl\<close> side of a sum.
\<close>

datatype error =
    KeyError string
  | IndexError
  | AssertionError
  | TypeError
  | AttributeError string
  | Raised string

text \<open>
  A \<^verbatim>\<open>DataFrame\<close> is the list of its columns in order, each a name with its values.
  Column names may repeat, as pandas allows. The row index is left out: every frame a
  function receives together is taken to share one row index, so that
  \<^verbatim>\<open>pd.concat([a, b], axis=1)\<close> puts the columns of \<open>a\<close> before those of \<open>b\<close>.
\<close>

type_synonym 'a frame = "(string \<times> 'a list) list"

definition columns :: "'a frame \<Rightarrow> string list" where
  "columns df = map fst df"

definition concat_axis1 :: "'a frame \<Rightarrow> 'a frame \<Rightarrow> 'a frame" where
  "concat_axis1 a b = a @ b"

text \<open>\<^verbatim>\<open>d[key]\<close> on a dictionary (or a column of a label table): KeyError when absent.\<close>

definition getitem :: "(string \<rightharpoonup> 'v) \<Rightarrow> string \<Rightarrow> error + 'v" where
  "getitem d key = (case d key of None \<Rightarrow> Inl (KeyError key) | Some v \<Rightarrow> Inr v)"

text \<open>
  \<^verbatim>\<open>df.loc[:, mask]\<close> with a boolean mask keeps the columns whose entry is True; pandas
  raises IndexError when the mask is not as long as the column index.
\<close>

definition loc_mask :: "'a frame \<Rightarrow> bool list \<Rightarrow> error + 'a frame" where
  "loc_mask df bs =
     (if length bs \<noteq> length df then Inl IndexError
      else Inr (map fst (filter snd (zip df bs))))"

text \<open>
  \<^verbatim>\<open>df.loc[:, names]\<close> with a list of labels: for each label in the order of the list,
  every column carrying that label; KeyError for the first label that names no column.
\<close>

fun loc_labels :: "'a frame \<Rightarrow> string list \<Rightarrow> error + 'a frame" where
  "loc_labels df [] = Inr []"
| "loc_labels df (s # sel) =
     (if s \<notin> set (columns df) then Inl (KeyError s)
      else (case loc_labels df sel of
              Inl e \<Rightarrow> Inl e
            | Inr rest \<Rightarrow> Inr (filter (\<lambda>c. fst c = s) df @ rest)))"

section \<open>Feature selection\<close>

text \<open>
  \<^verbatim>\<open>SelectKBest(score_func=score_func, k=k).fit(X, y).get_support()\<close> is the parameter
  \<open>skb\<close>: given \<open>k\<close>, the table and the target vector it returns the boolean support mask
  or raises.

  \<^verbatim>\<open>
  def select_best_descriptors(X, y, score_func=f_classif, k=2):
      skb = SelectKBest(score_func=score_func, k=k).fit(X, y)
      n_sel_bol = skb.get_support()
      sel = X.loc[:, n_sel_bol].columns.to_list()
      assert sel
      return sel
  \<close>
\<close>

definition select_best_descriptors ::
  "(nat \<Rightarrow> 'a frame \<Rightarrow> 'y \<Rightarrow> error + bool list) \<Rightarrow> nat \<Rightarrow> 'a frame \<Rightarrow> 'y \<Rightarrow> error + string list" where
  "select_best_descriptors skb k X y =
     (case skb k X y of
        Inl e \<Rightarrow> Inl e
      | Inr n_sel_bol \<Rightarrow>
          (case loc_mask X n_sel_bol of
             Inl e \<Rightarrow> Inl e
           | Inr sub \<Rightarrow>
               (let sel = columns sub in
                if sel = [] then Inl AssertionError else Inr sel)))"

text \<open>
  \<^verbatim>\<open>
  def select_best_descriptors_multi(df_desc, y_all, out_names=[], score_func=f_classif, k=1):
      if not out_names:
          print("Column names necessary")
          return None
      selected = []
      for n in tqdm(out_names):
          skb = SelectKBest(score_func=score_func, k=k).fit(df_desc, y_all[n])
          n_sel_bol = skb.get_support()
          sel = df_desc.loc[:, n_sel_bol].columns.to_list()
          for s in sel:
              if s not in selected:
                  selected.append(s)
      return selected
  \<close>
  The inner loop, the selection of one label, the outer loop, and the function, which
  returns its value (\<open>None\<close> or the list) together with the lines it printed.
\<close>

fun append_new :: "string list \<Rightarrow> string list \<Rightarrow> string list" where
  "append_new selected [] = selected"
| "append_new selected (s # sel) =
     append_new (if s \<in> set selected then selected else selected @ [s]) sel"

definition label_selection ::
  "(nat \<Rightarrow> 'a frame \<Rightarrow> 'y \<Rightarrow> error + bool list) \<Rightarrow> nat \<Rightarrow> 'a frame \<Rightarrow> (string \<rightharpoonup> 'y) \<Rightarrow> string
     \<Rightarrow> error + string list" where
  "label_selection skb k df_desc y_all n =
     (case getitem y_all n of
        Inl e \<Rightarrow> Inl e
      | Inr y \<Rightarrow>
          (case skb k df_desc y of
             Inl e \<Rightarrow> Inl e
           | Inr n_sel_bol \<Rightarrow>
               (case loc_mask df_desc n_sel_bol of
                  Inl e \<Rightarrow> Inl e
                | Inr sub \<Rightarrow> Inr (columns sub))))"

fun select_multi_loop ::
  "(nat \<Rightarrow> 'a frame \<Rightarrow> 'y \<Rightarrow> error + bool list) \<Rightarrow> nat \<Rightarrow> 'a frame \<Rightarrow> (string \<rightharpoonup> 'y) \<Rightarrow> string list
     \<Rightarrow> string list \<Rightarrow> error + string list" where
  "select_multi_loop skb k df_desc y_all [] selected = Inr selected"
| "select_multi_loop skb k df_desc y_all (n # ns) selected =
     (case label_selection skb k df_desc y_all n of
        Inl e \<Rightarrow> Inl e
      | Inr sel \<Rightarrow> select_multi_loop skb k df_desc y_all ns (append_new selected sel))"

definition select_best_descriptors_multi ::
  "(nat \<Rightarrow> 'a frame \<Rightarrow> 'y \<Rightarrow> error + bool list) \<Rightarrow> nat \<Rightarrow> 'a frame \<Rightarrow> (string \<rightharpoonup> 'y) \<Rightarrow> string list
     \<Rightarrow> (error + string list option) \<times> string list" where
  "select_best_descriptors_multi skb k df_desc y_all out_names =
     (if out_names = [] then (Inr None, [''Column names necessary''])
      else (case select_multi_loop skb k df_desc y_all out_names [] of
              Inl e \<Rightarrow> (Inl e, [])
            | Inr selected \<Rightarrow> (Inr (Some selected), [])))"

text \<open>
  The specification's words for the result: the per-label selections in label order, the
  first exception ending the run (\<open>collect\<close>), and their union, without repetition, in
  order of first appearance.
\<close>

fun collect :: "(error + 'b) list \<Rightarrow> error + 'b list" where
  "collect [] = Inr []"
| "collect (Inl e # rs) = Inl e"
| "collect (Inr v # rs) = (case collect rs of Inl e \<Rightarrow> Inl e | Inr vs \<Rightarrow> Inr (v # vs))"

fun first_appearance :: "'b list \<Rightarrow> 'b list" where
  "first_appearance [] = []"
| "first_appearance (x # xs) = x # first_appearance (filter (\<lambda>y. y \<noteq> x) xs)"

section \<open>Per-label train and test tables\<close>

text \<open>
  \<^verbatim>\<open>
  def create_dataframes_dic(df_desc_base_train, df_desc_base_test, X_train_fp, X_test_fp,
                            y_train, out_names, score_func=f_classif, k=3):
      train_series_dic = {name: None for name in out_names}
      test_series_dic = {name: None for name in out_names}
      selected_name = {name: None for name in out_names}
      for name in tqdm(out_names):
          sel_col = select_best_descriptors(df_desc_base_train, y_train[name],
                                            score_func=score_func, k=k)
          selected_name[name] = sel_col
          df_desc_train = df_desc_base_train.loc[:, sel_col].copy()
          df_desc_test = df_desc_base_test.loc[:, sel_col].copy()
          X_train = pd.concat([X_train_fp, df_desc_train], axis=1)
          X_test = pd.concat([X_test_fp, df_desc_test], axis=1)
          train_series_dic[name] = X_train
          test_series_dic[name] = X_test
      return train_series_dic, test_series_dic, selected_name
  \<close>
  A dictionary whose values start as \<^verbatim>\<open>None\<close> maps a key to an optional value; the three
  dictionaries are the state of the loop. An exception in the body leaves the function,
  so the half-filled dictionaries are never seen.
\<close>

definition dict_fromkeys :: "string list \<Rightarrow> (string \<rightharpoonup> 'v option)" where
  "dict_fromkeys names = (\<lambda>name. if name \<in> set names then Some None else None)"

record 'a dics =
  train_series_dic :: "string \<rightharpoonup> 'a frame option"
  test_series_dic :: "string \<rightharpoonup> 'a frame option"
  selected_name :: "string \<rightharpoonup> string list option"

fun create_dataframes_loop ::
  "(nat \<Rightarrow> 'a frame \<Rightarrow> 'y \<Rightarrow> error + bool list) \<Rightarrow> nat \<Rightarrow> 'a frame \<Rightarrow> 'a frame \<Rightarrow> 'a frame \<Rightarrow> 'a frame
     \<Rightarrow> (string \<rightharpoonup> 'y) \<Rightarrow> string list \<Rightarrow> 'a dics \<Rightarrow> error + 'a dics" where
  "create_dataframes_loop skb k df_desc_base_train df_desc_base_test X_train_fp X_test_fp
       y_train [] d = Inr d"
| "create_dataframes_loop skb k df_desc_base_train df_desc_base_test X_train_fp X_test_fp
       y_train (name # names) d =
     (case getitem y_train name of
        Inl e \<Rightarrow> Inl e
      | Inr y \<Rightarrow>
     (case select_best_descriptors skb k df_desc_base_train y of
        Inl e \<Rightarrow> Inl e
      | Inr sel_col \<Rightarrow>
     (case loc_labels df_desc_base_train sel_col of
        Inl e \<Rightarrow> Inl e
      | Inr df_desc_train \<Rightarrow>
     (case loc_labels df_desc_base_test sel_col of
        Inl e \<Rightarrow> Inl e
      | Inr df_desc_test \<Rightarrow>
          create_dataframes_loop skb k df_desc_base_train df_desc_base_test X_train_fp
            X_test_fp y_train names
            \<lparr> train_series_dic =
                (train_series_dic d)(name \<mapsto> Some (concat_axis1 X_train_fp df_desc_train)),
              test_series_dic =
                (test_series_dic d)(name \<mapsto> Some (concat_axis1 X_test_fp df_desc_test)),
              selected_name = (selected_name d)(name \<mapsto> Some sel_col) \<rparr>))))"

definition create_dataframes_dic ::
  "(nat \<Rightarrow> 'a frame \<Rightarrow> 'y \<Rightarrow> error + bool list) \<Rightarrow> nat \<Rightarrow> 'a frame \<Rightarrow> 'a frame \<Rightarrow> 'a frame \<Rightarrow> 'a frame
     \<Rightarrow> (string \<rightharpoonup> 'y) \<Rightarrow> string list \<Rightarrow> error + 'a dics" where
  "create_dataframes_dic skb k df_desc_base_train df_desc_base_test X_train_fp X_test_fp
       y_train out_names =
     create_dataframes_loop skb k df_desc_base_train df_desc_base_test X_train_fp X_test_fp
       y_train out_names
       \<lparr> train_series_dic = dict_fromkeys out_names,
         test_series_dic = dict_fromkeys out_names,
         selected_name = dict_fromkeys out_names \<rparr>"

section \<open>Library objects\<close>

text \<open>
  The functions below are embedded for calls with \<^verbatim>\<open>verbose=False\<close>, the default of every
  one of them: the branches under \<^verbatim>\<open>if verbose:\<close> only print a report of values that are
  computed anyway, and the arguments \<^verbatim>\<open>X_test\<close> and \<^verbatim>\<open>y_test\<close> of the two searches are read
  in those branches only. The progress bar of \<^verbatim>\<open>tqdm\<close> is left out as well.

  Sequencing of steps that may raise: the first exception ends the computation.
\<close>

fun bindE :: "error + 'b \<Rightarrow> ('b \<Rightarrow> error + 'c) \<Rightarrow> error + 'c" where
  "bindE (Inl e) f = Inl e"
| "bindE (Inr v) f = f v"

text \<open>
  A Python dictionary whose emptiness is tested is an association list; \<^verbatim>\<open>d[key]\<close> reads
  the first entry of the key.
\<close>

type_synonym 'v dict = "(string \<times> 'v) list"

definition dict_get :: "'v dict \<Rightarrow> string \<Rightarrow> error + 'v" where
  "dict_get d key = getitem (map_of d) key"

text \<open>
  A feature matrix is handed to a library either as the \<^verbatim>\<open>DataFrame\<close> itself or through
  \<^verbatim>\<open>np.asarray\<close>, which keeps the columns and drops their names.
\<close>

datatype 'a table = DataFrame "'a frame" | NdArray "'a list list"

fun np_asarray :: "'a table \<Rightarrow> 'a table" where
  "np_asarray (DataFrame df) = NdArray (map snd df)"
| "np_asarray (NdArray cols) = NdArray cols"

fun ncols :: "'a table \<Rightarrow> nat" where
  "ncols (DataFrame df) = length df"
| "ncols (NdArray cols) = length cols"

text \<open>
  The mask of categorical features, written out at every place that balances:
  \<^verbatim>\<open>
      cat_shape = np.full((1128,), True, dtype=bool)
      cat_shape[-3:] = False
  \<close>
\<close>

definition np_full :: "nat \<Rightarrow> 'b \<Rightarrow> 'b list" where
  "np_full n v = replicate n v"

definition set_last :: "nat \<Rightarrow> 'b \<Rightarrow> 'b list \<Rightarrow> 'b list" where
  "set_last k v xs = take (length xs - k) xs @ replicate (min k (length xs)) v"

definition cat_shape :: "bool list" where
  "cat_shape = set_last 3 False (np_full 1128 True)"

text \<open>
  The objects the module constructs are records of the arguments it passes. An argument
  the module never passes is listed with the library's default where a statement below
  speaks about it (\<open>shuffle\<close> of \<^verbatim>\<open>StratifiedKFold\<close>, \<open>random_state\<close> of
  \<^verbatim>\<open>RandomizedSearchCV\<close>). Constructing an object has no effect of its own; a constructor
  that rejects its arguments is part of the library call that uses the object.
\<close>

record smotenc =
  categorical_features :: "bool list"
  sm_random_state :: "int option"
  sm_n_jobs :: int

definition SMOTENC :: "bool list \<Rightarrow> int option \<Rightarrow> int \<Rightarrow> smotenc" where
  "SMOTENC cat random_state n_jobs =
     \<lparr> categorical_features = cat, sm_random_state = random_state, sm_n_jobs = n_jobs \<rparr>"

record stratified_kfold =
  n_splits :: int
  shuffle :: bool
  kf_random_state :: "int option"

definition StratifiedKFold :: "int \<Rightarrow> int option \<Rightarrow> stratified_kfold" where
  "StratifiedKFold n random_state =
     \<lparr> n_splits = n, shuffle = False, kf_random_state = random_state \<rparr>"

text \<open>
  Estimators: the caller's \<^verbatim>\<open>model\<close> (possibly \<^verbatim>\<open>None\<close>), the three families the reports
  build with the arguments of the constructor and of \<^verbatim>\<open>set_params\<close> in the order written,
  the voting ensemble, and \<^verbatim>\<open>make_pipeline(smotenc, estimator)\<close>.
\<close>

datatype ('m, 'p) estimator =
    Model 'm
  | NoneModel
  | SVC "int option" bool "(string \<times> 'p) list"
  | RandomForestClassifier nat "int option" "(string \<times> 'p) list"
  | XGBClassifier string "int option" "(string \<times> 'p) list"
  | VotingClassifier "(string \<times> ('m, 'p) estimator) list" string int
  | Pipeline smotenc "('m, 'p) estimator"

record ('m, 'p, 'grid) grid_search_cv =
  gs_estimator :: "('m, 'p) estimator"
  gs_param_grid :: 'grid
  gs_cv :: stratified_kfold
  gs_n_jobs :: int
  gs_verbose :: bool
  gs_scoring :: string

record ('m, 'p, 'grid) randomized_search_cv =
  rs_estimator :: "('m, 'p) estimator"
  rs_param_distributions :: 'grid
  rs_n_iter :: int
  rs_cv :: stratified_kfold
  rs_n_jobs :: int
  rs_verbose :: bool
  rs_scoring :: string
  rs_random_state :: "int option"

text \<open>
  A fitted estimator as the reports use it: \<^verbatim>\<open>predict\<close>, and \<^verbatim>\<open>predict_proba\<close> where the
  object has that attribute. The probabilities are a two-dimensional array, held as the
  list of its columns (one per class).
\<close>

record ('a, 'v) fitted =
  predict :: "'a table \<Rightarrow> error + int list"
  predict_proba :: "('a table \<Rightarrow> error + 'v list list) option"

text \<open>What a fitted search exposes and the module reads.\<close>

record ('a, 'v, 'p) search_result =
  mean_test_score :: "'v list"
  std_test_score :: "'v list"
  best_params :: "'p dict"
  best_estimator :: "('a, 'v) fitted"

text \<open>
  The library calls that compute: each takes the ambient state \<open>'g\<close> of the process (the
  global random generator of numpy, which every component reads whose
  \<^verbatim>\<open>random_state\<close> is \<^verbatim>\<open>None\<close>) and returns it, with a result or an exception.
\<close>

record ('a, 'v, 'm, 'p, 'grid, 'g) sklearn =
  fit :: "('m, 'p) estimator \<Rightarrow> 'a table \<Rightarrow> int list \<Rightarrow> 'g \<Rightarrow> (error + ('a, 'v) fitted) \<times> 'g"
  fit_resample :: "smotenc \<Rightarrow> 'a table \<Rightarrow> int list \<Rightarrow> 'g \<Rightarrow> (error + 'a table \<times> int list) \<times> 'g"
  grid_fit :: "('m, 'p, 'grid) grid_search_cv \<Rightarrow> 'a table \<Rightarrow> int list \<Rightarrow> 'g
                 \<Rightarrow> (error + ('a, 'v, 'p) search_result) \<times> 'g"
  randomized_fit :: "('m, 'p, 'grid) randomized_search_cv \<Rightarrow> 'a table \<Rightarrow> int list \<Rightarrow> 'g
                 \<Rightarrow> (error + ('a, 'v, 'p) search_result) \<times> 'g"
  cross_validate :: "('m, 'p) estimator \<Rightarrow> 'a table \<Rightarrow> int list \<Rightarrow> string list
                 \<Rightarrow> stratified_kfold \<Rightarrow> int \<Rightarrow> bool \<Rightarrow> 'g \<Rightarrow> (error + 'v list dict) \<times> 'g"

text \<open>
  The specification's words for the mask a matrix needs: a matrix made of fingerprint
  columns followed by descriptor columns has one entry per column, true (categorical) on
  the fingerprint columns and false (continuous) on the descriptor columns.
\<close>

definition layout_mask :: "'a frame \<Rightarrow> 'a frame \<Rightarrow> bool list" where
  "layout_mask fingerprints descriptors =
     replicate (length fingerprints) True @ replicate (length descriptors) False"

section \<open>Balancing and hyperparameter search\<close>

text \<open>
  \<^verbatim>\<open>
  def balance_dataset(X_train_dic, y_train_dic, out_names, random_state=0, n_jobs=-1, verbose=False):
      train_series_dic_bal = {name: None for name in out_names}
      y_dic_bal = {name: None for name in out_names}
      cat_shape = np.full((1128,), True, dtype=bool)
      cat_shape[-3:] = False
      for label in tqdm(out_names):
          X_imb = X_train_dic[label]
          y_imb = y_train_dic[label]
          X_bal, y_bal = SMOTENC(categorical_features=cat_shape, random_state=random_state,
                                 n_jobs=n_jobs).fit_resample(X_imb, y_imb)
          train_series_dic_bal[label] = X_bal
          y_dic_bal[label] = y_bal
      return train_series_dic_bal, y_dic_bal
  \<close>
\<close>

fun balance_loop ::
  "('a, 'v, 'm, 'p, 'grid, 'g) sklearn \<Rightarrow> int option \<Rightarrow> int \<Rightarrow> (string \<rightharpoonup> 'a table)
     \<Rightarrow> (string \<rightharpoonup> int list) \<Rightarrow> string list
     \<Rightarrow> (string \<rightharpoonup> 'a table option) \<times> (string \<rightharpoonup> int list option) \<Rightarrow> 'g
     \<Rightarrow> (error + (string \<rightharpoonup> 'a table option) \<times> (string \<rightharpoonup> int list option)) \<times> 'g" where
  "balance_loop sk random_state n_jobs X_train_dic y_train_dic [] bal g = (Inr bal, g)"
| "balance_loop sk random_state n_jobs X_train_dic y_train_dic (label # labels) bal g =
     (case getitem X_train_dic label of
        Inl e \<Rightarrow> (Inl e, g)
      | Inr X_imb \<Rightarrow>
     (case getitem y_train_dic label of
        Inl e \<Rightarrow> (Inl e, g)
      | Inr y_imb \<Rightarrow>
     (case fit_resample sk (SMOTENC cat_shape random_state n_jobs) X_imb y_imb g of
        (Inl e, g') \<Rightarrow> (Inl e, g')
      | (Inr (X_bal, y_bal), g') \<Rightarrow>
          balance_loop sk random_state n_jobs X_train_dic y_train_dic labels
            ((fst bal)(label \<mapsto> Some X_bal), (snd bal)(label \<mapsto> Some y_bal)) g')))"

definition balance_dataset ::
  "('a, 'v, 'm, 'p, 'grid, 'g) sklearn \<Rightarrow> (string \<rightharpoonup> 'a table) \<Rightarrow> (string \<rightharpoonup> int list)
     \<Rightarrow> string list \<Rightarrow> int option \<Rightarrow> int \<Rightarrow> 'g
     \<Rightarrow> (error + (string \<rightharpoonup> 'a table option) \<times> (string \<rightharpoonup> int list option)) \<times> 'g" where
  "balance_dataset sk X_train_dic y_train_dic out_names random_state n_jobs g =
     balance_loop sk random_state n_jobs X_train_dic y_train_dic out_names
       (dict_fromkeys out_names, dict_fromkeys out_names) g"

text \<open>
  \<^verbatim>\<open>
  def grid_search(X_train, y_train, model, params_to_test, X_test=None, y_test=None,
                  balancing=False, n_splits=5, scoring="f1", n_jobs=-1, verbose=False,
                  random_state=None):
      if balancing:
          cat_shape = np.full((1128,), True, dtype=bool)
          cat_shape[-3:] = False
          smotenc = SMOTENC(categorical_features=cat_shape, random_state=random_state, n_jobs=n_jobs)
          pipeline = make_pipeline(smotenc, model)
          kf = StratifiedKFold(n_splits=n_splits, random_state=random_state)
          grid_search = GridSearchCV(pipeline, params_to_test, cv=kf, n_jobs=n_jobs,
                                     verbose=verbose, scoring=scoring)
      else:
          kf = StratifiedKFold(n_splits=n_splits, random_state=random_state)
          grid_search = GridSearchCV(model, params_to_test, cv=kf, n_jobs=n_jobs,
                                     verbose=verbose, scoring=scoring)
      grid_search.fit(X_train, y_train)
      means = grid_search.cv_results_["mean_test_score"]
      stds = grid_search.cv_results_["std_test_score"]
      ...
      best_estimator = grid_search.best_estimator_
      best_params = grid_search.best_params_
      return best_params, best_estimator
  \<close>
  \<open>GridSearchCV\<close> is the object the first half constructs, \<open>grid_search\<close> the function.
\<close>

definition GridSearchCV ::
  "('m, 'p) estimator \<Rightarrow> 'grid \<Rightarrow> bool \<Rightarrow> int \<Rightarrow> string \<Rightarrow> int \<Rightarrow> int option
     \<Rightarrow> ('m, 'p, 'grid) grid_search_cv" where
  "GridSearchCV model params_to_test balancing splits scoring n_jobs random_state =
     (if balancing then
        (let smotenc = SMOTENC cat_shape random_state n_jobs;
             pipeline = Pipeline smotenc model;
             kf = StratifiedKFold splits random_state
         in \<lparr> gs_estimator = pipeline, gs_param_grid = params_to_test, gs_cv = kf,
              gs_n_jobs = n_jobs, gs_verbose = False, gs_scoring = scoring \<rparr>)
      else
        (let kf = StratifiedKFold splits random_state
         in \<lparr> gs_estimator = model, gs_param_grid = params_to_test, gs_cv = kf,
              gs_n_jobs = n_jobs, gs_verbose = False, gs_scoring = scoring \<rparr>))"

definition grid_search ::
  "('a, 'v, 'm, 'p, 'grid, 'g) sklearn \<Rightarrow> 'a table \<Rightarrow> int list \<Rightarrow> ('m, 'p) estimator \<Rightarrow> 'grid
     \<Rightarrow> bool \<Rightarrow> int \<Rightarrow> string \<Rightarrow> int \<Rightarrow> int option \<Rightarrow> 'g
     \<Rightarrow> (error + 'p dict \<times> ('a, 'v) fitted) \<times> 'g" where
  "grid_search sk X_train y_train model params_to_test balancing splits scoring n_jobs
       random_state g =
     (case grid_fit sk
             (GridSearchCV model params_to_test balancing splits scoring n_jobs random_state)
             X_train y_train g of
        (Inl e, g') \<Rightarrow> (Inl e, g')
      | (Inr res, g') \<Rightarrow> (Inr (best_params res, best_estimator res), g'))"

text \<open>
  \<^verbatim>\<open>random_search\<close> is the same text with
  \<^verbatim>\<open>
          rs = RandomizedSearchCV(pipeline, params_to_test, n_iter=n_iter, cv=kf, n_jobs=n_jobs,
                                  verbose=verbose, scoring=scoring)
      ...
          rs = RandomizedSearchCV(model, params_to_test, n_iter=n_iter, cv=kf, n_jobs=n_jobs,
                                  verbose=verbose, scoring=scoring)
      rs.fit(np.asarray(X_train), np.asarray(y_train))
  \<close>
  Neither call passes \<^verbatim>\<open>random_state\<close> to \<^verbatim>\<open>RandomizedSearchCV\<close>, whose default is \<^verbatim>\<open>None\<close>.
\<close>

definition RandomizedSearchCV ::
  "('m, 'p) estimator \<Rightarrow> 'grid \<Rightarrow> bool \<Rightarrow> int \<Rightarrow> int \<Rightarrow> string \<Rightarrow> int \<Rightarrow> int option
     \<Rightarrow> ('m, 'p, 'grid) randomized_search_cv" where
  "RandomizedSearchCV model params_to_test balancing n_iter splits scoring n_jobs random_state =
     (if balancing then
        (let smotenc = SMOTENC cat_shape random_state n_jobs;
             pipeline = Pipeline smotenc model;
             kf = StratifiedKFold splits random_state
         in \<lparr> rs_estimator = pipeline, rs_param_distributions = params_to_test,
              rs_n_iter = n_iter, rs_cv = kf, rs_n_jobs = n_jobs, rs_verbose = False,
              rs_scoring = scoring, rs_random_state = None \<rparr>)
      else
        (let kf = StratifiedKFold splits random_state
         in \<lparr> rs_estimator = model, rs_param_distributions = params_to_test,
              rs_n_iter = n_iter, rs_cv = kf, rs_n_jobs = n_jobs, rs_verbose = False,
              rs_scoring = scoring, rs_random_state = None \<rparr>))"

definition random_search ::
  "('a, 'v, 'm, 'p, 'grid, 'g) sklearn \<Rightarrow> 'a table \<Rightarrow> int list \<Rightarrow> ('m, 'p) estimator \<Rightarrow> 'grid
     \<Rightarrow> bool \<Rightarrow> int \<Rightarrow> int \<Rightarrow> string \<Rightarrow> int \<Rightarrow> int option \<Rightarrow> 'g
     \<Rightarrow> (error + 'p dict \<times> ('a, 'v) fitted) \<times> 'g" where
  "random_search sk X_train y_train model params_to_test balancing n_iter splits scoring n_jobs
       random_state g =
     (case randomized_fit sk
             (RandomizedSearchCV model params_to_test balancing n_iter splits scoring n_jobs
                random_state)
             (np_asarray X_train) y_train g of
        (Inl e, g') \<Rightarrow> (Inl e, g')
      | (Inr res, g') \<Rightarrow> (Inr (best_params res, best_estimator res), g'))"

section \<open>Scoring one label\<close>

text \<open>
  The functions of \<^verbatim>\<open>sklearn.metrics\<close> and of numpy that the reports call, with the
  formatting of a score to two decimals for the title of a plot, \<^verbatim>\<open>round(float(x), 3)\<close>
  and \<^verbatim>\<open>pd.to_numeric\<close> on a column whose cells are unset (\<open>None\<close>) or hold a score.
\<close>

record ('v, 'n) metrics =
  f1_score :: "int list \<Rightarrow> int list \<Rightarrow> string \<Rightarrow> error + 'v"
  roc_auc_score :: "int list \<Rightarrow> int list \<Rightarrow> error + 'v"
  recall_score :: "int list \<Rightarrow> int list \<Rightarrow> string \<Rightarrow> error + 'v"
  precision_score :: "int list \<Rightarrow> int list \<Rightarrow> string \<Rightarrow> error + 'v"
  average_precision_score :: "int list \<Rightarrow> 'v list \<Rightarrow> error + 'v"
  precision_recall_curve :: "int list \<Rightarrow> 'v list \<Rightarrow> error + 'v list \<times> 'v list \<times> 'v list"
  format_2f :: "'v \<Rightarrow> string"
  np_mean :: "'v list \<Rightarrow> 'v"
  np_std :: "'v list \<Rightarrow> 'v"
  round3 :: "'v \<Rightarrow> 'v"
  to_numeric :: "'v option list \<Rightarrow> 'n list"

text \<open>A figure saved by \<^verbatim>\<open>plt.savefig\<close>: the two coordinates drawn, the title and the path.\<close>

record 'v figure =
  fig_recall :: "'v list"
  fig_precision :: "'v list"
  fig_title :: string
  fig_path :: string

text \<open>\<^verbatim>\<open>a[:, 1]\<close> on a two-dimensional array: its second column, or IndexError.\<close>

definition column1 :: "'v list list \<Rightarrow> error + 'v list" where
  "column1 cols = (if 1 < length cols then Inr (cols ! 1) else Inl IndexError)"

definition py_str :: "string option \<Rightarrow> string" where
  "py_str name = (case name of None \<Rightarrow> ''None'' | Some s \<Rightarrow> s)"

text \<open>
  \<^verbatim>\<open>
  def score_report(estimator, X_test, y_test, verbose=False, plot=False, name=None):
      y_true, y_pred = y_test, estimator.predict(X_test)
      y_score = estimator.predict_proba(X_test)
      y_score = y_score[:, 1]
      f1_micr_score = f1_score(y_true, y_pred, average="micro")
      f1_macro_score = f1_score(y_true, y_pred, average="macro")
      f1_s_score = f1_score(y_true, y_pred, average="binary")
      auc = roc_auc_score(y_true, y_pred)
      rec = recall_score(y_true, y_pred, average="binary")
      prec = precision_score(y_true, y_pred, average="binary")
      average_precision = average_precision_score(y_true, y_score)
      ...
      if plot:
          precision, recall, _ = precision_recall_curve(y_true, y_score)
          plt.step(recall, precision, color="r", alpha=0.2, where="post")
          plt.fill_between(recall, precision, step="post", alpha=0.2, color="#F59B00")
          ...
          plt.title(f'{name} \n Precision-Recall curve: AP={average_precision:0.2f}')
          plt.savefig(f"./results/{name} Precision-Recall curve.png")
          plt.clf()
      return {"f1_micr_score": f1_micr_score, "auc_score": auc, "rec_score": rec,
              "prec_score": prec, "f1_macro_score": f1_macro_score, "f1_s_score": f1_s_score,
              "prec_rec_score": average_precision}
  \<close>
  The function returns its dictionary or raises, and lists the figures it saved. Reading
  an attribute the estimator does not have raises AttributeError.
\<close>

definition score_report ::
  "('v, 'n) metrics \<Rightarrow> ('a, 'v) fitted \<Rightarrow> 'a table \<Rightarrow> int list \<Rightarrow> bool \<Rightarrow> string option
     \<Rightarrow> (error + 'v dict) \<times> 'v figure list" where
  "score_report mt estimator X_test y_test plot name =
     (let y_true = y_test;
          scores =
            bindE (predict estimator X_test) (\<lambda>y_pred.
            bindE (case predict_proba estimator of
                     None \<Rightarrow> Inl (AttributeError ''predict_proba'')
                   | Some proba \<Rightarrow> proba X_test) (\<lambda>y_score2.
            bindE (column1 y_score2) (\<lambda>y_score.
            bindE (f1_score mt y_true y_pred ''micro'') (\<lambda>f1_micr_score.
            bindE (f1_score mt y_true y_pred ''macro'') (\<lambda>f1_macro_score.
            bindE (f1_score mt y_true y_pred ''binary'') (\<lambda>f1_s_score.
            bindE (roc_auc_score mt y_true y_pred) (\<lambda>auc.
            bindE (recall_score mt y_true y_pred ''binary'') (\<lambda>rec.
            bindE (precision_score mt y_true y_pred ''binary'') (\<lambda>prec.
            bindE (average_precision_score mt y_true y_score) (\<lambda>average_precision.
              Inr (y_score, average_precision,
                   [(''f1_micr_score'', f1_micr_score), (''auc_score'', auc),
                    (''rec_score'', rec), (''prec_score'', prec),
                    (''f1_macro_score'', f1_macro_score), (''f1_s_score'', f1_s_score),
                    (''prec_rec_score'', average_precision)])))))))))))
      in case scores of
           Inl e \<Rightarrow> (Inl e, [])
         | Inr (y_score, average_precision, result) \<Rightarrow>
             (if plot then
                (case precision_recall_curve mt y_true y_score of
                   Inl e \<Rightarrow> (Inl e, [])
                 | Inr (precision, recall, thresholds) \<Rightarrow>
                     (Inr result,
                      [\<lparr> fig_recall = recall, fig_precision = precision,
                         fig_title = py_str name @ '' '' @ [CHR 0x0A]
                           @ '' Precision-Recall curve: AP='' @ format_2f mt average_precision,
                         fig_path = ''./results/'' @ py_str name
                           @ '' Precision-Recall curve.png'' \<rparr>]))
              else (Inr result, [])))"

text \<open>
  \<^verbatim>\<open>
  def cv_report(estimator, X_train, y_train, balancing=False, n_splits=5,
                scoring_metrics=("f1_micro", "f1_macro", "f1", "roc_auc", "recall", "precision",
                                 "average_precision"),
                random_state=None, n_jobs=-1, verbose=False):
      if balancing:
          cat_shape = np.full((1128,), True, dtype=bool)
          cat_shape[-3:] = False
          smotenc = SMOTENC(categorical_features=cat_shape, random_state=random_state, n_jobs=n_jobs)
          pipeline = make_pipeline(smotenc, estimator)
          kf = StratifiedKFold(n_splits=n_splits, random_state=random_state)
          scores = cross_validate(pipeline, np.asarray(X_train), np.asarray(y_train),
                                  scoring=scoring_metrics, cv=kf, n_jobs=n_jobs, verbose=verbose,
                                  return_train_score=False)
      else:
          kf = StratifiedKFold(n_splits=n_splits, random_state=random_state)
          scores = cross_validate(estimator, np.asarray(X_train), np.asarray(y_train), ...)
      f1_s = np.mean(scores["test_f1_micro"])
      ... (f1_ms, f1_bs, auc_s, rec_s, prec_s, avp_s, then the seven np.std in the same order)
      return {"f1_micr_score": f1_s, "f1_micr_std": f1_std, "auc_score": auc_s, "auc_std": auc_std,
              "rec_score": rec_s, "rec_std": rec_std, "prec_score": prec_s, "prec_std": prec_std,
              "f1_macro_score": f1_ms, "f1_macro_std": f1_mstd, "f1_score": f1_bs,
              "f1_std": f1_bstd, "avp_score": avp_s, "avp_std": avp_std}
  \<close>
\<close>

definition cv_estimator ::
  "('m, 'p) estimator \<Rightarrow> bool \<Rightarrow> int option \<Rightarrow> int \<Rightarrow> ('m, 'p) estimator" where
  "cv_estimator estimator balancing random_state n_jobs =
     (if balancing then
        (let smotenc = SMOTENC cat_shape random_state n_jobs;
             pipeline = Pipeline smotenc estimator
         in pipeline)
      else estimator)"

definition cv_report ::
  "('a, 'v, 'm, 'p, 'grid, 'g) sklearn \<Rightarrow> ('v, 'n) metrics \<Rightarrow> ('m, 'p) estimator \<Rightarrow> 'a table
     \<Rightarrow> int list \<Rightarrow> bool \<Rightarrow> int \<Rightarrow> string list \<Rightarrow> int option \<Rightarrow> int \<Rightarrow> 'g
     \<Rightarrow> (error + 'v dict) \<times> 'g" where
  "cv_report sk mt estimator X_train y_train balancing splits scoring_metrics random_state
       n_jobs g =
     (case cross_validate sk (cv_estimator estimator balancing random_state n_jobs)
             (np_asarray X_train) y_train scoring_metrics
             (StratifiedKFold splits random_state) n_jobs False g of
        (Inl e, g') \<Rightarrow> (Inl e, g')
      | (Inr scores, g') \<Rightarrow>
          (bindE (dict_get scores ''test_f1_micro'') (\<lambda>f1_micro.
           bindE (dict_get scores ''test_f1_macro'') (\<lambda>f1_macro.
           bindE (dict_get scores ''test_f1'') (\<lambda>f1.
           bindE (dict_get scores ''test_roc_auc'') (\<lambda>roc_auc.
           bindE (dict_get scores ''test_recall'') (\<lambda>recall.
           bindE (dict_get scores ''test_precision'') (\<lambda>precision.
           bindE (dict_get scores ''test_average_precision'') (\<lambda>average_precision.
             Inr [(''f1_micr_score'', np_mean mt f1_micro), (''f1_micr_std'', np_std mt f1_micro),
                  (''auc_score'', np_mean mt roc_auc), (''auc_std'', np_std mt roc_auc),
                  (''rec_score'', np_mean mt recall), (''rec_std'', np_std mt recall),
                  (''prec_score'', np_mean mt precision), (''prec_std'', np_std mt precision),
                  (''f1_macro_score'', np_mean mt f1_macro), (''f1_macro_std'', np_std mt f1_macro),
                  (''f1_score'', np_mean mt f1), (''f1_std'', np_std mt f1),
                  (''avp_score'', np_mean mt average_precision),
                  (''avp_std'', np_std mt average_precision)]))))))),
           g'))"

section \<open>Reports over all labels\<close>

text \<open>
  The report is a \<^verbatim>\<open>DataFrame\<close> with a row index: its row labels and its columns. A cell
  is \<open>None\<close> until it is assigned (pandas shows NaN).
\<close>

record 'c report =
  row_index :: "string list"
  cells :: "'c frame"

definition new_report :: "string list \<Rightarrow> string list \<Rightarrow> 'v option report" where
  "new_report cols idx =
     \<lparr> row_index = idx, cells = map (\<lambda>c. (c, map (\<lambda>r. None) idx)) cols \<rparr>"

text \<open>
  \<^verbatim>\<open>report.loc[name, col] = v\<close>: a row label or a column label that the table does not
  have yet is added with unset cells (setting with enlargement), then every cell of a row
  labelled \<open>name\<close> in a column labelled \<open>col\<close> is set.
\<close>

definition loc_set :: "'v option report \<Rightarrow> string \<Rightarrow> string \<Rightarrow> 'v \<Rightarrow> 'v option report" where
  "loc_set rep name col v =
     (let idx = (if name \<in> set (row_index rep) then row_index rep else row_index rep @ [name]);
          widened = (if name \<in> set (row_index rep) then cells rep
                     else map (\<lambda>(c, vs). (c, vs @ [None])) (cells rep));
          cs = (if col \<in> set (columns widened) then widened
                else widened @ [(col, map (\<lambda>r. None) idx)])
      in \<lparr> row_index = idx,
           cells = map (\<lambda>(c, vs).
                     (c, if c = col then map2 (\<lambda>r old. if r = name then Some v else old) idx vs
                         else vs)) cs \<rparr>)"

text \<open>\<^verbatim>\<open>report.apply(pd.to_numeric)\<close>: every column goes through \<^verbatim>\<open>pd.to_numeric\<close>.\<close>

definition apply_to_numeric :: "('v, 'n) metrics \<Rightarrow> 'v option report \<Rightarrow> 'n report" where
  "apply_to_numeric mt rep =
     \<lparr> row_index = row_index rep, cells = map (\<lambda>(c, vs). (c, to_numeric mt vs)) (cells rep) \<rparr>"

text \<open>
  \<^verbatim>\<open>spec_params\<close> is \<^verbatim>\<open>None\<close>, a dictionary from labels to parameter dictionaries, or (for
  the voting ensemble) a list of such dictionaries; \<^verbatim>\<open>if spec_params:\<close> tests that it is
  neither \<^verbatim>\<open>None\<close> nor empty. \<^verbatim>\<open>modelname\<close> is \<^verbatim>\<open>None\<close> or a dictionary from labels to tags.
\<close>

datatype 'p spec_params =
    NoParams
  | ParamDict "'p dict dict"
  | ParamList "'p dict dict list"

fun truthy :: "'p spec_params \<Rightarrow> bool" where
  "truthy NoParams = False"
| "truthy (ParamDict d) = (d \<noteq> [])"
| "truthy (ParamList ds) = (ds \<noteq> [])"

fun by_name :: "'p spec_params \<Rightarrow> string \<Rightarrow> error + 'p dict" where
  "by_name NoParams name = Inl TypeError"
| "by_name (ParamDict d) name = dict_get d name"
| "by_name (ParamList ds) name = Inl TypeError"

fun by_position :: "'p spec_params \<Rightarrow> nat \<Rightarrow> error + 'p dict dict" where
  "by_position NoParams i = Inl TypeError"
| "by_position (ParamDict d) i = Inl (KeyError [char_of (48 + i)])"
| "by_position (ParamList ds) i = (if i < length ds then Inr (ds ! i) else Inl IndexError)"

definition model_tag :: "(string \<rightharpoonup> string) option \<Rightarrow> string \<Rightarrow> error + string" where
  "model_tag modelname name =
     (case modelname of None \<Rightarrow> Inl TypeError | Some d \<Rightarrow> getitem d name)"

text \<open>
  The three families, each constructed and then configured by \<^verbatim>\<open>set_params\<close> from the
  parameter dictionary of the label, the keys read in the order written:
  \<^verbatim>\<open>
      model_temp = SVC(random_state=random_state, probability=True)
      model_temp.set_params(C=spec_params[name]["svc__C"],
                            gamma=spec_params[name]["svc__gamma"],
                            kernel=spec_params[name]["svc__kernel"])
      model_temp = RandomForestClassifier(n_estimators=100, random_state=random_state)
      model_temp.set_params(bootstrap=..., max_depth=..., max_features=...,
                            min_samples_leaf=..., min_samples_split=..., n_estimators=...)
      model_temp = xgb.XGBClassifier(objective="binary:logistic", random_state=random_state)
      model_temp.set_params(colsample_bytree=..., eta=..., gamma=..., max_depth=...,
                            min_child_weight=..., subsample=...)
  \<close>
\<close>

fun read_params :: "'p dict \<Rightarrow> string \<Rightarrow> string list \<Rightarrow> error + (string \<times> 'p) list" where
  "read_params p prefix [] = Inr []"
| "read_params p prefix (k # ks) =
     bindE (dict_get p (prefix @ k)) (\<lambda>v.
     bindE (read_params p prefix ks) (\<lambda>rest. Inr ((k, v) # rest)))"

definition svc_model :: "int option \<Rightarrow> 'p dict \<Rightarrow> error + ('m, 'p) estimator" where
  "svc_model random_state p =
     bindE (read_params p ''svc__'' [''C'', ''gamma'', ''kernel''])
       (\<lambda>ps. Inr (SVC random_state True ps))"

definition rf_model :: "int option \<Rightarrow> 'p dict \<Rightarrow> error + ('m, 'p) estimator" where
  "rf_model random_state p =
     bindE (read_params p ''randomforestclassifier__''
              [''bootstrap'', ''max_depth'', ''max_features'', ''min_samples_leaf'',
               ''min_samples_split'', ''n_estimators''])
       (\<lambda>ps. Inr (RandomForestClassifier 100 random_state ps))"

definition xgb_model :: "int option \<Rightarrow> 'p dict \<Rightarrow> error + ('m, 'p) estimator" where
  "xgb_model random_state p =
     bindE (read_params p ''xgbclassifier__''
              [''colsample_bytree'', ''eta'', ''gamma'', ''max_depth'', ''min_child_weight'',
               ''subsample''])
       (\<lambda>ps. Inr (XGBClassifier ''binary:logistic'' random_state ps))"

text \<open>
  The chain of \<^verbatim>\<open>if modelname[name] == ...\<close> of \<^verbatim>\<open>cv_multi_report\<close>; \<open>None\<close> stands for its
  last branch,
  \<^verbatim>\<open>
              else:
                  print("Please specify used model (SVC, RF, XGB)")
                  return None
  \<close>
  For the tag \<^verbatim>\<open>VotingClassifier\<close> the three members are configured from
  \<^verbatim>\<open>spec_params[0][name]\<close>, \<^verbatim>\<open>spec_params[1][name]\<close> and \<^verbatim>\<open>spec_params[2][name]\<close>.
\<close>

definition cv_model_temp ::
  "(string \<rightharpoonup> string) option \<Rightarrow> 'p spec_params \<Rightarrow> int option \<Rightarrow> int \<Rightarrow> string
     \<Rightarrow> error + ('m, 'p) estimator option" where
  "cv_model_temp modelname spec random_state n_jobs name =
     bindE (model_tag modelname name) (\<lambda>tag.
       if tag = ''SVC'' then
         bindE (by_name spec name) (\<lambda>p.
         bindE (svc_model random_state p) (\<lambda>model_temp. Inr (Some model_temp)))
       else if tag = ''RF'' then
         bindE (by_name spec name) (\<lambda>p.
         bindE (rf_model random_state p) (\<lambda>model_temp. Inr (Some model_temp)))
       else if tag = ''XGB'' then
         bindE (by_name spec name) (\<lambda>p.
         bindE (xgb_model random_state p) (\<lambda>model_temp. Inr (Some model_temp)))
       else if tag = ''VotingClassifier'' then
         bindE (by_position spec 0) (\<lambda>d0. bindE (dict_get d0 name) (\<lambda>p0.
         bindE (svc_model random_state p0) (\<lambda>model_svc.
         bindE (by_position spec 1) (\<lambda>d1. bindE (dict_get d1 name) (\<lambda>p1.
         bindE (rf_model random_state p1) (\<lambda>model_rf.
         bindE (by_position spec 2) (\<lambda>d2. bindE (dict_get d2 name) (\<lambda>p2.
         bindE (xgb_model random_state p2) (\<lambda>model_xgb.
           Inr (Some (VotingClassifier
                  [(''svc'', model_svc), (''rf'', model_rf), (''xgb'', model_xgb)]
                  ''soft'' n_jobs)))))))))))
       else Inr None)"

text \<open>The chain of \<^verbatim>\<open>test_score_multi_report\<close> has no branch for the voting ensemble.\<close>

definition test_model_temp ::
  "(string \<rightharpoonup> string) option \<Rightarrow> 'p spec_params \<Rightarrow> int option \<Rightarrow> string
     \<Rightarrow> error + ('m, 'p) estimator option" where
  "test_model_temp modelname spec random_state name =
     bindE (model_tag modelname name) (\<lambda>tag.
       if tag = ''SVC'' then
         bindE (by_name spec name) (\<lambda>p.
         bindE (svc_model random_state p) (\<lambda>model_temp. Inr (Some model_temp)))
       else if tag = ''RF'' then
         bindE (by_name spec name) (\<lambda>p.
         bindE (rf_model random_state p) (\<lambda>model_temp. Inr (Some model_temp)))
       else if tag = ''XGB'' then
         bindE (by_name spec name) (\<lambda>p.
         bindE (xgb_model random_state p) (\<lambda>model_temp. Inr (Some model_temp)))
       else Inr None)"

text \<open>One assignment \<^verbatim>\<open>report.loc[name, col] = round(float(scores[key]), 3)\<close>.\<close>

definition assign_score ::
  "('v, 'n) metrics \<Rightarrow> 'v dict \<Rightarrow> string \<Rightarrow> string \<Rightarrow> string \<Rightarrow> 'v option report
     \<Rightarrow> error + 'v option report" where
  "assign_score mt scores name col key rep =
     bindE (dict_get scores key) (\<lambda>v. Inr (loc_set rep name col (round3 mt v)))"

fun assign_scores ::
  "('v, 'n) metrics \<Rightarrow> 'v dict \<Rightarrow> string \<Rightarrow> (string \<times> string) list \<Rightarrow> 'v option report
     \<Rightarrow> error + 'v option report" where
  "assign_scores mt scores name [] rep = Inr rep"
| "assign_scores mt scores name ((col, key) # rest) rep =
     bindE (assign_score mt scores name col key rep) (assign_scores mt scores name rest)"

text \<open>
  \<^verbatim>\<open>
  def cv_multi_report(X_train_dic, y_train, out_names, model=None, balancing=False,
                      modelname=None, spec_params=None, random_state=None, n_splits=5,
                      n_jobs=-1, verbose=False):
      report = pd.DataFrame(
          columns=["F1 Binary", "F1 Micro", "F1 Macro", "ROC_AUC", "Recall", "Precision",
                   "Average Precision"],
          index=out_names)
      scoring_metrics = ("f1_micro", "f1_macro", "f1", "roc_auc", "recall", "precision",
                         "average_precision")
      for name in tqdm(out_names):
          if spec_params:
              ... (the chain above gives model_temp, or prints and returns None)
              scores = cv_report(model_temp, X_train_dic[name], y_train[name], ...)
          else:
              scores = cv_report(model, X_train_dic[name], y_train[name], ...)
          report.loc[name, "F1 Micro"] = round(float(scores["f1_micr_score"]), 3)
          report.loc[name, "F1 Macro"] = round(float(scores["f1_macro_score"]), 3)
          report.loc[name, "F1 Binary"] = round(float(scores["f1_score"]), 3)
          report.loc[name, "ROC_AUC"] = round(float(scores["auc_score"]), 3)
          report.loc[name, "Recall"] = round(float(scores["rec_score"]), 3)
          report.loc[name, "Precision"] = round(float(scores["prec_score"]), 3)
          report.loc[name, "Average Precision"] = round(float(scores["avp_score"]), 3)
      report = report.apply(pd.to_numeric)
      return report
  \<close>
  The function returns \<^verbatim>\<open>None\<close> or the report, or raises; with it come the ambient state
  and the lines printed.
\<close>

definition cv_columns :: "string list" where
  "cv_columns = [''F1 Binary'', ''F1 Micro'', ''F1 Macro'', ''ROC_AUC'', ''Recall'',
                 ''Precision'', ''Average Precision'']"

definition scoring_metrics :: "string list" where
  "scoring_metrics = [''f1_micro'', ''f1_macro'', ''f1'', ''roc_auc'', ''recall'', ''precision'',
                      ''average_precision'']"

definition cv_assignments :: "(string \<times> string) list" where
  "cv_assignments =
     [(''F1 Micro'', ''f1_micr_score''), (''F1 Macro'', ''f1_macro_score''),
      (''F1 Binary'', ''f1_score''), (''ROC_AUC'', ''auc_score''), (''Recall'', ''rec_score''),
      (''Precision'', ''prec_score''), (''Average Precision'', ''avp_score'')]"

fun cv_multi_loop ::
  "('a, 'v, 'm, 'p, 'grid, 'g) sklearn \<Rightarrow> ('v, 'n) metrics \<Rightarrow> (string \<rightharpoonup> 'a table)
     \<Rightarrow> (string \<rightharpoonup> int list) \<Rightarrow> ('m, 'p) estimator \<Rightarrow> bool \<Rightarrow> (string \<rightharpoonup> string) option
     \<Rightarrow> 'p spec_params \<Rightarrow> int option \<Rightarrow> int \<Rightarrow> int \<Rightarrow> string list \<Rightarrow> 'v option report \<Rightarrow> 'g
     \<Rightarrow> (error + 'v option report option) \<times> 'g \<times> string list" where
  "cv_multi_loop sk mt X_train_dic y_train model balancing modelname spec random_state splits
       n_jobs [] rep g = (Inr (Some rep), g, [])"
| "cv_multi_loop sk mt X_train_dic y_train model balancing modelname spec random_state splits
       n_jobs (name # names) rep g =
     (case (if truthy spec then cv_model_temp modelname spec random_state n_jobs name
            else Inr (Some model)) of
        Inl e \<Rightarrow> (Inl e, g, [])
      | Inr None \<Rightarrow> (Inr None, g, [''Please specify used model (SVC, RF, XGB)''])
      | Inr (Some estimator) \<Rightarrow>
     (case getitem X_train_dic name of
        Inl e \<Rightarrow> (Inl e, g, [])
      | Inr X \<Rightarrow>
     (case getitem y_train name of
        Inl e \<Rightarrow> (Inl e, g, [])
      | Inr y \<Rightarrow>
     (case cv_report sk mt estimator X y balancing splits scoring_metrics random_state n_jobs g of
        (Inl e, g') \<Rightarrow> (Inl e, g', [])
      | (Inr scores, g') \<Rightarrow>
     (case assign_scores mt scores name cv_assignments rep of
        Inl e \<Rightarrow> (Inl e, g', [])
      | Inr rep' \<Rightarrow>
          cv_multi_loop sk mt X_train_dic y_train model balancing modelname spec random_state
            splits n_jobs names rep' g')))))"

definition cv_multi_report ::
  "('a, 'v, 'm, 'p, 'grid, 'g) sklearn \<Rightarrow> ('v, 'n) metrics \<Rightarrow> (string \<rightharpoonup> 'a table)
     \<Rightarrow> (string \<rightharpoonup> int list) \<Rightarrow> string list \<Rightarrow> ('m, 'p) estimator \<Rightarrow> bool
     \<Rightarrow> (string \<rightharpoonup> string) option \<Rightarrow> 'p spec_params \<Rightarrow> int option \<Rightarrow> int \<Rightarrow> int \<Rightarrow> 'g
     \<Rightarrow> (error + 'n report option) \<times> 'g \<times> string list" where
  "cv_multi_report sk mt X_train_dic y_train out_names model balancing modelname spec
       random_state splits n_jobs g =
     (case cv_multi_loop sk mt X_train_dic y_train model balancing modelname spec random_state
             splits n_jobs out_names (new_report cv_columns out_names) g of
        (Inl e, g', out) \<Rightarrow> (Inl e, g', out)
      | (Inr None, g', out) \<Rightarrow> (Inr None, g', out)
      | (Inr (Some rep), g', out) \<Rightarrow> (Inr (Some (apply_to_numeric mt rep)), g', out))"

text \<open>
  \<^verbatim>\<open>
  def test_score_multi_report(X_train_dic, y_train, X_test, y_test, out_names, model=None,
                              modelname=None, spec_params=None, balancing=False,
                              random_state=None, plot=False, verbose=False, n_jobs=-1):
      report = pd.DataFrame(columns=["F1 Binary", "F1 Micro", "F1 Macro", "ROC_AUC", "Recall",
                                     "Precision"],
                            index=out_names)
      for name in tqdm(out_names):
          if spec_params:
              ... (the chain without the voting ensemble)
          (with model_temp, or with model when spec_params is empty:)
              if balancing:
                  cat_shape = np.full((1128,), True, dtype=bool)
                  cat_shape[-3:] = False
                  smotenc = SMOTENC(categorical_features=cat_shape, random_state=random_state,
                                    n_jobs=n_jobs)
                  pipeline = make_pipeline(smotenc, model_temp)
                  pipeline.fit(np.asarray(X_train_dic[name]), np.asarray(y_train[name]))
                  scores = score_report(pipeline, np.asarray(X_test[name]),
                                        np.asarray(y_test[name]), plot=plot, verbose=verbose,
                                        name=name)
              else:
                  model_temp.fit(np.asarray(X_train_dic[name]), np.asarray(y_train[name]))
                  scores = score_report(model_temp, np.asarray(X_test[name]),
                                        np.asarray(y_test[name]), plot=plot, verbose=verbose,
                                        name=name)
          report.loc[name, "F1 Micro"] = round(float(scores["f1_micr_score"]), 3)
          report.loc[name, "F1 Macro"] = round(float(scores["f1_macro_score"]), 3)
          report.loc[name, "F1 Binary"] = round(float(scores["f1_s_score"]), 3)
          report.loc[name, "ROC_AUC"] = round(float(scores["auc_score"]), 3)
          report.loc[name, "Recall"] = round(float(scores["rec_score"]), 3)
          report.loc[name, "Precision"] = round(float(scores["prec_score"]), 3)
          report.loc[name, "Average Prec-Rec"] = round(float(scores["prec_rec_score"]), 3)
      report = report.apply(pd.to_numeric)
      return report
  \<close>
  \<^verbatim>\<open>model.fit\<close> on \<^verbatim>\<open>None\<close> raises AttributeError before the arguments are read. The
  function also lists the figures \<^verbatim>\<open>score_report\<close> saved.
\<close>

definition test_columns :: "string list" where
  "test_columns = [''F1 Binary'', ''F1 Micro'', ''F1 Macro'', ''ROC_AUC'', ''Recall'',
                   ''Precision'']"

definition test_assignments :: "(string \<times> string) list" where
  "test_assignments =
     [(''F1 Micro'', ''f1_micr_score''), (''F1 Macro'', ''f1_macro_score''),
      (''F1 Binary'', ''f1_s_score''), (''ROC_AUC'', ''auc_score''), (''Recall'', ''rec_score''),
      (''Precision'', ''prec_score''), (''Average Prec-Rec'', ''prec_rec_score'')]"

definition fit_and_score ::
  "('a, 'v, 'm, 'p, 'grid, 'g) sklearn \<Rightarrow> ('v, 'n) metrics \<Rightarrow> (string \<rightharpoonup> 'a table)
     \<Rightarrow> (string \<rightharpoonup> int list) \<Rightarrow> (string \<rightharpoonup> 'a table) \<Rightarrow> (string \<rightharpoonup> int list)
     \<Rightarrow> ('m, 'p) estimator \<Rightarrow> bool \<Rightarrow> int option \<Rightarrow> bool \<Rightarrow> int \<Rightarrow> string \<Rightarrow> 'g
     \<Rightarrow> (error + 'v dict) \<times> 'g \<times> 'v figure list" where
  "fit_and_score sk mt X_train_dic y_train X_test y_test estimator balancing random_state plot
       n_jobs name g =
     (if \<not> balancing \<and> estimator = NoneModel then (Inl (AttributeError ''fit''), g, [])
      else
     (case getitem X_train_dic name of
        Inl e \<Rightarrow> (Inl e, g, [])
      | Inr X \<Rightarrow>
     (case getitem y_train name of
        Inl e \<Rightarrow> (Inl e, g, [])
      | Inr y \<Rightarrow>
     (case fit sk (if balancing then Pipeline (SMOTENC cat_shape random_state n_jobs) estimator
                   else estimator) (np_asarray X) y g of
        (Inl e, g') \<Rightarrow> (Inl e, g', [])
      | (Inr fitted_estimator, g') \<Rightarrow>
     (case getitem X_test name of
        Inl e \<Rightarrow> (Inl e, g', [])
      | Inr Xt \<Rightarrow>
     (case getitem y_test name of
        Inl e \<Rightarrow> (Inl e, g', [])
      | Inr yt \<Rightarrow>
     (case score_report mt fitted_estimator (np_asarray Xt) yt plot (Some name) of
        (r, figs) \<Rightarrow> (r, g', figs))))))))"

fun test_score_loop ::
  "('a, 'v, 'm, 'p, 'grid, 'g) sklearn \<Rightarrow> ('v, 'n) metrics \<Rightarrow> (string \<rightharpoonup> 'a table)
     \<Rightarrow> (string \<rightharpoonup> int list) \<Rightarrow> (string \<rightharpoonup> 'a table) \<Rightarrow> (string \<rightharpoonup> int list)
     \<Rightarrow> ('m, 'p) estimator \<Rightarrow> (string \<rightharpoonup> string) option \<Rightarrow> 'p spec_params \<Rightarrow> bool
     \<Rightarrow> int option \<Rightarrow> bool \<Rightarrow> int \<Rightarrow> string list \<Rightarrow> 'v option report \<Rightarrow> 'g \<Rightarrow> 'v figure list
     \<Rightarrow> (error + 'v option report option) \<times> 'g \<times> string list \<times> 'v figure list" where
  "test_score_loop sk mt X_train_dic y_train X_test y_test model modelname spec balancing
       random_state plot n_jobs [] rep g figs = (Inr (Some rep), g, [], figs)"
| "test_score_loop sk mt X_train_dic y_train X_test y_test model modelname spec balancing
       random_state plot n_jobs (name # names) rep g figs =
     (case (if truthy spec then test_model_temp modelname spec random_state name
            else Inr (Some model)) of
        Inl e \<Rightarrow> (Inl e, g, [], figs)
      | Inr None \<Rightarrow> (Inr None, g, [''Please specify used model (SVC, RF, XGB)''], figs)
      | Inr (Some estimator) \<Rightarrow>
     (case fit_and_score sk mt X_train_dic y_train X_test y_test estimator balancing
             random_state plot n_jobs name g of
        (Inl e, g', saved) \<Rightarrow> (Inl e, g', [], figs @ saved)
      | (Inr scores, g', saved) \<Rightarrow>
     (case assign_scores mt scores name test_assignments rep of
        Inl e \<Rightarrow> (Inl e, g', [], figs @ saved)
      | Inr rep' \<Rightarrow>
          test_score_loop sk mt X_train_dic y_train X_test y_test model modelname spec
            balancing random_state plot n_jobs names rep' g' (figs @ saved))))"

definition test_score_multi_report ::
  "('a, 'v, 'm, 'p, 'grid, 'g) sklearn \<Rightarrow> ('v, 'n) metrics \<Rightarrow> (string \<rightharpoonup> 'a table)
     \<Rightarrow> (string \<rightharpoonup> int list) \<Rightarrow> (string \<rightharpoonup> 'a table) \<Rightarrow> (string \<rightharpoonup> int list) \<Rightarrow> string list
     \<Rightarrow> ('m, 'p) estimator \<Rightarrow> (string \<rightharpoonup> string) option \<Rightarrow> 'p spec_params \<Rightarrow> bool
     \<Rightarrow> int option \<Rightarrow> bool \<Rightarrow> int \<Rightarrow> 'g
     \<Rightarrow> (error + 'n report option) \<times> 'g \<times> string list \<times> 'v figure list" where
  "test_score_multi_report sk mt X_train_dic y_train X_test y_test out_names model modelname
       spec balancing random_state plot n_jobs g =
     (case test_score_loop sk mt X_train_dic y_train X_test y_test model modelname spec
             balancing random_state plot n_jobs out_names (new_report test_columns out_names)
             g [] of
        (Inl e, rest) \<Rightarrow> (Inl e, rest)
      | (Inr None, rest) \<Rightarrow> (Inr None, rest)
      | (Inr (Some rep), rest) \<Rightarrow> (Inr (Some (apply_to_numeric mt rep)), rest))"

section \<open>A library that accepts one mask only\<close>

text \<open>
  To state which mask a function hands to the library, the library is wrapped: \<open>only_mask m sk\<close>
  behaves as \<open>sk\<close> on every call whose balancer carries the mask \<open>m\<close> (and on every call
  without a balancer) and raises on a balancer with any other mask. A function hands over
  no mask but \<open>m\<close> exactly when it runs the same with \<open>only_mask m sk\<close> as with \<open>sk\<close>,
  for every library \<open>sk\<close>.
\<close>

definition mask_ok :: "bool list \<Rightarrow> ('m, 'p) estimator \<Rightarrow> bool" where
  "mask_ok m estimator =
     (case estimator of Pipeline sm e \<Rightarrow> categorical_features sm = m | _ \<Rightarrow> True)"

definition only_mask ::
  "bool list \<Rightarrow> ('a, 'v, 'm, 'p, 'grid, 'g) sklearn \<Rightarrow> ('a, 'v, 'm, 'p, 'grid, 'g) sklearn" where
  "only_mask m sk =
     \<lparr> fit = (\<lambda>estimator X y g.
         if mask_ok m estimator then fit sk estimator X y g else (Inl (Raised ''mask''), g)),
       fit_resample = (\<lambda>sm X y g.
         if categorical_features sm = m then fit_resample sk sm X y g
         else (Inl (Raised ''mask''), g)),
       grid_fit = (\<lambda>search X y g.
         if mask_ok m (gs_estimator search) then grid_fit sk search X y g
         else (Inl (Raised ''mask''), g)),
       randomized_fit = (\<lambda>search X y g.
         if mask_ok m (rs_estimator search) then randomized_fit sk search X y g
         else (Inl (Raised ''mask''), g)),
       cross_validate = (\<lambda>estimator X y scoring kf n_jobs verbose g.
         if mask_ok m estimator then cross_validate sk estimator X y scoring kf n_jobs verbose g
         else (Inl (Raised ''mask''), g)) \<rparr>"

section \<open>A table given by its cells\<close>

text \<open>
  The specification's view of a report: the table with the given row labels and column
  names whose cell in row \<open>r\<close> and column \<open>c\<close> is \<open>cell r c\<close>.
\<close>

definition table_of :: "string list \<Rightarrow> string list \<Rightarrow> (string \<Rightarrow> string \<Rightarrow> 'c) \<Rightarrow> 'c report" where
  "table_of idx cols cell =
     \<lparr> row_index = idx, cells = map (\<lambda>c. (c, map (\<lambda>r. cell r c) idx)) cols \<rparr>"

text \<open>
  The cell of a label in a column, read from the score dictionaries of the runs in label
  order: the rounded score under the key that the column is filled from, taken from the
  last run of that label; unset when the label has no run.
\<close>

definition score_cell ::
  "('v, 'n) metrics \<Rightarrow> (string \<times> string) list \<Rightarrow> (string \<times> 'v dict) list \<Rightarrow> string \<Rightarrow> string
     \<Rightarrow> 'v option" where
  "score_cell mt filled_from runs r c =
     (case map_of (rev runs) r of
        None \<Rightarrow> None
      | Some scores \<Rightarrow>
          (case map_of filled_from c of
             None \<Rightarrow> None
           | Some key \<Rightarrow> map_option (round3 mt) (map_of scores key)))"

section \<open>Remote lookup of SMILES strings\<close>

text \<open>
  \<^verbatim>\<open>
  def get_smile_from_cid(cid):
      ct = re.sub("^CID[0]*", "", cid)
      res = requests.get(f"https://pubchem.ncbi.nlm.nih.gov/rest/pug/compound/cid/{ct}/property/CanonicalSMILES/txt")
      try:
          res.raise_for_status()
      except Exception as e:
          print(f"Problem retrieving smile for {cid}: {e}")
      res_t = res.text.strip("\n")
      return res_t
  \<close>
  The pattern is anchored at the start of the string, so it matches at most once: the
  prefix \<^verbatim>\<open>CID\<close> with the zeros that follow it.
\<close>

definition trim_cid :: "string \<Rightarrow> string" where
  "trim_cid cid =
     (if take 3 cid = ''CID'' then dropWhile (\<lambda>c. c = CHR ''0'') (drop 3 cid) else cid)"

definition smiles_url :: "string \<Rightarrow> string" where
  "smiles_url ct =
     ''https://pubchem.ncbi.nlm.nih.gov/rest/pug/compound/cid/'' @ ct
       @ ''/property/CanonicalSMILES/txt''"

text \<open>\<^verbatim>\<open>s.strip("\n")\<close>: the line feeds at both ends go, those inside stay.\<close>

definition strip_newlines :: "string \<Rightarrow> string" where
  "strip_newlines s =
     rev (dropWhile (\<lambda>c. c = CHR 0x0A) (rev (dropWhile (\<lambda>c. c = CHR 0x0A) s)))"

text \<open>
  The world the function acts on: the state of the network (of type \<open>'n\<close>, known to the
  HTTP client only), the URLs requested so far and the lines printed so far. The client
  is a record of three library functions: \<^verbatim>\<open>requests.get\<close>, which answers a URL in a
  network state with a response or an exception; \<^verbatim>\<open>Response.raise_for_status\<close>, which
  gives the message of the \<^verbatim>\<open>HTTPError\<close> it raises, if it raises; and
  \<^verbatim>\<open>Response.text\<close>.
\<close>

record 'n world =
  net :: 'n
  requested :: "string list"
  stdout :: "string list"

record ('n, 'r) http_client =
  requests_get :: "string \<Rightarrow> 'n \<Rightarrow> (error + 'r) \<times> 'n"
  raise_for_status :: "'r \<Rightarrow> string option"
  response_text :: "'r \<Rightarrow> string"

definition get_smile_from_cid ::
  "('n, 'r) http_client \<Rightarrow> string \<Rightarrow> 'n world \<Rightarrow> (error + string) \<times> 'n world" where
  "get_smile_from_cid http cid w =
     (let ct = trim_cid cid;
          (answer, n) = requests_get http (smiles_url ct) (net w);
          w1 = w\<lparr>net := n, requested := requested w @ [smiles_url ct]\<rparr>
      in case answer of
           Inl e \<Rightarrow> (Inl e, w1)
         | Inr res \<Rightarrow>
             (let w2 = (case raise_for_status http res of
                          None \<Rightarrow> w1
                        | Some e \<Rightarrow>
                            w1\<lparr>stdout := stdout w1
                                 @ [''Problem retrieving smile for '' @ cid @ '': '' @ e]\<rparr>);
                  res_t = strip_newlines (response_text http res)
              in (Inr res_t, w2)))"

text \<open>
  The batch of \<^verbatim>\<open>create_offside_df\<close>:
  \<^verbatim>\<open>
      sti_to_smil = {stitch: get_smile_from_cid(stitch) for stitch in tqdm(stitchs)}
  \<close>
  The comprehension looks the identifiers up one after the other and stores each result
  under its identifier; an exception in one lookup ends the comprehension.
\<close>

fun sti_to_smil_from ::
  "('n, 'r) http_client \<Rightarrow> string list \<Rightarrow> (string \<rightharpoonup> string) \<Rightarrow> 'n world
     \<Rightarrow> (error + (string \<rightharpoonup> string)) \<times> 'n world" where
  "sti_to_smil_from http [] d w = (Inr d, w)"
| "sti_to_smil_from http (stitch # stitchs) d w =
     (case get_smile_from_cid http stitch w of
        (Inl e, w') \<Rightarrow> (Inl e, w')
      | (Inr smile, w') \<Rightarrow> sti_to_smil_from http stitchs (d(stitch \<mapsto> smile)) w')"

definition sti_to_smil ::
  "('n, 'r) http_client \<Rightarrow> string list \<Rightarrow> 'n world \<Rightarrow> (error + (string \<rightharpoonup> string)) \<times> 'n world" where
  "sti_to_smil http stitchs w = sti_to_smil_from http stitchs Map.empty w"

section \<open>Example inputs\<close>

text \<open>
  Small concrete inputs on which the theorems below are instantiated: a descriptor table
  with three columns for two compounds, two labels, and a stand-in for the fitted
  \<^verbatim>\<open>SelectKBest\<close> that answers with a fixed mask per target vector.
\<close>

definition ex_desc :: "int frame" where
  "ex_desc = [(''d1'', [1, 2]), (''d2'', [3, 4]), (''d3'', [5, 6])]"

definition ex_desc_test :: "int frame" where
  "ex_desc_test = [(''d3'', [7]), (''d2'', [8]), (''d1'', [9])]"

definition ex_fp :: "int frame" where
  "ex_fp = [(''0'', [0, 1]), (''1'', [1, 1])]"

definition ex_fp_test :: "int frame" where
  "ex_fp_test = [(''0'', [1]), (''1'', [0])]"

definition ex_skb :: "nat \<Rightarrow> int frame \<Rightarrow> int list \<Rightarrow> error + bool list" where
  "ex_skb k X y = Inr (if y = [0, 1] then [True, False, True] else [False, True, True])"

definition ex_y :: "string \<rightharpoonup> int list" where
  "ex_y = [''L1'' \<mapsto> [0, 1], ''L2'' \<mapsto> [1, 0]]"

text \<open>
  A stand-in for the HTTP client: a response is a status code with a body; the server
  knows compound 2244 only, and \<open>raise_for_status\<close> raises from status 400 on.
\<close>

definition ex_http :: "(unit, nat \<times> string) http_client" where
  "ex_http =
     \<lparr> requests_get = (\<lambda>url n.
         (if url = smiles_url ''2244''
          then Inr (200, ''CC(=O)OC1=CC=CC=C1C(=O)O'' @ [CHR 0x0A])
          else Inr (404, ''Status: 404'' @ [CHR 0x0A] @ ''Code: PUGREST.NotFound'' @ [CHR 0x0A]),
          n)),
       raise_for_status = (\<lambda>res. if 400 \<le> fst res then Some ''404 Client Error'' else None),
       response_text = snd \<rparr>"

definition ex_world :: "unit world" where
  "ex_world = \<lparr> net = (), requested = [], stdout = [] \<rparr>"

text \<open>
  Stand-ins for the metric functions (scores are integers here) and two fitted
  estimators, one with and one without \<^verbatim>\<open>predict_proba\<close>.
\<close>

definition ex_metrics :: "(int, int) metrics" where
  "ex_metrics =
     \<lparr> f1_score = (\<lambda>y_true y_pred average. Inr (int (length (filter id (map2 (=) y_true y_pred))))),
       roc_auc_score = (\<lambda>y_true y_pred. Inr 1),
       recall_score = (\<lambda>y_true y_pred average. Inr 2),
       precision_score = (\<lambda>y_true y_pred average. Inr 3),
       average_precision_score = (\<lambda>y_true y_score. Inr (sum_list y_score)),
       precision_recall_curve = (\<lambda>y_true y_score. Inr (y_score, rev y_score, [])),
       format_2f = (\<lambda>v. if v = 0 then ''0.00'' else ''1.00''),
       np_mean = (\<lambda>vs. sum_list vs div int (length vs)),
       np_std = (\<lambda>vs. 0),
       round3 = id,
       to_numeric = map (\<lambda>c. case c of None \<Rightarrow> - 1 | Some v \<Rightarrow> v) \<rparr>"

definition ex_prob_estimator :: "(int, int) fitted" where
  "ex_prob_estimator =
     \<lparr> predict = (\<lambda>X. Inr [0, 1]),
       predict_proba = Some (\<lambda>X. Inr [[60, 30], [40, 70]]) \<rparr>"

definition ex_label_estimator :: "(int, int) fitted" where
  "ex_label_estimator = \<lparr> predict = (\<lambda>X. Inr [0, 1]), predict_proba = None \<rparr>"

text \<open>
  A stand-in for the library. Its ambient state is a counter; the randomized search draws
  its candidate from its own seed when it has one and from the ambient state otherwise, as
  a component with \<^verbatim>\<open>random_state=None\<close> does.
\<close>

definition ex_sklearn :: "(int, int, unit, int, unit, nat) sklearn" where
  "ex_sklearn =
     \<lparr> fit = (\<lambda>estimator X y g. (Inr ex_prob_estimator, g)),
       fit_resample = (\<lambda>sm X y g. (Inr (X, y), g)),
       grid_fit = (\<lambda>search X y g.
         (Inr \<lparr> mean_test_score = [1], std_test_score = [0], best_params = [(''C'', 1)],
                best_estimator = ex_prob_estimator \<rparr>, g)),
       randomized_fit = (\<lambda>search X y g.
         (case rs_random_state search of
            None \<Rightarrow>
              (Inr \<lparr> mean_test_score = [1], std_test_score = [0],
                     best_params = [(''C'', int g)], best_estimator = ex_prob_estimator \<rparr>,
               Suc g)
          | Some seed \<Rightarrow>
              (Inr \<lparr> mean_test_score = [1], std_test_score = [0],
                     best_params = [(''C'', seed)], best_estimator = ex_prob_estimator \<rparr>,
               g))),
       cross_validate = (\<lambda>estimator X y scoring kf n_jobs verbose g.
         (Inr (map (\<lambda>m. (''test_'' @ m, [1, 3])) scoring), g)) \<rparr>"

definition ex_tables :: "string \<rightharpoonup> int table" where
  "ex_tables = [''L1'' \<mapsto> DataFrame (ex_fp @ [(''d1'', [1, 2]), (''d3'', [5, 6])]),
                ''L2'' \<mapsto> DataFrame (ex_fp @ [(''d2'', [3, 4]), (''d3'', [5, 6])])]"

definition ex_modelname :: "(string \<rightharpoonup> string) option" where
  "ex_modelname = Some [''L1'' \<mapsto> ''SVC'', ''L2'' \<mapsto> ''LogisticRegression'']"

definition ex_spec_params :: "int spec_params" where
  "ex_spec_params =
     ParamDict [(''L1'', [(''svc__C'', 1), (''svc__gamma'', 2), (''svc__kernel'', 3)]),
                (''L2'', [])]"

text \<open>
  A client that cannot reach the server for compound 1 (\<^verbatim>\<open>requests.get\<close> raises), gets
  status 304 with an empty body for compound 3, and is answered as above otherwise.
\<close>

definition ex_offline :: "(unit, nat \<times> string) http_client" where
  "ex_offline =
     ex_http
       \<lparr> requests_get := (\<lambda>url n.
            if url = smiles_url ''1'' then (Inl (Raised ''ConnectionError''), n)
            else if url = smiles_url ''3'' then (Inr (304, []), n)
            else requests_get ex_http url n) \<rparr>"

section \<open>Facts about sequencing\<close>

lemma bindE_Inr_iff: "bindE r f = Inr v \<longleftrightarrow> (\<exists>x. r = Inr x \<and> f x = Inr v)"
  by (cases r) simp_all

section \<open>The union of the per-label selections\<close>

lemma append_new_append: "append_new acc (xs @ ys) = append_new (append_new acc xs) ys"
  by (induction xs arbitrary: acc) simp_all

lemma filter_neq_notin:
  "filter (\<lambda>y. y \<noteq> x) (filter (\<lambda>y. y \<notin> set acc) xs) = filter (\<lambda>y. y \<notin> set (acc @ [x])) xs"
  by (induction xs) auto

lemma append_new_first_appearance:
  "append_new acc xs = acc @ first_appearance (filter (\<lambda>y. y \<notin> set acc) xs)"
proof (induction xs arbitrary: acc)
  case Nil
  show ?case by simp
next
  case (Cons x xs)
  show ?case
  proof (cases "x \<in> set acc")
    case True
    then show ?thesis using Cons.IH [of acc] by simp
  next
    case False
    have "filter (\<lambda>y. y \<notin> set (acc @ [x])) xs = filter (\<lambda>y. y \<noteq> x) (filter (\<lambda>y. y \<notin> set acc) xs)"
      by (rule filter_neq_notin [symmetric])
    with False show ?thesis using Cons.IH [of "acc @ [x]"] by (simp del: filter_filter set_append)
  qed
qed

lemma set_first_appearance: "set (first_appearance xs) = set xs"
proof (induction xs rule: first_appearance.induct)
  case 1
  show ?case by simp
next
  case (2 x xs)
  then show ?case by auto
qed

lemma distinct_first_appearance: "distinct (first_appearance xs)"
proof (induction xs rule: first_appearance.induct)
  case 1
  show ?case by simp
next
  case (2 x xs)
  then show ?case by (simp add: set_first_appearance)
qed

lemma select_multi_loop_collect:
  "select_multi_loop skb k df y_all ns acc =
     (case collect (map (label_selection skb k df y_all) ns) of
        Inl e \<Rightarrow> Inl e
      | Inr sels \<Rightarrow> Inr (append_new acc (concat sels)))"
proof (induction ns arbitrary: acc)
  case Nil
  show ?case by simp
next
  case (Cons n ns)
  show ?case
  proof (cases "label_selection skb k df y_all n")
    case (Inl e)
    then show ?thesis by simp
  next
    case (Inr sel)
    then show ?thesis
      using Cons.IH [of "append_new acc sel"]
      by (simp add: append_new_append split: sum.splits)
  qed
qed

text \<open>
  Claim C6. With a non-empty list of labels, \<^verbatim>\<open>select_best_descriptors_multi\<close> raises
  the first exception of a per-label selection if there is one; otherwise it returns the
  union of the per-label selections in order of first appearance across the labels: no
  name twice, and exactly the names that occur in some per-label selection.
\<close>

theorem select_best_descriptors_multi_union:
  assumes "out_names \<noteq> []"
  shows "case collect (map (label_selection skb k df_desc y_all) out_names) of
           Inl e \<Rightarrow> fst (select_best_descriptors_multi skb k df_desc y_all out_names) = Inl e
         | Inr sels \<Rightarrow>
             fst (select_best_descriptors_multi skb k df_desc y_all out_names)
               = Inr (Some (first_appearance (concat sels)))
             \<and> distinct (first_appearance (concat sels))
             \<and> set (first_appearance (concat sels)) = (\<Union>sel \<in> set sels. set sel)"
proof (cases "collect (map (label_selection skb k df_desc y_all) out_names)")
  case (Inl e)
  with assms show ?thesis
    by (simp add: select_best_descriptors_multi_def select_multi_loop_collect)
next
  case (Inr sels)
  have "append_new [] (concat sels) = first_appearance (concat sels)"
    by (simp add: append_new_first_appearance)
  with Inr assms show ?thesis
    by (simp add: select_best_descriptors_multi_def select_multi_loop_collect
        distinct_first_appearance set_first_appearance)
qed


theorem select_best_descriptors_multi_union_witness:
  "[''L1'', ''L2''] \<noteq> []
   \<and> fst (select_best_descriptors_multi ex_skb 2 ex_desc ex_y [''L1'', ''L2''])
       = Inr (Some [''d1'', ''d3'', ''d2''])"
  using select_best_descriptors_multi_union [of "[''L1'', ''L2'']" ex_skb 2 ex_desc ex_y]
  by (simp add: label_selection_def getitem_def ex_y_def ex_skb_def ex_desc_def loc_mask_def columns_def)

section \<open>The test table takes the columns selected on the training table\<close>

lemma filter_label_single:
  "distinct (map fst df) \<Longrightarrow> s \<in> set (map fst df) \<Longrightarrow> map fst (filter (\<lambda>c. fst c = s) df) = [s]"
proof (induction df)
  case Nil
  then show ?case by simp
next
  case (Cons c df)
  show ?case
  proof (cases "fst c = s")
    case True
    with Cons.prems have "s \<notin> fst ` set df" by auto
    then have "filter (\<lambda>c. fst c = s) df = []" by (auto simp: filter_empty_conv)
    with True show ?thesis by simp
  next
    case False
    with Cons show ?thesis by auto
  qed
qed

lemma loc_labels_columns:
  "distinct (columns df) \<Longrightarrow> loc_labels df sel = Inr sub \<Longrightarrow> columns sub = sel"
proof (induction sel arbitrary: sub)
  case Nil
  then show ?case by (simp add: columns_def)
next
  case (Cons s sel)
  from Cons.prems(2) obtain rest where
    s: "s \<in> set (columns df)" and rest: "loc_labels df sel = Inr rest"
    and sub: "sub = filter (\<lambda>c. fst c = s) df @ rest"
    by (auto split: if_splits sum.splits)
  have "columns rest = sel" using Cons.IH [OF Cons.prems(1) rest] .
  moreover have "map fst (filter (\<lambda>c. fst c = s) df) = [s]"
    using filter_label_single [of df s] Cons.prems(1) s by (simp add: columns_def)
  ultimately show ?case using sub by (simp add: columns_def)
qed

lemma create_dataframes_loop_entries:
  assumes "create_dataframes_loop skb k tr te Xtr Xte y_train names d = Inr d'"
  shows "(\<forall>name \<in> set names. \<exists>y sel dtr dte.
            getitem y_train name = Inr y
          \<and> select_best_descriptors skb k tr y = Inr sel
          \<and> loc_labels tr sel = Inr dtr \<and> loc_labels te sel = Inr dte
          \<and> selected_name d' name = Some (Some sel)
          \<and> train_series_dic d' name = Some (Some (concat_axis1 Xtr dtr))
          \<and> test_series_dic d' name = Some (Some (concat_axis1 Xte dte)))
       \<and> (\<forall>name. name \<notin> set names \<longrightarrow>
            selected_name d' name = selected_name d name
          \<and> train_series_dic d' name = train_series_dic d name
          \<and> test_series_dic d' name = test_series_dic d name)"
  using assms
proof (induction names arbitrary: d)
  case Nil
  then show ?case by simp
next
  case (Cons n names)
  from Cons.prems obtain y sel dtr dte where
    y: "getitem y_train n = Inr y"
    and sel: "select_best_descriptors skb k tr y = Inr sel"
    and dtr: "loc_labels tr sel = Inr dtr" and dte: "loc_labels te sel = Inr dte"
    and rest: "create_dataframes_loop skb k tr te Xtr Xte y_train names
        \<lparr> train_series_dic = (train_series_dic d)(n \<mapsto> Some (concat_axis1 Xtr dtr)),
          test_series_dic = (test_series_dic d)(n \<mapsto> Some (concat_axis1 Xte dte)),
          selected_name = (selected_name d)(n \<mapsto> Some sel) \<rparr> = Inr d'"
    by (auto split: sum.splits)
  note IH = Cons.IH [OF rest]
  show ?case
  proof (intro conjI ballI allI impI)
    fix name assume "name \<in> set (n # names)"
    show "\<exists>y sel dtr dte.
            getitem y_train name = Inr y
          \<and> select_best_descriptors skb k tr y = Inr sel
          \<and> loc_labels tr sel = Inr dtr \<and> loc_labels te sel = Inr dte
          \<and> selected_name d' name = Some (Some sel)
          \<and> train_series_dic d' name = Some (Some (concat_axis1 Xtr dtr))
          \<and> test_series_dic d' name = Some (Some (concat_axis1 Xte dte))"
    proof (cases "name \<in> set names")
      case True
      with IH show ?thesis by blast
    next
      case False
      with \<open>name \<in> set (n # names)\<close> have "name = n" by simp
      with False IH y sel dtr dte show ?thesis by simp
    qed
  next
    fix name assume "name \<notin> set (n # names)"
    with IH show "selected_name d' name = selected_name d name" by simp
  next
    fix name assume "name \<notin> set (n # names)"
    with IH show "train_series_dic d' name = train_series_dic d name" by simp
  next
    fix name assume "name \<notin> set (n # names)"
    with IH show "test_series_dic d' name = test_series_dic d name" by simp
  qed
qed

lemma create_dataframes_loop_test_free:
  assumes "create_dataframes_loop skb k tr te Xtr Xte y_train names d = Inr d'"
    and "create_dataframes_loop skb k tr te2 Xtr Xte2 y_train names e = Inr e'"
    and "selected_name d = selected_name e" and "train_series_dic d = train_series_dic e"
  shows "selected_name d' = selected_name e' \<and> train_series_dic d' = train_series_dic e'"
  using assms
proof (induction names arbitrary: d e)
  case Nil
  then show ?case by simp
next
  case (Cons n names)
  from Cons.prems(1) obtain y sel dtr dte where
    y: "getitem y_train n = Inr y"
    and sel: "select_best_descriptors skb k tr y = Inr sel"
    and dtr: "loc_labels tr sel = Inr dtr" and dte: "loc_labels te sel = Inr dte"
    and rest: "create_dataframes_loop skb k tr te Xtr Xte y_train names
        \<lparr> train_series_dic = (train_series_dic d)(n \<mapsto> Some (concat_axis1 Xtr dtr)),
          test_series_dic = (test_series_dic d)(n \<mapsto> Some (concat_axis1 Xte dte)),
          selected_name = (selected_name d)(n \<mapsto> Some sel) \<rparr> = Inr d'"
    by (auto split: sum.splits)
  from Cons.prems(2) y sel dtr obtain dte2 where
    rest2: "create_dataframes_loop skb k tr te2 Xtr Xte2 y_train names
        \<lparr> train_series_dic = (train_series_dic e)(n \<mapsto> Some (concat_axis1 Xtr dtr)),
          test_series_dic = (test_series_dic e)(n \<mapsto> Some (concat_axis1 Xte2 dte2)),
          selected_name = (selected_name e)(n \<mapsto> Some sel) \<rparr> = Inr e'"
    by (auto split: sum.splits)
  show ?case
    by (rule Cons.IH [OF rest rest2]) (simp_all add: Cons.prems(3,4))
qed

text \<open>
  Claim C1. When \<^verbatim>\<open>create_dataframes_dic\<close> returns, then for every label of \<open>out_names\<close>
  the list recorded in \<open>selected_name\<close> is the selection computed from the training
  descriptor table and that label's training target vector; the training table and the
  test table of the label are the fingerprint columns followed by the columns that this
  one list picks from the training and from the test descriptor table (their names are
  the list itself when column names do not repeat); and the recorded lists do not depend
  on the test tables at all.
\<close>

theorem create_dataframes_dic_same_columns:
  assumes "create_dataframes_dic skb k df_desc_base_train df_desc_base_test X_train_fp
             X_test_fp y_train out_names = Inr d"
    and "name \<in> set out_names"
  shows "\<exists>y sel_col df_desc_train df_desc_test.
           getitem y_train name = Inr y
         \<and> select_best_descriptors skb k df_desc_base_train y = Inr sel_col
         \<and> selected_name d name = Some (Some sel_col)
         \<and> loc_labels df_desc_base_train sel_col = Inr df_desc_train
         \<and> train_series_dic d name = Some (Some (concat_axis1 X_train_fp df_desc_train))
         \<and> loc_labels df_desc_base_test sel_col = Inr df_desc_test
         \<and> test_series_dic d name = Some (Some (concat_axis1 X_test_fp df_desc_test))
         \<and> (distinct (columns df_desc_base_train) \<longrightarrow> columns df_desc_train = sel_col)
         \<and> (distinct (columns df_desc_base_test) \<longrightarrow> columns df_desc_test = sel_col)
         \<and> (\<forall>other_test other_fp d2.
               create_dataframes_dic skb k df_desc_base_train other_test X_train_fp other_fp
                 y_train out_names = Inr d2
               \<longrightarrow> selected_name d2 = selected_name d)"
proof -
  from assms(1) have loop:
    "create_dataframes_loop skb k df_desc_base_train df_desc_base_test X_train_fp X_test_fp
       y_train out_names
       \<lparr> train_series_dic = dict_fromkeys out_names, test_series_dic = dict_fromkeys out_names,
         selected_name = dict_fromkeys out_names \<rparr> = Inr d"
    by (simp add: create_dataframes_dic_def)
  from create_dataframes_loop_entries [OF loop] assms(2)
  obtain y sel_col df_desc_train df_desc_test where
    e: "getitem y_train name = Inr y"
      "select_best_descriptors skb k df_desc_base_train y = Inr sel_col"
      "loc_labels df_desc_base_train sel_col = Inr df_desc_train"
      "loc_labels df_desc_base_test sel_col = Inr df_desc_test"
      "selected_name d name = Some (Some sel_col)"
      "train_series_dic d name = Some (Some (concat_axis1 X_train_fp df_desc_train))"
      "test_series_dic d name = Some (Some (concat_axis1 X_test_fp df_desc_test))"
    by blast
  have tr: "distinct (columns df_desc_base_train) \<longrightarrow> columns df_desc_train = sel_col"
    using loc_labels_columns e(3) by blast
  have te: "distinct (columns df_desc_base_test) \<longrightarrow> columns df_desc_test = sel_col"
    using loc_labels_columns e(4) by blast
  have free: "selected_name d2 = selected_name d"
    if "create_dataframes_dic skb k df_desc_base_train other_test X_train_fp other_fp
          y_train out_names = Inr d2" for other_test other_fp d2
  proof -
    from that have loop2:
      "create_dataframes_loop skb k df_desc_base_train other_test X_train_fp other_fp
         y_train out_names
         \<lparr> train_series_dic = dict_fromkeys out_names, test_series_dic = dict_fromkeys out_names,
           selected_name = dict_fromkeys out_names \<rparr> = Inr d2"
      by (simp add: create_dataframes_dic_def)
    from create_dataframes_loop_test_free [OF loop2 loop] show ?thesis by simp
  qed
  from e tr te free show ?thesis by blast
qed

theorem create_dataframes_dic_same_columns_witness:
  "\<exists>d. create_dataframes_dic ex_skb 2 ex_desc ex_desc_test ex_fp ex_fp_test ex_y [''L1'', ''L2'']
         = Inr d
     \<and> ''L1'' \<in> set [''L1'', ''L2'']
     \<and> selected_name d ''L1'' = Some (Some [''d1'', ''d3''])
     \<and> map_option (map_option columns) (train_series_dic d ''L1'')
         = Some (Some [''0'', ''1'', ''d1'', ''d3''])
     \<and> map_option (map_option columns) (test_series_dic d ''L1'')
         = Some (Some [''0'', ''1'', ''d1'', ''d3''])"
proof -
  obtain d where d:
    "create_dataframes_dic ex_skb 2 ex_desc ex_desc_test ex_fp ex_fp_test ex_y [''L1'', ''L2'']
       = Inr d"
    by (simp add: create_dataframes_dic_def select_best_descriptors_def getitem_def
        loc_mask_def columns_def ex_skb_def ex_desc_def ex_desc_test_def ex_y_def)
  have mem: "''L1'' \<in> set [''L1'', ''L2'']" by simp
  from create_dataframes_dic_same_columns [OF d mem]
  obtain y sel_col df_desc_train df_desc_test where
    e: "getitem ex_y ''L1'' = Inr y"
      "select_best_descriptors ex_skb 2 ex_desc y = Inr sel_col"
      "selected_name d ''L1'' = Some (Some sel_col)"
      "loc_labels ex_desc sel_col = Inr df_desc_train"
      "train_series_dic d ''L1'' = Some (Some (concat_axis1 ex_fp df_desc_train))"
      "loc_labels ex_desc_test sel_col = Inr df_desc_test"
      "test_series_dic d ''L1'' = Some (Some (concat_axis1 ex_fp_test df_desc_test))"
    by blast
  from e(1) have y: "y = [0, 1]" by (simp add: getitem_def ex_y_def)
  from e(2) have sel: "sel_col = [''d1'', ''d3'']"
    by (simp add: y select_best_descriptors_def loc_mask_def columns_def ex_skb_def ex_desc_def)
  from e(4) have tr: "columns df_desc_train = [''d1'', ''d3'']"
    by (auto simp: sel columns_def ex_desc_def)
  from e(6) have te: "columns df_desc_test = [''d1'', ''d3'']"
    by (auto simp: sel columns_def ex_desc_test_def)
  have "map_option (map_option columns) (train_series_dic d ''L1'')
          = Some (Some [''0'', ''1'', ''d1'', ''d3''])"
    using tr by (simp add: e(5) concat_axis1_def columns_def ex_fp_def)
  moreover have "map_option (map_option columns) (test_series_dic d ''L1'')
          = Some (Some [''0'', ''1'', ''d1'', ''d3''])"
    using te by (simp add: e(7) concat_axis1_def columns_def ex_fp_test_def)
  ultimately show ?thesis using d mem e(3) sel by blast
qed

section \<open>The mask of categorical features is a constant\<close>

lemma cat_shape_eq: "cat_shape = replicate 1125 True @ replicate 3 False"
  by (simp add: cat_shape_def set_last_def np_full_def)

lemma takeWhile_two_blocks:
  "takeWhile id (replicate a True @ replicate b False) = replicate a True"
  by (induction a) (cases b, simp_all)

lemma two_blocks_eq:
  "replicate a True @ replicate b False = replicate c True @ replicate d False
     \<longleftrightarrow> a = c \<and> b = d"
proof
  assume eq: "replicate a True @ replicate b False = replicate c True @ replicate d False"
  then have "takeWhile id (replicate a True @ replicate b False)
           = takeWhile id (replicate c True @ replicate d False)" by (rule arg_cong)
  then have "replicate a True = replicate c True" by (simp only: takeWhile_two_blocks)
  then have ac: "a = c" by (simp add: replicate_eq_replicate)
  from eq have "length (replicate a True @ replicate b False)
              = length (replicate c True @ replicate d False)" by (rule arg_cong)
  with ac show "a = c \<and> b = d" by simp
next
  assume "a = c \<and> b = d"
  then show "replicate a True @ replicate b False = replicate c True @ replicate d False"
    by simp
qed

lemma grid_search_only_mask:
  "grid_search (only_mask cat_shape sk) X_train y_train model grid True splits scoring n_jobs
     random_state g
   = grid_search sk X_train y_train model grid True splits scoring n_jobs random_state g"
  by (simp add: grid_search_def GridSearchCV_def only_mask_def mask_ok_def SMOTENC_def)

lemma random_search_only_mask:
  "random_search (only_mask cat_shape sk) X_train y_train model grid True n_iter splits scoring
     n_jobs random_state g
   = random_search sk X_train y_train model grid True n_iter splits scoring n_jobs random_state g"
  by (simp add: random_search_def RandomizedSearchCV_def only_mask_def mask_ok_def SMOTENC_def)

lemma cv_report_only_mask:
  "cv_report (only_mask cat_shape sk) mt estimator X_train y_train True splits metric_names
     random_state n_jobs g
   = cv_report sk mt estimator X_train y_train True splits metric_names random_state n_jobs g"
  by (simp add: cv_report_def cv_estimator_def only_mask_def mask_ok_def SMOTENC_def)

lemma balance_loop_only_mask:
  "balance_loop (only_mask cat_shape sk) random_state n_jobs X_train_dic y_train_dic labels bal g
   = balance_loop sk random_state n_jobs X_train_dic y_train_dic labels bal g"
proof (induction labels arbitrary: bal g)
  case Nil
  show ?case by simp
next
  case (Cons label labels)
  have "fit_resample (only_mask cat_shape sk) (SMOTENC cat_shape random_state n_jobs)
          = fit_resample sk (SMOTENC cat_shape random_state n_jobs)"
    by (simp add: only_mask_def SMOTENC_def)
  then show ?case by (simp add: Cons.IH split: sum.splits prod.splits)
qed

lemma fit_and_score_only_mask:
  "fit_and_score (only_mask cat_shape sk) mt X_train_dic y_train X_test y_test estimator True
     random_state plot n_jobs name g
   = fit_and_score sk mt X_train_dic y_train X_test y_test estimator True random_state plot
     n_jobs name g"
proof -
  have "fit (only_mask cat_shape sk) (Pipeline (SMOTENC cat_shape random_state n_jobs) estimator)
          = fit sk (Pipeline (SMOTENC cat_shape random_state n_jobs) estimator)"
    by (simp add: only_mask_def mask_ok_def SMOTENC_def)
  then show ?thesis by (simp add: fit_and_score_def split: sum.splits prod.splits)
qed

lemma test_score_loop_only_mask:
  "test_score_loop (only_mask cat_shape sk) mt X_train_dic y_train X_test y_test model modelname
     spec True random_state plot n_jobs names rep g figs
   = test_score_loop sk mt X_train_dic y_train X_test y_test model modelname spec True
     random_state plot n_jobs names rep g figs"
proof (induction names arbitrary: rep g figs)
  case Nil
  show ?case by simp
next
  case (Cons name names)
  show ?case
    by (simp add: fit_and_score_only_mask Cons.IH split: sum.splits option.splits prod.splits)
qed

lemma cv_multi_loop_only_mask:
  "cv_multi_loop (only_mask cat_shape sk) mt X_train_dic y_train model True modelname spec
     random_state splits n_jobs names rep g
   = cv_multi_loop sk mt X_train_dic y_train model True modelname spec random_state splits
     n_jobs names rep g"
proof (induction names arbitrary: rep g)
  case Nil
  show ?case by simp
next
  case (Cons name names)
  show ?case
    by (simp add: cv_report_only_mask Cons.IH split: sum.splits option.splits prod.splits)
qed

lemma grid_search_refused:
  assumes "m \<noteq> cat_shape"
  shows "grid_search (only_mask m sk) X_train y_train model grid True splits scoring n_jobs
           random_state g = (Inl (Raised ''mask''), g)"
  using assms
  by (auto simp: grid_search_def GridSearchCV_def only_mask_def mask_ok_def SMOTENC_def)

lemma random_search_refused:
  assumes "m \<noteq> cat_shape"
  shows "random_search (only_mask m sk) X_train y_train model grid True n_iter splits scoring
           n_jobs random_state g = (Inl (Raised ''mask''), g)"
  using assms
  by (auto simp: random_search_def RandomizedSearchCV_def only_mask_def mask_ok_def SMOTENC_def)

lemma cv_report_refused:
  assumes "m \<noteq> cat_shape"
  shows "cv_report (only_mask m sk) mt estimator X_train y_train True splits metric_names
           random_state n_jobs g = (Inl (Raised ''mask''), g)"
  using assms
  by (auto simp: cv_report_def cv_estimator_def only_mask_def mask_ok_def SMOTENC_def)

lemma balance_dataset_refused:
  assumes "m \<noteq> cat_shape" and "X_train_dic label = Some X" and "y_train_dic label = Some y"
  shows "balance_dataset (only_mask m sk) X_train_dic y_train_dic (label # labels) random_state
           n_jobs g = (Inl (Raised ''mask''), g)"
proof -
  have "fit_resample (only_mask m sk) (SMOTENC cat_shape random_state n_jobs) X y g
          = (Inl (Raised ''mask''), g)"
    using assms(1) by (auto simp: only_mask_def SMOTENC_def)
  then show ?thesis using assms(2,3) by (simp add: balance_dataset_def getitem_def)
qed

lemma test_score_multi_report_refused:
  assumes "m \<noteq> cat_shape" and "\<not> truthy spec"
    and "X_train_dic name = Some X" and "y_train name = Some y"
  shows "test_score_multi_report (only_mask m sk) mt X_train_dic y_train X_test y_test
           (name # names) model modelname spec True random_state plot n_jobs g
         = (Inl (Raised ''mask''), g, [], [])"
proof -
  have "fit (only_mask m sk) (Pipeline (SMOTENC cat_shape random_state n_jobs) model)
          (np_asarray X) y g = (Inl (Raised ''mask''), g)"
    using assms(1) by (auto simp: only_mask_def mask_ok_def SMOTENC_def)
  then have "fit_and_score (only_mask m sk) mt X_train_dic y_train X_test y_test model True
               random_state plot n_jobs name g = (Inl (Raised ''mask''), g, [])"
    using assms(3,4) by (simp add: fit_and_score_def getitem_def)
  then show ?thesis using assms(2) by (simp add: test_score_multi_report_def)
qed

text \<open>
  Claim C7, as amended. Each of the five functions that balance (\<^verbatim>\<open>balance_dataset\<close>, and
  \<^verbatim>\<open>grid_search\<close>, \<^verbatim>\<open>random_search\<close>, \<^verbatim>\<open>cv_report\<close>, \<^verbatim>\<open>test_score_multi_report\<close> called with
  \<^verbatim>\<open>balancing=True\<close>) hands one and the same mask to the library, whatever matrix it is
  given: 1128 entries, the first 1125 true (categorical) and the last 3 false (continuous).
  Each function runs unchanged with a library that refuses every other mask, and it is
  refused by a library that accepts any one other mask only (for the two functions that
  loop over labels: at the first label, once its tables are found). That mask is the mask
  of a matrix of fingerprint columns followed by descriptor columns exactly when the
  matrix has 1125 fingerprint columns and 3 descriptor columns.
\<close>

theorem balancing_sites_fixed_mask:
  "cat_shape = replicate 1125 True @ replicate 3 False
   \<and> (layout_mask fingerprints descriptors = replicate 1125 True @ replicate 3 False
        \<longleftrightarrow> length fingerprints = 1125 \<and> length descriptors = 3)
   \<and> balance_dataset (only_mask (replicate 1125 True @ replicate 3 False) sk) X_train_dic
        y_train_dic out_names random_state n_jobs g
      = balance_dataset sk X_train_dic y_train_dic out_names random_state n_jobs g
   \<and> grid_search (only_mask (replicate 1125 True @ replicate 3 False) sk) X_train y_train model
        grid True splits scoring n_jobs random_state g
      = grid_search sk X_train y_train model grid True splits scoring n_jobs random_state g
   \<and> random_search (only_mask (replicate 1125 True @ replicate 3 False) sk) X_train y_train
        model grid True n_iter splits scoring n_jobs random_state g
      = random_search sk X_train y_train model grid True n_iter splits scoring n_jobs
          random_state g
   \<and> cv_report (only_mask (replicate 1125 True @ replicate 3 False) sk) mt model X_train
        y_train True splits metric_names random_state n_jobs g
      = cv_report sk mt model X_train y_train True splits metric_names random_state n_jobs g
   \<and> test_score_multi_report (only_mask (replicate 1125 True @ replicate 3 False) sk) mt
        X_train_dic y_train_dic X_test_dic y_test_dic out_names model modelname spec True
        random_state plot n_jobs g
      = test_score_multi_report sk mt X_train_dic y_train_dic X_test_dic y_test_dic out_names
          model modelname spec True random_state plot n_jobs g
   \<and> (m \<noteq> replicate 1125 True @ replicate 3 False \<longrightarrow>
        grid_search (only_mask m sk) X_train y_train model grid True splits scoring n_jobs
          random_state g = (Inl (Raised ''mask''), g)
      \<and> random_search (only_mask m sk) X_train y_train model grid True n_iter splits scoring
          n_jobs random_state g = (Inl (Raised ''mask''), g)
      \<and> cv_report (only_mask m sk) mt model X_train y_train True splits metric_names
          random_state n_jobs g = (Inl (Raised ''mask''), g)
      \<and> (X_train_dic label = Some X_train \<and> y_train_dic label = Some y_train \<longrightarrow>
            balance_dataset (only_mask m sk) X_train_dic y_train_dic (label # out_names)
              random_state n_jobs g = (Inl (Raised ''mask''), g)
          \<and> (\<not> truthy spec \<longrightarrow>
               test_score_multi_report (only_mask m sk) mt X_train_dic y_train_dic X_test_dic
                 y_test_dic (label # out_names) model modelname spec True random_state plot
                 n_jobs g = (Inl (Raised ''mask''), g, [], []))))"
proof -
  have eq: "replicate 1125 True @ replicate 3 False = cat_shape" by (simp add: cat_shape_eq)
  show ?thesis
    unfolding eq
  proof (intro conjI impI)
    show "cat_shape = cat_shape" by simp
    show "layout_mask fingerprints descriptors = cat_shape
            \<longleftrightarrow> length fingerprints = 1125 \<and> length descriptors = 3"
      by (simp only: cat_shape_eq layout_mask_def two_blocks_eq)
    show "balance_dataset (only_mask cat_shape sk) X_train_dic y_train_dic out_names
            random_state n_jobs g
          = balance_dataset sk X_train_dic y_train_dic out_names random_state n_jobs g"
      by (simp add: balance_dataset_def balance_loop_only_mask)
    show "grid_search (only_mask cat_shape sk) X_train y_train model grid True splits scoring
            n_jobs random_state g
          = grid_search sk X_train y_train model grid True splits scoring n_jobs random_state g"
      by (rule grid_search_only_mask)
    show "random_search (only_mask cat_shape sk) X_train y_train model grid True n_iter splits
            scoring n_jobs random_state g
          = random_search sk X_train y_train model grid True n_iter splits scoring n_jobs
              random_state g"
      by (rule random_search_only_mask)
    show "cv_report (only_mask cat_shape sk) mt model X_train y_train True splits metric_names
            random_state n_jobs g
          = cv_report sk mt model X_train y_train True splits metric_names random_state n_jobs g"
      by (rule cv_report_only_mask)
    show "test_score_multi_report (only_mask cat_shape sk) mt X_train_dic y_train_dic
            X_test_dic y_test_dic out_names model modelname spec True random_state plot n_jobs g
          = test_score_multi_report sk mt X_train_dic y_train_dic X_test_dic y_test_dic
              out_names model modelname spec True random_state plot n_jobs g"
      by (simp add: test_score_multi_report_def test_score_loop_only_mask)
  next
    assume "m \<noteq> cat_shape"
    then show "grid_search (only_mask m sk) X_train y_train model grid True splits scoring
                 n_jobs random_state g = (Inl (Raised ''mask''), g)"
      by (rule grid_search_refused)
  next
    assume "m \<noteq> cat_shape"
    then show "random_search (only_mask m sk) X_train y_train model grid True n_iter splits
                 scoring n_jobs random_state g = (Inl (Raised ''mask''), g)"
      by (rule random_search_refused)
  next
    assume "m \<noteq> cat_shape"
    then show "cv_report (only_mask m sk) mt model X_train y_train True splits metric_names
                 random_state n_jobs g = (Inl (Raised ''mask''), g)"
      by (rule cv_report_refused)
  next
    assume "m \<noteq> cat_shape"
      and "X_train_dic label = Some X_train \<and> y_train_dic label = Some y_train"
    then show "balance_dataset (only_mask m sk) X_train_dic y_train_dic (label # out_names)
                 random_state n_jobs g = (Inl (Raised ''mask''), g)"
      by (intro balance_dataset_refused) simp_all
  next
    assume "m \<noteq> cat_shape"
      and "X_train_dic label = Some X_train \<and> y_train_dic label = Some y_train"
      and "\<not> truthy spec"
    then show "test_score_multi_report (only_mask m sk) mt X_train_dic y_train_dic X_test_dic
                 y_test_dic (label # out_names) model modelname spec True random_state plot
                 n_jobs g = (Inl (Raised ''mask''), g, [], [])"
      by (intro test_score_multi_report_refused) simp_all
  qed
qed

theorem balancing_sites_fixed_mask_witness:
  "layout_mask ex_fp [(''d1'', [1, 2]), (''d3'', [5, 6])] \<noteq> replicate 1125 True @ replicate 3 False
   \<and> ex_tables ''L1'' = Some (DataFrame (ex_fp @ [(''d1'', [1, 2]), (''d3'', [5, 6])]))
   \<and> ex_y ''L1'' = Some [0, 1]
   \<and> \<not> truthy (NoParams :: int spec_params)
   \<and> grid_search (only_mask (layout_mask ex_fp [(''d1'', [1, 2]), (''d3'', [5, 6])]) ex_sklearn)
        (DataFrame (ex_fp @ [(''d1'', [1, 2]), (''d3'', [5, 6])])) [0, 1] (Model ()) () True 5
        ''f1'' (- 1) (Some 0) 0
      = (Inl (Raised ''mask''), 0)
   \<and> balance_dataset (only_mask (layout_mask ex_fp [(''d1'', [1, 2]), (''d3'', [5, 6])]) ex_sklearn)
        ex_tables ex_y (''L1'' # [''L2'']) (Some 0) (- 1) 0
      = (Inl (Raised ''mask''), 0)
   \<and> test_score_multi_report
        (only_mask (layout_mask ex_fp [(''d1'', [1, 2]), (''d3'', [5, 6])]) ex_sklearn) ex_metrics
        ex_tables ex_y ex_tables ex_y (''L1'' # [''L2'']) (Model ()) None NoParams True (Some 0)
        False (- 1) 0
      = (Inl (Raised ''mask''), 0, [], [])"
proof -
  have ne: "layout_mask ex_fp [(''d1'', [1, 2]), (''d3'', [5::int, 6])]
              \<noteq> replicate 1125 True @ replicate 3 False"
  proof
    assume "layout_mask ex_fp [(''d1'', [1, 2]), (''d3'', [5::int, 6])]
              = replicate 1125 True @ replicate 3 False"
    then have "length (layout_mask ex_fp [(''d1'', [1, 2]), (''d3'', [5::int, 6])])
              = length (replicate 1125 True @ replicate 3 False)" by (rule arg_cong)
    then show False by (simp add: layout_mask_def ex_fp_def)
  qed
  have x: "ex_tables ''L1'' = Some (DataFrame (ex_fp @ [(''d1'', [1, 2]), (''d3'', [5, 6])]))"
    by (simp add: ex_tables_def)
  have y: "ex_y ''L1'' = Some [0, 1]" by (simp add: ex_y_def)
  have t: "\<not> truthy (NoParams :: int spec_params)" by simp
  note inst = balancing_sites_fixed_mask
    [where m = "layout_mask ex_fp [(''d1'', [1, 2]), (''d3'', [5, 6])]" and sk = ex_sklearn
      and X_train = "DataFrame (ex_fp @ [(''d1'', [1, 2]), (''d3'', [5, 6])])"
      and y_train = "[0, 1]" and model = "Model ()" and grid = "()" and splits = 5
      and scoring = "''f1''" and n_jobs = "- 1" and random_state = "Some 0" and g = 0
      and X_train_dic = ex_tables and y_train_dic = ex_y and label = "''L1''"
      and out_names = "[''L2'']" and spec = NoParams and mt = ex_metrics
      and X_test_dic = ex_tables and y_test_dic = ex_y and modelname = None and plot = False]
  from inst ne x y t show ?thesis by blast
qed

text \<open>
  Claim C7 as stated fails. The training table that \<^verbatim>\<open>create_dataframes_dic\<close> builds from a
  fingerprint of two columns and two selected descriptors has four columns, and its mask
  has four entries; \<^verbatim>\<open>balance_dataset\<close> runs on it with a library that takes any mask, and
  is refused by the library that accepts the mask of that table only: the mask it hands
  over is the constant of 1128 entries.
\<close>

theorem fixed_mask_counterexample:
  "ncols (DataFrame (concat_axis1 ex_fp [(''d1'', [1, 2]), (''d3'', [5, 6])])) = 4
   \<and> length (layout_mask ex_fp [(''d1'', [1, 2]), (''d3'', [5, 6])]) = 4
   \<and> length cat_shape = 1128
   \<and> fst (balance_dataset ex_sklearn
            [''L1'' \<mapsto> DataFrame (concat_axis1 ex_fp [(''d1'', [1, 2]), (''d3'', [5, 6])])]
            ex_y [''L1''] (Some 0) (- 1) 0)
       \<noteq> Inl (Raised ''mask'')
   \<and> fst (balance_dataset
            (only_mask (layout_mask ex_fp [(''d1'', [1, 2]), (''d3'', [5, 6])]) ex_sklearn)
            [''L1'' \<mapsto> DataFrame (concat_axis1 ex_fp [(''d1'', [1, 2]), (''d3'', [5, 6])])]
            ex_y [''L1''] (Some 0) (- 1) 0)
       = Inl (Raised ''mask'')"
proof -
  have l: "length cat_shape = 1128" by (simp add: cat_shape_eq)
  have m: "length (layout_mask ex_fp [(''d1'', [1, 2]), (''d3'', [5::int, 6])]) = 4"
    by (simp add: layout_mask_def ex_fp_def)
  have ne: "cat_shape \<noteq> layout_mask ex_fp [(''d1'', [1, 2]), (''d3'', [5::int, 6])]"
  proof
    assume "cat_shape = layout_mask ex_fp [(''d1'', [1, 2]), (''d3'', [5::int, 6])]"
    then have "length cat_shape = length (layout_mask ex_fp [(''d1'', [1, 2]), (''d3'', [5::int, 6])])"
      by (rule arg_cong)
    with l m show False by simp
  qed
  have a: "fst (balance_dataset ex_sklearn
            [''L1'' \<mapsto> DataFrame (concat_axis1 ex_fp [(''d1'', [1, 2]), (''d3'', [5, 6])])]
            ex_y [''L1''] (Some 0) (- 1) 0)
       \<noteq> Inl (Raised ''mask'')"
    by (simp add: balance_dataset_def getitem_def ex_y_def ex_sklearn_def)
  have b: "fst (balance_dataset
            (only_mask (layout_mask ex_fp [(''d1'', [1, 2]), (''d3'', [5, 6])]) ex_sklearn)
            [''L1'' \<mapsto> DataFrame (concat_axis1 ex_fp [(''d1'', [1, 2]), (''d3'', [5, 6])])]
            ex_y [''L1''] (Some 0) (- 1) 0)
       = Inl (Raised ''mask'')"
    using ne by (simp add: balance_dataset_def getitem_def ex_y_def only_mask_def SMOTENC_def)
  have c: "ncols (DataFrame (concat_axis1 ex_fp [(''d1'', [1, 2]), (''d3'', [5::int, 6])])) = 4"
    by (simp add: concat_axis1_def ex_fp_def)
  from l m a b c show ?thesis by (intro conjI)
qed

section \<open>The seed of the randomized search\<close>

text \<open>
  Claim C4. \<^verbatim>\<open>random_search\<close> hands its \<^verbatim>\<open>random_state\<close> to the balancer and to the fold
  splitter but not to \<^verbatim>\<open>RandomizedSearchCV\<close>, whose own \<^verbatim>\<open>random_state\<close> stays \<^verbatim>\<open>None\<close>: the
  candidates are drawn from the ambient generator. With a library that does so, two runs
  with the same seed and the same data, started in different ambient states, return
  different best parameters.
\<close>

theorem random_search_sampler_unseeded:
  "rs_random_state (RandomizedSearchCV model grid balancing n_iter splits scoring n_jobs
                      (Some seed)) = None
   \<and> kf_random_state (rs_cv (RandomizedSearchCV model grid balancing n_iter splits scoring
                                n_jobs (Some seed))) = Some seed
   \<and> fst (random_search ex_sklearn (DataFrame ex_fp) [0, 1] (Model ()) () False 1 5 ''f1'' (- 1)
            (Some 0) 0)
     \<noteq> fst (random_search ex_sklearn (DataFrame ex_fp) [0, 1] (Model ()) () False 1 5 ''f1'' (- 1)
            (Some 0) 1)"
  by (simp add: RandomizedSearchCV_def StratifiedKFold_def random_search_def ex_sklearn_def)
section \<open>The remote lookup: responses and exceptions\<close>

lemma trim_cid_prefix:
  assumes "rest = [] \<or> hd rest \<noteq> CHR ''0''"
  shows "trim_cid (''CID'' @ replicate z (CHR ''0'') @ rest) = rest"
proof -
  have "dropWhile (\<lambda>c. c = CHR ''0'') (replicate z (CHR ''0'') @ rest) = rest"
    using assms by (induction z) (auto simp: dropWhile_eq_self_iff)
  then show ?thesis by (simp add: trim_cid_def)
qed

lemma strip_both_ends:
  fixes P :: "'a \<Rightarrow> bool"
  defines "t \<equiv> \<lambda>s. dropWhile P s"
  assumes ne: "rev (dropWhile P (rev (t s))) \<noteq> []"
  shows "\<not> P (hd (rev (dropWhile P (rev (t s))))) \<and> \<not> P (last (rev (dropWhile P (rev (t s)))))"
proof -
  let ?u = "dropWhile P (rev (t s))"
  from ne have une: "?u \<noteq> []" by simp
  have hu: "\<not> P (hd ?u)" using une by (rule hd_dropWhile)
  have l: "last (rev ?u) = hd ?u" using une by (simp add: last_rev)
  have "rev (t s) = takeWhile P (rev (t s)) @ ?u" by simp
  then have "rev (rev (t s)) = rev (takeWhile P (rev (t s)) @ ?u)" by (rule arg_cong)
  then have ts: "t s = rev ?u @ rev (takeWhile P (rev (t s)))" by (simp only: rev_rev_ident rev_append)
  have tne: "t s \<noteq> []" using une by auto
  have "hd (t s) = hd (rev ?u @ rev (takeWhile P (rev (t s))))" using ts by (rule arg_cong)
  then have h: "hd (t s) = hd (rev ?u)" using une by (simp only: hd_append2 rev_is_Nil_conv not_False_eq_True)
  have "\<not> P (hd (t s))" using tne unfolding t_def by (rule hd_dropWhile)
  with h hu l show ?thesis by simp
qed

lemma strip_newlines_ends:
  "strip_newlines s = []
   \<or> (hd (strip_newlines s) \<noteq> CHR 0x0A \<and> last (strip_newlines s) \<noteq> CHR 0x0A)"
  using strip_both_ends [of "\<lambda>c. c = CHR 0x0A" s] unfolding strip_newlines_def by blast

lemma get_smile_from_cid_response:
  assumes "requests_get http (smiles_url (trim_cid cid)) (net w) = (Inr res, n)"
  shows "get_smile_from_cid http cid w =
           (Inr (strip_newlines (response_text http res)),
            w\<lparr>net := n, requested := requested w @ [smiles_url (trim_cid cid)],
              stdout := stdout w @ (case raise_for_status http res of
                                     None \<Rightarrow> []
                                   | Some e \<Rightarrow> [''Problem retrieving smile for '' @ cid @ '': '' @ e])\<rparr>)"
  using assms by (simp add: get_smile_from_cid_def Let_def split: option.splits)

lemma sti_to_smil_from_all:
  assumes "\<forall>url m. \<exists>res m'. requests_get http url m = (Inr res, m')"
  shows "\<exists>d' w'. sti_to_smil_from http stitchs d w = (Inr d', w')
           \<and> dom d' = dom d \<union> set stitchs
           \<and> requested w' = requested w @ map (\<lambda>stitch. smiles_url (trim_cid stitch)) stitchs"
proof (induction stitchs arbitrary: d w)
  case Nil
  show ?case by simp
next
  case (Cons stitch stitchs)
  from assms obtain res n where
    r: "requests_get http (smiles_url (trim_cid stitch)) (net w) = (Inr res, n)" by blast
  note g = get_smile_from_cid_response [OF r]
  let ?w1 = "w\<lparr>net := n, requested := requested w @ [smiles_url (trim_cid stitch)],
              stdout := stdout w @ (case raise_for_status http res of
                                     None \<Rightarrow> []
                                   | Some e \<Rightarrow> [''Problem retrieving smile for '' @ stitch @ '': '' @ e])\<rparr>"
  from Cons.IH [of "d(stitch \<mapsto> strip_newlines (response_text http res))" ?w1]
  obtain d' w' where
    s: "sti_to_smil_from http stitchs (d(stitch \<mapsto> strip_newlines (response_text http res))) ?w1 = (Inr d', w')"
    and dd: "dom d' = dom (d(stitch \<mapsto> strip_newlines (response_text http res))) \<union> set stitchs"
    and rq: "requested w' = requested ?w1 @ map (\<lambda>stitch. smiles_url (trim_cid stitch)) stitchs"
    by blast
  have "sti_to_smil_from http (stitch # stitchs) d w = (Inr d', w')"
    by (simp add: g s)
  moreover have "dom d' = dom d \<union> set (stitch # stitchs)" using dd by auto
  moreover have "requested w' = requested w @ map (\<lambda>stitch. smiles_url (trim_cid stitch)) (stitch # stitchs)"
    using rq by simp
  ultimately show ?case by blast
qed

lemma get_smile_from_cid_raises:
  assumes "requests_get http (smiles_url (trim_cid cid)) (net w) = (Inl e, n)"
  shows "get_smile_from_cid http cid w =
           (Inl e, w\<lparr>net := n, requested := requested w @ [smiles_url (trim_cid cid)]\<rparr>)"
  using assms by (simp add: get_smile_from_cid_def Let_def)

lemma sti_to_smil_from_append:
  assumes "sti_to_smil_from http pre d w = (Inr d1, w1)"
  shows "sti_to_smil_from http (pre @ rest) d w = sti_to_smil_from http rest d1 w1"
  using assms
proof (induction pre arbitrary: d w)
  case Nil
  then show ?case by simp
next
  case (Cons stitch pre)
  from Cons.prems obtain smile w2 where
    g: "get_smile_from_cid http stitch w = (Inr smile, w2)"
    and rest: "sti_to_smil_from http pre (d(stitch \<mapsto> smile)) w2 = (Inr d1, w1)"
    by (auto split: sum.splits prod.splits)
  have "sti_to_smil_from http ((stitch # pre) @ rest) d w
          = sti_to_smil_from http (pre @ rest) (d(stitch \<mapsto> smile)) w2"
    by (simp add: g)
  also have "\<dots> = sti_to_smil_from http rest d1 w1" by (rule Cons.IH [OF rest])
  finally show ?case .
qed

lemma sti_to_smil_from_values:
  assumes "sti_to_smil_from http stitchs d w = (Inr d', w')"
  shows "(\<forall>stitch \<in> set stitchs. \<exists>res m m'.
            requests_get http (smiles_url (trim_cid stitch)) m = (Inr res, m')
          \<and> d' stitch = Some (strip_newlines (response_text http res)))
       \<and> (\<forall>stitch. stitch \<notin> set stitchs \<longrightarrow> d' stitch = d stitch)"
  using assms
proof (induction stitchs arbitrary: d w)
  case Nil
  then show ?case by simp
next
  case (Cons stitch stitchs)
  from Cons.prems obtain smile w1 where
    g: "get_smile_from_cid http stitch w = (Inr smile, w1)"
    and rest: "sti_to_smil_from http stitchs (d(stitch \<mapsto> smile)) w1 = (Inr d', w')"
    by (auto split: sum.splits prod.splits)
  from g obtain res m' where
    r: "requests_get http (smiles_url (trim_cid stitch)) (net w) = (Inr res, m')"
    and sm: "smile = strip_newlines (response_text http res)"
    by (auto simp: get_smile_from_cid_def Let_def split: sum.splits prod.splits)
  note IH = Cons.IH [OF rest]
  show ?case
  proof (intro conjI ballI allI impI)
    fix s assume s: "s \<in> set (stitch # stitchs)"
    show "\<exists>res m m'. requests_get http (smiles_url (trim_cid s)) m = (Inr res, m')
            \<and> d' s = Some (strip_newlines (response_text http res))"
    proof (cases "s \<in> set stitchs")
      case True
      with IH show ?thesis by blast
    next
      case False
      with s have eq: "s = stitch" by simp
      from IH False have "d' s = (d(stitch \<mapsto> smile)) s" by blast
      with eq sm have "d' s = Some (strip_newlines (response_text http res))" by simp
      with r eq show ?thesis by blast
    qed
  next
    fix s assume "s \<notin> set (stitch # stitchs)"
    with IH show "d' s = d s" by simp
  qed
qed

text \<open>
  Claim C10, as amended. \<^verbatim>\<open>get_smile_from_cid\<close> issues exactly one GET, for the URL of the
  identifier without its \<^verbatim>\<open>CID\<close> prefix and the zeros after it. If \<^verbatim>\<open>requests.get\<close> returns a
  response, of whatever status, the function raises nothing and returns the body without
  the line feeds at its two ends, and it prints one line with the identifier and the error
  exactly when \<^verbatim>\<open>raise_for_status\<close> raises. If \<^verbatim>\<open>requests.get\<close> itself raises, the exception
  leaves the function: nothing is printed and nothing returned. For the batch of
  \<^verbatim>\<open>create_offside_df\<close>: when it returns, every identifier has the stripped body of a
  response stored, error bodies included; it returns whenever every GET is answered; and
  the first GET that raises ends it with that exception, the identifiers after it never
  being requested.
\<close>

theorem get_smile_from_cid_outcomes:
  "(\<forall>res n. requests_get http (smiles_url (trim_cid cid)) (net w) = (Inr res, n) \<longrightarrow>
      get_smile_from_cid http cid w =
        (Inr (strip_newlines (response_text http res)),
         w\<lparr>net := n, requested := requested w @ [smiles_url (trim_cid cid)],
           stdout := stdout w @ (case raise_for_status http res of
                                  None \<Rightarrow> []
                                | Some e \<Rightarrow> [''Problem retrieving smile for '' @ cid @ '': '' @ e])\<rparr>))
   \<and> (\<forall>e n. requests_get http (smiles_url (trim_cid cid)) (net w) = (Inl e, n) \<longrightarrow>
        get_smile_from_cid http cid w =
          (Inl e, w\<lparr>net := n, requested := requested w @ [smiles_url (trim_cid cid)]\<rparr>))
   \<and> (\<forall>z rest. rest = [] \<or> hd rest \<noteq> CHR ''0''
         \<longrightarrow> trim_cid (''CID'' @ replicate z (CHR ''0'') @ rest) = rest)
   \<and> (take 3 cid \<noteq> ''CID'' \<longrightarrow> trim_cid cid = cid)
   \<and> (\<forall>s. strip_newlines s = []
            \<or> (hd (strip_newlines s) \<noteq> CHR 0x0A \<and> last (strip_newlines s) \<noteq> CHR 0x0A))
   \<and> (\<forall>d w'. sti_to_smil http stitchs w = (Inr d, w') \<longrightarrow>
          dom d = set stitchs
        \<and> (\<forall>stitch \<in> set stitchs. \<exists>res m m'.
              requests_get http (smiles_url (trim_cid stitch)) m = (Inr res, m')
            \<and> d stitch = Some (strip_newlines (response_text http res))))
   \<and> ((\<forall>url m. \<exists>r m'. requests_get http url m = (Inr r, m')) \<longrightarrow>
        (\<exists>d w'. sti_to_smil http stitchs w = (Inr d, w')
           \<and> requested w'
               = requested w @ map (\<lambda>stitch. smiles_url (trim_cid stitch)) stitchs))
   \<and> (\<forall>pre stitch post d1 w1 e n.
          sti_to_smil http pre w = (Inr d1, w1)
        \<and> requests_get http (smiles_url (trim_cid stitch)) (net w1) = (Inl e, n) \<longrightarrow>
          sti_to_smil http (pre @ stitch # post) w
            = (Inl e, w1\<lparr>net := n,
                 requested := requested w1 @ [smiles_url (trim_cid stitch)]\<rparr>))"
proof (intro conjI allI impI)
  fix res n
  assume "requests_get http (smiles_url (trim_cid cid)) (net w) = (Inr res, n)"
  then show "get_smile_from_cid http cid w =
        (Inr (strip_newlines (response_text http res)),
         w\<lparr>net := n, requested := requested w @ [smiles_url (trim_cid cid)],
           stdout := stdout w @ (case raise_for_status http res of
                                  None \<Rightarrow> []
                                | Some e \<Rightarrow> [''Problem retrieving smile for '' @ cid @ '': '' @ e])\<rparr>)"
    by (rule get_smile_from_cid_response)
next
  fix e n
  assume "requests_get http (smiles_url (trim_cid cid)) (net w) = (Inl e, n)"
  then show "get_smile_from_cid http cid w =
          (Inl e, w\<lparr>net := n, requested := requested w @ [smiles_url (trim_cid cid)]\<rparr>)"
    by (rule get_smile_from_cid_raises)
next
  fix z rest assume "rest = [] \<or> hd rest \<noteq> CHR ''0''"
  then show "trim_cid (''CID'' @ replicate z (CHR ''0'') @ rest) = rest"
    by (rule trim_cid_prefix)
next
  assume "take 3 cid \<noteq> ''CID''"
  then show "trim_cid cid = cid" by (simp add: trim_cid_def)
next
  fix s
  show "strip_newlines s = []
          \<or> (hd (strip_newlines s) \<noteq> CHR 0x0A \<and> last (strip_newlines s) \<noteq> CHR 0x0A)"
    by (rule strip_newlines_ends)
next
  fix d w'
  assume "sti_to_smil http stitchs w = (Inr d, w')"
  then have run: "sti_to_smil_from http stitchs Map.empty w = (Inr d, w')"
    by (simp add: sti_to_smil_def)
  note v = sti_to_smil_from_values [OF run]
  show "dom d = set stitchs"
  proof
    show "dom d \<subseteq> set stitchs"
    proof
      fix s assume "s \<in> dom d"
      then have "d s \<noteq> None" by auto
      with v show "s \<in> set stitchs" by (cases "s \<in> set stitchs") auto
    qed
    show "set stitchs \<subseteq> dom d" using v by fastforce
  qed
next
  fix d w'
  assume "sti_to_smil http stitchs w = (Inr d, w')"
  then have run: "sti_to_smil_from http stitchs Map.empty w = (Inr d, w')"
    by (simp add: sti_to_smil_def)
  from sti_to_smil_from_values [OF run]
  show "\<forall>stitch \<in> set stitchs. \<exists>res m m'.
          requests_get http (smiles_url (trim_cid stitch)) m = (Inr res, m')
        \<and> d stitch = Some (strip_newlines (response_text http res))"
    by blast
next
  assume "\<forall>url m. \<exists>r m'. requests_get http url m = (Inr r, m')"
  from sti_to_smil_from_all [OF this, of stitchs Map.empty w]
  show "\<exists>d w'. sti_to_smil http stitchs w = (Inr d, w')
          \<and> requested w' = requested w @ map (\<lambda>stitch. smiles_url (trim_cid stitch)) stitchs"
    by (auto simp: sti_to_smil_def)
next
  fix pre stitch post d1 w1 e n
  assume a: "sti_to_smil http pre w = (Inr d1, w1)
        \<and> requests_get http (smiles_url (trim_cid stitch)) (net w1) = (Inl e, n)"
  then have pre: "sti_to_smil_from http pre Map.empty w = (Inr d1, w1)"
    by (simp add: sti_to_smil_def)
  from a have "get_smile_from_cid http stitch w1 =
          (Inl e, w1\<lparr>net := n, requested := requested w1 @ [smiles_url (trim_cid stitch)]\<rparr>)"
    by (intro get_smile_from_cid_raises) simp
  then show "sti_to_smil http (pre @ stitch # post) w
            = (Inl e, w1\<lparr>net := n,
                 requested := requested w1 @ [smiles_url (trim_cid stitch)]\<rparr>)"
    by (simp add: sti_to_smil_def sti_to_smil_from_append [OF pre])
qed

theorem get_smile_from_cid_outcomes_witness:
  "requests_get ex_offline (smiles_url (trim_cid ''CID000002244'')) (net ex_world)
     = (Inr (200, ''CC(=O)OC1=CC=CC=C1C(=O)O'' @ [CHR 0x0A]), ())
   \<and> get_smile_from_cid ex_offline ''CID000002244'' ex_world
     = (Inr ''CC(=O)OC1=CC=CC=C1C(=O)O'',
        ex_world\<lparr>net := (), requested := [smiles_url ''2244''], stdout := []\<rparr>)
   \<and> sti_to_smil ex_offline [''CID000002244''] ex_world
     = (Inr [''CID000002244'' \<mapsto> ''CC(=O)OC1=CC=CC=C1C(=O)O''],
        ex_world\<lparr>net := (), requested := [smiles_url ''2244''], stdout := []\<rparr>)
   \<and> requests_get ex_offline (smiles_url (trim_cid ''CID000000001''))
        (net (ex_world\<lparr>net := (), requested := [smiles_url ''2244''], stdout := []\<rparr>))
     = (Inl (Raised ''ConnectionError''), ())
   \<and> sti_to_smil ex_offline ([''CID000002244''] @ ''CID000000001'' # [''CID000000003'']) ex_world
     = (Inl (Raised ''ConnectionError''),
        ex_world\<lparr>net := (), requested := [smiles_url ''2244'', smiles_url ''1''], stdout := []\<rparr>)"
proof -
  have t1: "trim_cid ''CID000002244'' = ''2244''" by (simp add: trim_cid_def)
  have t2: "trim_cid ''CID000000001'' = ''1''" by (simp add: trim_cid_def)
  have r1: "requests_get ex_offline (smiles_url (trim_cid ''CID000002244'')) (net ex_world)
     = (Inr (200, ''CC(=O)OC1=CC=CC=C1C(=O)O'' @ [CHR 0x0A]), ())"
    by (simp add: t1 ex_offline_def ex_http_def smiles_url_def)
  note inst = get_smile_from_cid_outcomes
    [where http = ex_offline and cid = "''CID000002244''" and w = ex_world and stitchs = "[]"]
  from inst [THEN conjunct1, rule_format, OF r1]
  have g: "get_smile_from_cid ex_offline ''CID000002244'' ex_world
     = (Inr (strip_newlines (response_text ex_offline
               (200, ''CC(=O)OC1=CC=CC=C1C(=O)O'' @ [CHR 0x0A]))),
        ex_world\<lparr>net := (),
          requested := requested ex_world @ [smiles_url (trim_cid ''CID000002244'')],
          stdout := stdout ex_world
            @ (case raise_for_status ex_offline
                     (200, ''CC(=O)OC1=CC=CC=C1C(=O)O'' @ [CHR 0x0A]) of
                 None \<Rightarrow> []
               | Some e \<Rightarrow> [''Problem retrieving smile for '' @ ''CID000002244'' @ '': '' @ e])\<rparr>)"
    .
  have g': "get_smile_from_cid ex_offline ''CID000002244'' ex_world
     = (Inr ''CC(=O)OC1=CC=CC=C1C(=O)O'',
        ex_world\<lparr>net := (), requested := [smiles_url ''2244''], stdout := []\<rparr>)"
    unfolding g by (simp add: t1 ex_offline_def ex_http_def ex_world_def strip_newlines_def)
  have b: "sti_to_smil ex_offline [''CID000002244''] ex_world
     = (Inr [''CID000002244'' \<mapsto> ''CC(=O)OC1=CC=CC=C1C(=O)O''],
        ex_world\<lparr>net := (), requested := [smiles_url ''2244''], stdout := []\<rparr>)"
    by (simp add: sti_to_smil_def g')
  have r2: "requests_get ex_offline (smiles_url (trim_cid ''CID000000001''))
        (net (ex_world\<lparr>net := (), requested := [smiles_url ''2244''], stdout := []\<rparr>))
     = (Inl (Raised ''ConnectionError''), ())"
    by (simp add: t2 ex_offline_def)
  from inst [THEN conjunct2, THEN conjunct2, THEN conjunct2, THEN conjunct2, THEN conjunct2,
      THEN conjunct2, THEN conjunct2, rule_format, OF conjI [OF b r2]]
  have "sti_to_smil ex_offline ([''CID000002244''] @ ''CID000000001'' # [''CID000000003''])
          ex_world
     = (Inl (Raised ''ConnectionError''),
        (ex_world\<lparr>net := (), requested := [smiles_url ''2244''], stdout := []\<rparr>)
          \<lparr>net := (),
            requested :=
              requested (ex_world\<lparr>net := (), requested := [smiles_url ''2244''], stdout := []\<rparr>)
                @ [smiles_url (trim_cid ''CID000000001'')]\<rparr>)"
    .
  then have a:
    "sti_to_smil ex_offline ([''CID000002244''] @ ''CID000000001'' # [''CID000000003'']) ex_world
     = (Inl (Raised ''ConnectionError''),
        ex_world\<lparr>net := (), requested := [smiles_url ''2244'', smiles_url ''1''], stdout := []\<rparr>)"
    by (simp add: t2)
  from r1 g' b r2 a show ?thesis by (intro conjI)
qed

text \<open>
  Claim C10 as stated fails. With a client that cannot reach the server for compound 1,
  \<^verbatim>\<open>get_smile_from_cid\<close> raises, and the batch ends at that identifier without requesting
  the next one; and a response with status 304, on which \<^verbatim>\<open>raise_for_status\<close> does not
  raise, is returned without a line printed.
\<close>

theorem lookup_raises_counterexample:
  "fst (get_smile_from_cid ex_offline ''CID000000001'' ex_world) = Inl (Raised ''ConnectionError'')
   \<and> fst (sti_to_smil ex_offline [''CID000000001'', ''CID000002244''] ex_world)
       = Inl (Raised ''ConnectionError'')
   \<and> requested (snd (sti_to_smil ex_offline [''CID000000001'', ''CID000002244''] ex_world))
       = [smiles_url ''1'']
   \<and> requests_get ex_offline (smiles_url (trim_cid ''CID000000003'')) () = (Inr (304, []), ())
   \<and> get_smile_from_cid ex_offline ''CID000000003'' ex_world
       = (Inr [], ex_world\<lparr>requested := [smiles_url ''3'']\<rparr>)"
proof -
  have t1: "trim_cid ''CID000000001'' = ''1''" by (simp add: trim_cid_def)
  have t3: "trim_cid ''CID000000003'' = ''3''" by (simp add: trim_cid_def)
  have ne: "smiles_url ''3'' \<noteq> smiles_url ''1''" by (simp add: smiles_url_def)
  have g1: "get_smile_from_cid ex_offline ''CID000000001'' ex_world
          = (Inl (Raised ''ConnectionError''), ex_world\<lparr>requested := [smiles_url ''1'']\<rparr>)"
    by (simp add: get_smile_from_cid_def t1 ex_offline_def ex_world_def)
  have g3: "get_smile_from_cid ex_offline ''CID000000003'' ex_world
          = (Inr [], ex_world\<lparr>requested := [smiles_url ''3'']\<rparr>)"
    by (simp add: get_smile_from_cid_def t3 ne ex_offline_def ex_http_def ex_world_def
        strip_newlines_def)
  have r3: "requests_get ex_offline (smiles_url (trim_cid ''CID000000003'')) ()
          = (Inr (304, []), ())"
    by (simp add: t3 ne ex_offline_def)
  have b: "sti_to_smil ex_offline [''CID000000001'', ''CID000002244''] ex_world
          = (Inl (Raised ''ConnectionError''), ex_world\<lparr>requested := [smiles_url ''1'']\<rparr>)"
    by (simp add: sti_to_smil_def g1)
  show ?thesis by (simp add: g1 g3 r3 b)
qed

section \<open>The held-out scores need class probabilities\<close>

lemma score_report_no_proba:
  assumes "predict_proba estimator = None"
  shows "\<exists>e. score_report mt estimator X_test y_test plot name = (Inl e, [])"
proof (cases "predict estimator X_test")
  case (Inl e)
  then show ?thesis by (simp add: score_report_def)
next
  case (Inr y_pred)
  with assms show ?thesis by (simp add: score_report_def)
qed

lemma score_report_no_proba_error:
  assumes "predict_proba estimator = None" and "predict estimator X_test = Inr y_pred"
  shows "score_report mt estimator X_test y_test plot name
           = (Inl (AttributeError ''predict_proba''), [])"
  using assms by (simp add: score_report_def)

lemma score_report_result:
  assumes "score_report mt estimator X_test y_test plot name = (Inr result, figs)"
  shows "\<exists>proba cols y_score ap.
           predict_proba estimator = Some proba \<and> proba X_test = Inr cols
         \<and> 1 < length cols \<and> y_score = cols ! 1
         \<and> average_precision_score mt y_test y_score = Inr ap
         \<and> dict_get result ''prec_rec_score'' = Inr ap
         \<and> (if plot
             then \<exists>precision recall thresholds.
                    precision_recall_curve mt y_test y_score = Inr (precision, recall, thresholds)
                  \<and> map fig_recall figs = [recall] \<and> map fig_precision figs = [precision]
             else figs = [])"
  using assms
  apply (simp add: score_report_def Let_def split: sum.splits prod.splits if_splits)
   apply (auto simp: bindE_Inr_iff column1_def dict_get_def getitem_def split: option.splits if_splits)
  done

text \<open>
  Claim C8. \<^verbatim>\<open>score_report\<close> fails on an estimator without \<^verbatim>\<open>predict_proba\<close>: it returns no
  record, and the error is the AttributeError of the missing attribute once \<^verbatim>\<open>predict\<close>
  has returned. Whenever it returns a record, the estimator has \<^verbatim>\<open>predict_proba\<close>, the
  entry \<^verbatim>\<open>prec_rec_score\<close> is \<^verbatim>\<open>average_precision_score\<close> of the true labels and the second
  column of the probabilities (the positive class), and the curve of a saved figure is
  \<^verbatim>\<open>precision_recall_curve\<close> of the same two vectors; the predicted labels enter neither.
\<close>

theorem score_report_requires_predict_proba:
  "(predict_proba estimator = None \<longrightarrow>
      (\<exists>e. score_report mt estimator X_test y_test plot name = (Inl e, []))
    \<and> (\<forall>y_pred. predict estimator X_test = Inr y_pred \<longrightarrow>
          score_report mt estimator X_test y_test plot name
            = (Inl (AttributeError ''predict_proba''), [])))
   \<and> (\<forall>result figs.
        score_report mt estimator X_test y_test plot name = (Inr result, figs) \<longrightarrow>
        (\<exists>proba cols y_score ap.
           predict_proba estimator = Some proba \<and> proba X_test = Inr cols
         \<and> 1 < length cols \<and> y_score = cols ! 1
         \<and> average_precision_score mt y_test y_score = Inr ap
         \<and> dict_get result ''prec_rec_score'' = Inr ap
         \<and> (if plot
             then \<exists>precision recall thresholds.
                    precision_recall_curve mt y_test y_score = Inr (precision, recall, thresholds)
                  \<and> map fig_recall figs = [recall] \<and> map fig_precision figs = [precision]
             else figs = [])))"
proof (intro conjI impI allI)
  assume "predict_proba estimator = None"
  then show "\<exists>e. score_report mt estimator X_test y_test plot name = (Inl e, [])"
    by (rule score_report_no_proba)
next
  fix y_pred
  assume "predict_proba estimator = None" and "predict estimator X_test = Inr y_pred"
  then show "score_report mt estimator X_test y_test plot name
               = (Inl (AttributeError ''predict_proba''), [])"
    by (rule score_report_no_proba_error)
next
  fix result figs
  assume "score_report mt estimator X_test y_test plot name = (Inr result, figs)"
  then show "\<exists>proba cols y_score ap.
           predict_proba estimator = Some proba \<and> proba X_test = Inr cols
         \<and> 1 < length cols \<and> y_score = cols ! 1
         \<and> average_precision_score mt y_test y_score = Inr ap
         \<and> dict_get result ''prec_rec_score'' = Inr ap
         \<and> (if plot
             then \<exists>precision recall thresholds.
                    precision_recall_curve mt y_test y_score = Inr (precision, recall, thresholds)
                  \<and> map fig_recall figs = [recall] \<and> map fig_precision figs = [precision]
             else figs = [])"
    by (rule score_report_result)
qed

theorem score_report_requires_predict_proba_witness:
  "predict_proba ex_label_estimator = None
   \<and> predict ex_label_estimator (DataFrame ex_fp_test) = Inr [0, 1]
   \<and> score_report ex_metrics ex_label_estimator (DataFrame ex_fp_test) [1, 1] True (Some ''L1'')
       = (Inl (AttributeError ''predict_proba''), [])
   \<and> (\<exists>result figs.
         score_report ex_metrics ex_prob_estimator (DataFrame ex_fp_test) [1, 1] True (Some ''L1'')
           = (Inr result, figs)
       \<and> dict_get result ''prec_rec_score'' = Inr 110
       \<and> map fig_precision figs = [[40, 70]])"
  using score_report_requires_predict_proba
          [of ex_label_estimator ex_metrics "DataFrame ex_fp_test" "[1, 1]" True "Some ''L1''"]
        score_report_requires_predict_proba
          [of ex_prob_estimator ex_metrics "DataFrame ex_fp_test" "[1, 1]" True "Some ''L1''"]
  by (simp add: ex_label_estimator_def ex_prob_estimator_def ex_metrics_def score_report_def
      column1_def dict_get_def getitem_def py_str_def)

section \<open>Configuration errors\<close>

lemma cv_multi_loop_append:
  assumes "cv_multi_loop sk mt X_train_dic y_train model balancing modelname spec random_state
             splits n_jobs pre rep g = (Inr (Some rep1), g1, out)"
  shows "cv_multi_loop sk mt X_train_dic y_train model balancing modelname spec random_state
           splits n_jobs (pre @ rest) rep g
       = cv_multi_loop sk mt X_train_dic y_train model balancing modelname spec random_state
           splits n_jobs rest rep1 g1"
  using assms
proof (induction pre arbitrary: rep g)
  case Nil
  then show ?case by simp
next
  case (Cons name pre)
  from Cons.prems show ?case
    by (auto simp: Cons.IH split: sum.splits option.splits prod.splits if_splits)
qed

lemma test_score_loop_append:
  assumes "test_score_loop sk mt X_train_dic y_train X_test y_test model modelname spec balancing
             random_state plot n_jobs pre rep g figs = (Inr (Some rep1), g1, out, figs1)"
  shows "test_score_loop sk mt X_train_dic y_train X_test y_test model modelname spec balancing
           random_state plot n_jobs (pre @ rest) rep g figs
       = test_score_loop sk mt X_train_dic y_train X_test y_test model modelname spec balancing
           random_state plot n_jobs rest rep1 g1 figs1"
  using assms
proof (induction pre arbitrary: rep g figs)
  case Nil
  then show ?case by simp
next
  case (Cons name pre)
  from Cons.prems show ?case
    by (auto simp: Cons.IH split: sum.splits option.splits prod.splits if_splits)
qed

lemma cv_model_temp_unknown:
  assumes "model_tag modelname name = Inr tag"
    and "tag \<notin> {''SVC'', ''RF'', ''XGB'', ''VotingClassifier''}"
  shows "cv_model_temp modelname spec random_state n_jobs name = Inr None"
  using assms by (simp add: cv_model_temp_def)

lemma test_model_temp_unknown:
  assumes "model_tag modelname name = Inr tag"
    and "tag \<notin> {''SVC'', ''RF'', ''XGB''}"
  shows "test_model_temp modelname spec random_state name = Inr None"
  using assms by (simp add: test_model_temp_def)

lemma cv_multi_loop_tag_unread:
  assumes "\<not> truthy spec"
  shows "cv_multi_loop sk mt X_train_dic y_train model balancing modelname spec random_state
           splits n_jobs names rep g
       = cv_multi_loop sk mt X_train_dic y_train model balancing other spec random_state
           splits n_jobs names rep g"
proof (induction names arbitrary: rep g)
  case Nil
  show ?case by simp
next
  case (Cons name names)
  show ?case using assms by (simp add: Cons.IH split: sum.splits prod.splits)
qed

lemma test_score_loop_tag_unread:
  assumes "\<not> truthy spec"
  shows "test_score_loop sk mt X_train_dic y_train X_test y_test model modelname spec balancing
           random_state plot n_jobs names rep g figs
       = test_score_loop sk mt X_train_dic y_train X_test y_test model other spec balancing
           random_state plot n_jobs names rep g figs"
proof (induction names arbitrary: rep g figs)
  case Nil
  show ?case by simp
next
  case (Cons name names)
  show ?case using assms by (simp add: Cons.IH split: sum.splits prod.splits)
qed

text \<open>
  Claim C9, as amended. Without label names \<^verbatim>\<open>select_best_descriptors_multi\<close> prints its
  message and returns \<^verbatim>\<open>None\<close>. In both reports, when \<^verbatim>\<open>spec_params\<close> is given (not empty)
  and the labels before \<open>name\<close> have been scored without an exception, a tag of \<open>name\<close>
  that is none of the recognised ones (\<^verbatim>\<open>SVC\<close>, \<^verbatim>\<open>RF\<close>, \<^verbatim>\<open>XGB\<close>, and \<^verbatim>\<open>VotingClassifier\<close> in
  the cross-validated report only) ends the run at that label: the function prints the
  message and returns \<^verbatim>\<open>None\<close>, neither an exception nor a partial report, and the
  labels after \<open>name\<close> are not looked at. When \<^verbatim>\<open>spec_params\<close> is \<^verbatim>\<open>None\<close> or empty, the tags
  are not read at all: the reports run the same with any other \<^verbatim>\<open>modelname\<close>.
\<close>

theorem unknown_tag_returns_none:
  "select_best_descriptors_multi skb k df_desc y_all [] = (Inr None, [''Column names necessary''])
   \<and> (truthy spec
        \<and> cv_multi_loop sk mt X_train_dic y_train model balancing modelname spec random_state
            splits n_jobs pre (new_report cv_columns (pre @ name # post)) g
            = (Inr (Some rep1), g1, out1)
        \<and> model_tag modelname name = Inr tag
        \<and> tag \<notin> {''SVC'', ''RF'', ''XGB'', ''VotingClassifier''}
       \<longrightarrow> cv_multi_report sk mt X_train_dic y_train (pre @ name # post) model balancing
             modelname spec random_state splits n_jobs g
           = (Inr None, g1, [''Please specify used model (SVC, RF, XGB)'']))
   \<and> (truthy spec
        \<and> test_score_loop sk mt X_train_dic y_train X_test y_test model modelname spec balancing
            random_state plot n_jobs pre (new_report test_columns (pre @ name # post)) g []
            = (Inr (Some rep2), g2, out2, figs2)
        \<and> model_tag modelname name = Inr tag
        \<and> tag \<notin> {''SVC'', ''RF'', ''XGB''}
       \<longrightarrow> test_score_multi_report sk mt X_train_dic y_train X_test y_test (pre @ name # post)
             model modelname spec balancing random_state plot n_jobs g
           = (Inr None, g2, [''Please specify used model (SVC, RF, XGB)''], figs2))
   \<and> (\<not> truthy spec \<longrightarrow>
        cv_multi_report sk mt X_train_dic y_train out_names model balancing modelname spec
          random_state splits n_jobs g
        = cv_multi_report sk mt X_train_dic y_train out_names model balancing other_modelname
            spec random_state splits n_jobs g
      \<and> test_score_multi_report sk mt X_train_dic y_train X_test y_test out_names model
          modelname spec balancing random_state plot n_jobs g
        = test_score_multi_report sk mt X_train_dic y_train X_test y_test out_names model
            other_modelname spec balancing random_state plot n_jobs g)"
proof (intro conjI impI)
  show "select_best_descriptors_multi skb k df_desc y_all []
          = (Inr None, [''Column names necessary''])"
    by (simp add: select_best_descriptors_multi_def)
next
  assume a: "truthy spec
        \<and> cv_multi_loop sk mt X_train_dic y_train model balancing modelname spec random_state
            splits n_jobs pre (new_report cv_columns (pre @ name # post)) g
            = (Inr (Some rep1), g1, out1)
        \<and> model_tag modelname name = Inr tag
        \<and> tag \<notin> {''SVC'', ''RF'', ''XGB'', ''VotingClassifier''}"
  from a have pre: "cv_multi_loop sk mt X_train_dic y_train model balancing modelname spec
      random_state splits n_jobs pre (new_report cv_columns (pre @ name # post)) g
      = (Inr (Some rep1), g1, out1)" by simp
  have "cv_multi_loop sk mt X_train_dic y_train model balancing modelname spec random_state
          splits n_jobs (pre @ name # post) (new_report cv_columns (pre @ name # post)) g
        = (Inr None, g1, [''Please specify used model (SVC, RF, XGB)''])"
    using a by (simp add: cv_multi_loop_append [OF pre]
        cv_model_temp_unknown [of modelname name tag])
  then show "cv_multi_report sk mt X_train_dic y_train (pre @ name # post) model balancing
             modelname spec random_state splits n_jobs g
           = (Inr None, g1, [''Please specify used model (SVC, RF, XGB)''])"
    by (simp add: cv_multi_report_def)
next
  assume a: "truthy spec
        \<and> test_score_loop sk mt X_train_dic y_train X_test y_test model modelname spec balancing
            random_state plot n_jobs pre (new_report test_columns (pre @ name # post)) g []
            = (Inr (Some rep2), g2, out2, figs2)
        \<and> model_tag modelname name = Inr tag
        \<and> tag \<notin> {''SVC'', ''RF'', ''XGB''}"
  from a have pre: "test_score_loop sk mt X_train_dic y_train X_test y_test model modelname spec
      balancing random_state plot n_jobs pre (new_report test_columns (pre @ name # post)) g []
      = (Inr (Some rep2), g2, out2, figs2)" by simp
  have "test_score_loop sk mt X_train_dic y_train X_test y_test model modelname spec balancing
          random_state plot n_jobs (pre @ name # post)
          (new_report test_columns (pre @ name # post)) g []
        = (Inr None, g2, [''Please specify used model (SVC, RF, XGB)''], figs2)"
    using a by (simp add: test_score_loop_append [OF pre]
        test_model_temp_unknown [of modelname name tag])
  then show "test_score_multi_report sk mt X_train_dic y_train X_test y_test (pre @ name # post)
             model modelname spec balancing random_state plot n_jobs g
           = (Inr None, g2, [''Please specify used model (SVC, RF, XGB)''], figs2)"
    by (simp add: test_score_multi_report_def)
next
  assume "\<not> truthy spec"
  then show "cv_multi_report sk mt X_train_dic y_train out_names model balancing modelname spec
          random_state splits n_jobs g
        = cv_multi_report sk mt X_train_dic y_train out_names model balancing other_modelname
            spec random_state splits n_jobs g"
    by (simp add: cv_multi_report_def cv_multi_loop_tag_unread [of spec _ _ _ _ _ _ modelname _ _ _ _ _ _ other_modelname])
next
  assume "\<not> truthy spec"
  then show "test_score_multi_report sk mt X_train_dic y_train X_test y_test out_names model
          modelname spec balancing random_state plot n_jobs g
        = test_score_multi_report sk mt X_train_dic y_train X_test y_test out_names model
            other_modelname spec balancing random_state plot n_jobs g"
    by (simp add: test_score_multi_report_def
        test_score_loop_tag_unread [of spec _ _ _ _ _ _ _ modelname _ _ _ _ _ _ _ _ other_modelname])
qed

text \<open>The definitions that a run of the reports on the example inputs unfolds.\<close>

lemmas example_run =
  cv_multi_report_def test_score_multi_report_def new_report_def cv_columns_def test_columns_def
  cv_model_temp_def test_model_temp_def model_tag_def getitem_def dict_get_def
  svc_model_def ex_modelname_def ex_spec_params_def ex_tables_def ex_y_def
  cv_report_def cv_estimator_def fit_and_score_def score_report_def column1_def
  ex_sklearn_def ex_metrics_def ex_prob_estimator_def scoring_metrics_def
  cv_assignments_def test_assignments_def assign_score_def loc_set_def columns_def
  StratifiedKFold_def py_str_def apply_to_numeric_def ex_fp_def

theorem unknown_tag_returns_none_witness:
  "truthy ex_spec_params
   \<and> model_tag ex_modelname ''L2'' = Inr ''LogisticRegression''
   \<and> cv_multi_report ex_sklearn ex_metrics ex_tables ex_y ([''L1''] @ ''L2'' # []) (Model ())
         False ex_modelname ex_spec_params (Some 0) 5 (- 1) 0
       = (Inr None, 0, [''Please specify used model (SVC, RF, XGB)''])
   \<and> test_score_multi_report ex_sklearn ex_metrics ex_tables ex_y ex_tables ex_y
         ([''L1''] @ ''L2'' # []) (Model ()) ex_modelname ex_spec_params False (Some 0) False
         (- 1) 0
       = (Inr None, 0, [''Please specify used model (SVC, RF, XGB)''], [])
   \<and> \<not> truthy (NoParams :: int spec_params)
   \<and> cv_multi_report ex_sklearn ex_metrics ex_tables ex_y [''L1'', ''L2''] (Model ()) False
         ex_modelname NoParams (Some 0) 5 (- 1) 0
       = cv_multi_report ex_sklearn ex_metrics ex_tables ex_y [''L1'', ''L2''] (Model ()) False
           None NoParams (Some 0) 5 (- 1) 0"
proof -
  have t: "truthy ex_spec_params" by (simp add: ex_spec_params_def)
  have tag: "model_tag ex_modelname ''L2'' = Inr ''LogisticRegression''"
    by (simp add: model_tag_def ex_modelname_def getitem_def)
  obtain rep1 where cv:
    "cv_multi_loop ex_sklearn ex_metrics ex_tables ex_y (Model ()) False ex_modelname
       ex_spec_params (Some 0) 5 (- 1) [''L1''] (new_report cv_columns ([''L1''] @ ''L2'' # [])) 0
     = (Inr (Some rep1), 0, [])"
    by (simp add: example_run)
  obtain rep2 where ts:
    "test_score_loop ex_sklearn ex_metrics ex_tables ex_y ex_tables ex_y (Model ()) ex_modelname
       ex_spec_params False (Some 0) False (- 1) [''L1'']
       (new_report test_columns ([''L1''] @ ''L2'' # [])) 0 []
     = (Inr (Some rep2), 0, [], [])"
    by (simp add: example_run)
  have n4: "''LogisticRegression'' \<notin> {''SVC'', ''RF'', ''XGB'', ''VotingClassifier''}" by simp
  have n3: "''LogisticRegression'' \<notin> {''SVC'', ''RF'', ''XGB''}" by simp
  note inst =
    unknown_tag_returns_none [where spec = ex_spec_params and sk = ex_sklearn
      and mt = ex_metrics and X_train_dic = ex_tables and y_train = ex_y and model = "Model ()"
      and balancing = False and modelname = ex_modelname and random_state = "Some 0"
      and splits = 5 and n_jobs = "- 1" and pre = "[''L1'']" and name = "''L2''"
      and post = "[]" and g = 0 and ?rep1.0 = rep1 and ?g1.0 = 0 and ?out1.0 = "[]"
      and tag = "''LogisticRegression''" and X_test = ex_tables and y_test = ex_y
      and plot = False and ?rep2.0 = rep2 and ?g2.0 = 0 and ?out2.0 = "[]" and ?figs2.0 = "[]"]
  from inst [THEN conjunct2, THEN conjunct1, rule_format, OF conjI [OF t conjI [OF cv conjI [OF tag n4]]]]
  have a:
    "cv_multi_report ex_sklearn ex_metrics ex_tables ex_y ([''L1''] @ ''L2'' # []) (Model ())
         False ex_modelname ex_spec_params (Some 0) 5 (- 1) 0
       = (Inr None, 0, [''Please specify used model (SVC, RF, XGB)''])" .
  from inst [THEN conjunct2, THEN conjunct2, THEN conjunct1, rule_format,
      OF conjI [OF t conjI [OF ts conjI [OF tag n3]]]]
  have b:
    "test_score_multi_report ex_sklearn ex_metrics ex_tables ex_y ex_tables ex_y
         ([''L1''] @ ''L2'' # []) (Model ()) ex_modelname ex_spec_params False (Some 0) False
         (- 1) 0
       = (Inr None, 0, [''Please specify used model (SVC, RF, XGB)''], [])" .
  have f: "\<not> truthy (NoParams :: int spec_params)" by simp
  note inst2 =
    unknown_tag_returns_none [where spec = "NoParams :: int spec_params" and sk = ex_sklearn
      and mt = ex_metrics and X_train_dic = ex_tables and y_train = ex_y and model = "Model ()"
      and balancing = False and modelname = ex_modelname and other_modelname = None
      and random_state = "Some 0" and splits = 5 and n_jobs = "- 1"
      and out_names = "[''L1'', ''L2'']" and g = 0]
  from inst2 [THEN conjunct2, THEN conjunct2, THEN conjunct2, rule_format, OF f, THEN conjunct1]
  have c:
    "cv_multi_report ex_sklearn ex_metrics ex_tables ex_y [''L1'', ''L2''] (Model ()) False
         ex_modelname NoParams (Some 0) 5 (- 1) 0
       = cv_multi_report ex_sklearn ex_metrics ex_tables ex_y [''L1'', ''L2''] (Model ()) False
           None NoParams (Some 0) 5 (- 1) 0" .
  from t tag a b f c show ?thesis by (intro conjI)
qed

text \<open>
  Claim C9 as stated fails. With \<^verbatim>\<open>spec_params=None\<close> the tag of a label is not examined:
  \<^verbatim>\<open>cv_multi_report\<close> is passed the unrecognised tag \<^verbatim>\<open>LogisticRegression\<close> for the second
  label, scores both labels with \<^verbatim>\<open>model\<close>, prints nothing and returns the full report.
\<close>

theorem unknown_tag_ignored_counterexample:
  "model_tag ex_modelname ''L2'' = Inr ''LogisticRegression''
   \<and> (\<exists>rep. cv_multi_report ex_sklearn ex_metrics ex_tables ex_y [''L1'', ''L2''] (Model ()) False
               ex_modelname NoParams (Some 0) 5 (- 1) 0
             = (Inr (Some rep), 0, [])
           \<and> row_index rep = [''L1'', ''L2''])"
  by (simp add: example_run)

section \<open>Rows, columns and cells of the two reports\<close>

lemma new_report_table: "new_report cols idx = table_of idx cols (\<lambda>r c. None)"
  by (simp add: new_report_def table_of_def)

lemma map2_map_same: "map2 g xs (map h xs) = map (\<lambda>x. g x (h x)) xs"
  by (induction xs) simp_all

lemma set_column_cells:
  "map (\<lambda>(c, vs). (c, if c = col
                        then map2 (\<lambda>r old. if r = name then Some v else old) idx vs
                        else vs))
     (map (\<lambda>c. (c, map (\<lambda>r. g r c) idx)) cs)
   = map (\<lambda>c. (c, map (\<lambda>r. if r = name \<and> c = col then Some v else g r c) idx)) cs"
  by (induction cs) (simp_all add: map2_map_same)

lemma loc_set_table:
  assumes "name \<in> set idx" and "\<forall>c. c \<notin> set cols \<longrightarrow> (\<forall>r. f r c = None)"
  shows "loc_set (table_of idx cols f) name col v
       = table_of idx (append_new cols [col])
           (\<lambda>r c. if r = name \<and> c = col then Some v else f r c)"
proof -
  let ?W = "map (\<lambda>c. (c, map (\<lambda>r. f r c) idx)) cols"
  have cw: "columns ?W = cols" by (simp add: columns_def comp_def)
  show ?thesis
  proof (cases "col \<in> set cols")
    case True
    have an: "append_new cols [col] = cols" using True by simp
    have h: "loc_set (table_of idx cols f) name col v
        = \<lparr> row_index = idx,
            cells = map (\<lambda>(c, vs). (c, if c = col
                        then map2 (\<lambda>r old. if r = name then Some v else old) idx vs
                        else vs)) ?W \<rparr>"
      using assms(1) True by (simp add: loc_set_def table_of_def cw Let_def del: map_map)
    show ?thesis by (simp only: h set_column_cells an) (simp only: table_of_def)
  next
    case False
    with assms(2) have none: "\<forall>r. f r col = None" by blast
    have w: "?W @ [(col, map (\<lambda>r. None) idx)]
           = map (\<lambda>c. (c, map (\<lambda>r. f r c) idx)) (cols @ [col])"
      using none by simp
    have an: "append_new cols [col] = cols @ [col]" using False by simp
    have h: "loc_set (table_of idx cols f) name col v
        = \<lparr> row_index = idx,
            cells = map (\<lambda>(c, vs). (c, if c = col
                        then map2 (\<lambda>r old. if r = name then Some v else old) idx vs
                        else vs)) (?W @ [(col, map (\<lambda>r. None) idx)]) \<rparr>"
      using assms(1) False by (simp add: loc_set_def table_of_def cw Let_def del: map_map map_append)
    show ?thesis by (simp only: h w set_column_cells an) (simp only: table_of_def)
  qed
qed

lemma append_new_set: "set (append_new acc xs) = set acc \<union> set xs"
  by (induction xs arbitrary: acc) auto

lemma append_new_absorb: "set xs \<subseteq> set acc \<Longrightarrow> append_new acc xs = acc"
  by (induction xs arbitrary: acc) auto

lemma append_new_idem: "append_new (append_new acc xs) xs = append_new acc xs"
  by (rule append_new_absorb) (simp add: append_new_set)

lemma dict_get_Inr: "dict_get d key = Inr v \<longleftrightarrow> map_of d key = Some v"
  by (simp add: dict_get_def getitem_def split: option.splits)

lemma assign_scores_table:
  assumes "assign_scores mt scores name asg (table_of idx cols f) = Inr rep'"
    and "name \<in> set idx" and "distinct (map fst asg)"
    and "\<forall>c. c \<notin> set cols \<longrightarrow> (\<forall>r. f r c = None)"
  shows "rep' = table_of idx (append_new cols (map fst asg))
            (\<lambda>r c. if r = name
                    then (case map_of asg c of
                            None \<Rightarrow> f r c
                          | Some key \<Rightarrow> map_option (round3 mt) (map_of scores key))
                    else f r c)"
  using assms
proof (induction asg arbitrary: cols f)
  case Nil
  have "(\<lambda>r c. if r = name
                then (case map_of [] c of
                        None \<Rightarrow> f r c
                      | Some key \<Rightarrow> map_option (round3 mt) (map_of scores key))
                else f r c) = f"
    by (intro ext) simp
  with Nil.prems(1) show ?case by simp
next
  case (Cons a asg)
  obtain col key where a: "a = (col, key)" by (cases a)
  from Cons.prems(1) obtain v where
    v: "map_of scores key = Some v"
    and rest: "assign_scores mt scores name asg
                 (loc_set (table_of idx cols f) name col (round3 mt v)) = Inr rep'"
    by (auto simp: a assign_score_def bindE_Inr_iff dict_get_Inr)
  let ?f1 = "\<lambda>r c. if r = name \<and> c = col then Some (round3 mt v) else f r c"
  have step: "loc_set (table_of idx cols f) name col (round3 mt v)
            = table_of idx (append_new cols [col]) ?f1"
    using Cons.prems(2,4) by (rule loc_set_table)
  have inv: "\<forall>c. c \<notin> set (append_new cols [col]) \<longrightarrow> (\<forall>r. ?f1 r c = None)"
    using Cons.prems(4) by (auto simp: append_new_set)
  from Cons.prems(3) have d: "distinct (map fst asg)" and notin: "col \<notin> fst ` set asg"
    by (auto simp: a)
  from notin have none: "map_of asg col = None" by (simp add: map_of_eq_None_iff)
  from Cons.IH [OF rest [unfolded step] Cons.prems(2) d inv]
  have r: "rep' = table_of idx (append_new (append_new cols [col]) (map fst asg))
            (\<lambda>r c. if r = name
                    then (case map_of asg c of
                            None \<Rightarrow> ?f1 r c
                          | Some key \<Rightarrow> map_option (round3 mt) (map_of scores key))
                    else ?f1 r c)" .
  have cols_eq: "append_new (append_new cols [col]) (map fst asg)
               = append_new cols (map fst (a # asg))"
    by (simp add: a)
  have fun_eq: "(\<lambda>r c. if r = name
                    then (case map_of asg c of
                            None \<Rightarrow> ?f1 r c
                          | Some key \<Rightarrow> map_option (round3 mt) (map_of scores key))
                    else ?f1 r c)
              = (\<lambda>r c. if r = name
                    then (case map_of (a # asg) c of
                            None \<Rightarrow> f r c
                          | Some key \<Rightarrow> map_option (round3 mt) (map_of scores key))
                    else f r c)"
    by (intro ext) (auto simp: a none v split: option.splits)
  show ?case unfolding r cols_eq fun_eq ..
qed

lemma cell_step:
  "(\<lambda>r c. case map_of (rev (zip names runs)) r of
            None \<Rightarrow> (if r = name
                      then (case map_of asg c of None \<Rightarrow> f r c | Some key \<Rightarrow> val sc0 key)
                      else f r c)
          | Some sc \<Rightarrow>
              (case map_of asg c of
                 None \<Rightarrow> (if r = name
                           then (case map_of asg c of None \<Rightarrow> f r c | Some key \<Rightarrow> val sc0 key)
                           else f r c)
               | Some key \<Rightarrow> val sc key))
   = (\<lambda>r c. case map_of (rev (zip (name # names) (sc0 # runs))) r of
              None \<Rightarrow> f r c
            | Some sc \<Rightarrow> (case map_of asg c of None \<Rightarrow> f r c | Some key \<Rightarrow> val sc key))"
  by (intro ext) (auto simp: map_add_def split: option.splits)

lemma cv_multi_loop_table:
  assumes "cv_multi_loop sk mt X_train_dic y_train model balancing modelname spec random_state
             splits n_jobs names (table_of idx cols f) g = (Inr (Some rep'), g', out)"
    and "set names \<subseteq> set idx"
    and "\<forall>c. c \<notin> set cols \<longrightarrow> (\<forall>r. f r c = None)"
  shows "\<exists>runs.
           list_all2 (\<lambda>name scores. \<exists>estimator X y g1 g2.
               (if truthy spec then cv_model_temp modelname spec random_state n_jobs name
                else Inr (Some model)) = Inr (Some estimator)
             \<and> getitem X_train_dic name = Inr X \<and> getitem y_train name = Inr y
             \<and> cv_report sk mt estimator X y balancing splits scoring_metrics random_state
                 n_jobs g1 = (Inr scores, g2)) names runs
         \<and> rep' = table_of idx
                    (if names = [] then cols else append_new cols (map fst cv_assignments))
                    (\<lambda>r c. case map_of (rev (zip names runs)) r of
                             None \<Rightarrow> f r c
                           | Some scores \<Rightarrow>
                               (case map_of cv_assignments c of
                                  None \<Rightarrow> f r c
                                | Some key \<Rightarrow> map_option (round3 mt) (map_of scores key)))"
  using assms
proof (induction names arbitrary: cols f g)
  case Nil
  then show ?case by simp
next
  case (Cons name names)
  from Cons.prems(1) obtain estimator X y scores g1 rep1 where
    e: "(if truthy spec then cv_model_temp modelname spec random_state n_jobs name
         else Inr (Some model)) = Inr (Some estimator)"
    and x: "getitem X_train_dic name = Inr X" and y: "getitem y_train name = Inr y"
    and c: "cv_report sk mt estimator X y balancing splits scoring_metrics random_state n_jobs g
              = (Inr scores, g1)"
    and a: "assign_scores mt scores name cv_assignments (table_of idx cols f) = Inr rep1"
    and rest: "cv_multi_loop sk mt X_train_dic y_train model balancing modelname spec
                 random_state splits n_jobs names rep1 g1 = (Inr (Some rep'), g', out)"
    by (simp split: sum.splits option.splits prod.splits)
  from Cons.prems(2) have mem: "name \<in> set idx" and sub: "set names \<subseteq> set idx" by auto
  have dist: "distinct (map fst cv_assignments)" by (simp add: cv_assignments_def)
  let ?cols1 = "append_new cols (map fst cv_assignments)"
  let ?f1 = "\<lambda>r c. if r = name
                    then (case map_of cv_assignments c of
                            None \<Rightarrow> f r c
                          | Some key \<Rightarrow> map_option (round3 mt) (map_of scores key))
                    else f r c"
  have r1: "rep1 = table_of idx ?cols1 ?f1"
    using a mem dist Cons.prems(3) by (rule assign_scores_table)
  have inv: "\<forall>c. c \<notin> set ?cols1 \<longrightarrow> (\<forall>r. ?f1 r c = None)"
  proof (intro allI impI)
    fix c r assume "c \<notin> set ?cols1"
    then have nc: "c \<notin> set cols" and na: "c \<notin> fst ` set cv_assignments"
      by (auto simp: append_new_set)
    from na have "map_of cv_assignments c = None" by (simp add: map_of_eq_None_iff)
    with nc Cons.prems(3) show "?f1 r c = None" by simp
  qed
  from Cons.IH [OF rest [unfolded r1] sub inv] obtain runs where
    l: "list_all2 (\<lambda>name scores. \<exists>estimator X y g1 g2.
               (if truthy spec then cv_model_temp modelname spec random_state n_jobs name
                else Inr (Some model)) = Inr (Some estimator)
             \<and> getitem X_train_dic name = Inr X \<and> getitem y_train name = Inr y
             \<and> cv_report sk mt estimator X y balancing splits scoring_metrics random_state
                 n_jobs g1 = (Inr scores, g2)) names runs"
    and r: "rep' = table_of idx
                    (if names = [] then ?cols1 else append_new ?cols1 (map fst cv_assignments))
                    (\<lambda>r c. case map_of (rev (zip names runs)) r of
                             None \<Rightarrow> ?f1 r c
                           | Some scores \<Rightarrow>
                               (case map_of cv_assignments c of
                                  None \<Rightarrow> ?f1 r c
                                | Some key \<Rightarrow> map_option (round3 mt) (map_of scores key)))"
    by blast
  have cols_eq: "(if names = [] then ?cols1 else append_new ?cols1 (map fst cv_assignments))
                = ?cols1"
    by (simp add: append_new_idem)
  have l': "list_all2 (\<lambda>name scores. \<exists>estimator X y g1 g2.
               (if truthy spec then cv_model_temp modelname spec random_state n_jobs name
                else Inr (Some model)) = Inr (Some estimator)
             \<and> getitem X_train_dic name = Inr X \<and> getitem y_train name = Inr y
             \<and> cv_report sk mt estimator X y balancing splits scoring_metrics random_state
                 n_jobs g1 = (Inr scores, g2)) (name # names) (scores # runs)"
    using l e x y c by auto
  have "rep' = table_of idx ?cols1
          (\<lambda>r c. case map_of (rev (zip (name # names) (scores # runs))) r of
                   None \<Rightarrow> f r c
                 | Some scores \<Rightarrow>
                     (case map_of cv_assignments c of
                        None \<Rightarrow> f r c
                      | Some key \<Rightarrow> map_option (round3 mt) (map_of scores key)))"
    unfolding r cols_eq
    using cell_step [where names = names and runs = runs and name = name
            and asg = cv_assignments and f = f
            and val = "\<lambda>sc key. map_option (round3 mt) (map_of sc key)" and ?sc0.0 = scores]
    by simp
  with l' show ?case by (intro exI [of _ "scores # runs"]) simp
qed

lemma test_score_loop_table:
  assumes "test_score_loop sk mt X_train_dic y_train X_test y_test model modelname spec balancing
             random_state plot n_jobs names (table_of idx cols f) g figs
           = (Inr (Some rep'), g', out, figs')"
    and "set names \<subseteq> set idx"
    and "\<forall>c. c \<notin> set cols \<longrightarrow> (\<forall>r. f r c = None)"
  shows "\<exists>runs.
           list_all2 (\<lambda>name scores. \<exists>estimator g1 g2 saved.
               (if truthy spec then test_model_temp modelname spec random_state name
                else Inr (Some model)) = Inr (Some estimator)
             \<and> fit_and_score sk mt X_train_dic y_train X_test y_test estimator balancing
                 random_state plot n_jobs name g1 = (Inr scores, g2, saved)) names runs
         \<and> rep' = table_of idx
                    (if names = [] then cols else append_new cols (map fst test_assignments))
                    (\<lambda>r c. case map_of (rev (zip names runs)) r of
                             None \<Rightarrow> f r c
                           | Some scores \<Rightarrow>
                               (case map_of test_assignments c of
                                  None \<Rightarrow> f r c
                                | Some key \<Rightarrow> map_option (round3 mt) (map_of scores key)))"
  using assms
proof (induction names arbitrary: cols f g figs)
  case Nil
  then show ?case by simp
next
  case (Cons name names)
  from Cons.prems(1) obtain estimator scores g1 saved rep1 where
    e: "(if truthy spec then test_model_temp modelname spec random_state name
         else Inr (Some model)) = Inr (Some estimator)"
    and c: "fit_and_score sk mt X_train_dic y_train X_test y_test estimator balancing
              random_state plot n_jobs name g = (Inr scores, g1, saved)"
    and a: "assign_scores mt scores name test_assignments (table_of idx cols f) = Inr rep1"
    and rest: "test_score_loop sk mt X_train_dic y_train X_test y_test model modelname spec
                 balancing random_state plot n_jobs names rep1 g1 (figs @ saved)
               = (Inr (Some rep'), g', out, figs')"
    by (simp split: sum.splits option.splits prod.splits)
  from Cons.prems(2) have mem: "name \<in> set idx" and sub: "set names \<subseteq> set idx" by auto
  have dist: "distinct (map fst test_assignments)" by (simp add: test_assignments_def)
  let ?cols1 = "append_new cols (map fst test_assignments)"
  let ?f1 = "\<lambda>r c. if r = name
                    then (case map_of test_assignments c of
                            None \<Rightarrow> f r c
                          | Some key \<Rightarrow> map_option (round3 mt) (map_of scores key))
                    else f r c"
  have r1: "rep1 = table_of idx ?cols1 ?f1"
    using a mem dist Cons.prems(3) by (rule assign_scores_table)
  have inv: "\<forall>c. c \<notin> set ?cols1 \<longrightarrow> (\<forall>r. ?f1 r c = None)"
  proof (intro allI impI)
    fix c r assume "c \<notin> set ?cols1"
    then have nc: "c \<notin> set cols" and na: "c \<notin> fst ` set test_assignments"
      by (auto simp: append_new_set)
    from na have "map_of test_assignments c = None" by (simp add: map_of_eq_None_iff)
    with nc Cons.prems(3) show "?f1 r c = None" by simp
  qed
  from Cons.IH [OF rest [unfolded r1] sub inv] obtain runs where
    l: "list_all2 (\<lambda>name scores. \<exists>estimator g1 g2 saved.
               (if truthy spec then test_model_temp modelname spec random_state name
                else Inr (Some model)) = Inr (Some estimator)
             \<and> fit_and_score sk mt X_train_dic y_train X_test y_test estimator balancing
                 random_state plot n_jobs name g1 = (Inr scores, g2, saved)) names runs"
    and r: "rep' = table_of idx
                    (if names = [] then ?cols1 else append_new ?cols1 (map fst test_assignments))
                    (\<lambda>r c. case map_of (rev (zip names runs)) r of
                             None \<Rightarrow> ?f1 r c
                           | Some scores \<Rightarrow>
                               (case map_of test_assignments c of
                                  None \<Rightarrow> ?f1 r c
                                | Some key \<Rightarrow> map_option (round3 mt) (map_of scores key)))"
    by blast
  have cols_eq: "(if names = [] then ?cols1 else append_new ?cols1 (map fst test_assignments))
                = ?cols1"
    by (simp add: append_new_idem)
  have l': "list_all2 (\<lambda>name scores. \<exists>estimator g1 g2 saved.
               (if truthy spec then test_model_temp modelname spec random_state name
                else Inr (Some model)) = Inr (Some estimator)
             \<and> fit_and_score sk mt X_train_dic y_train X_test y_test estimator balancing
                 random_state plot n_jobs name g1 = (Inr scores, g2, saved))
             (name # names) (scores # runs)"
    using l e c by auto
  have "rep' = table_of idx ?cols1
          (\<lambda>r c. case map_of (rev (zip (name # names) (scores # runs))) r of
                   None \<Rightarrow> f r c
                 | Some scores \<Rightarrow>
                     (case map_of test_assignments c of
                        None \<Rightarrow> f r c
                      | Some key \<Rightarrow> map_option (round3 mt) (map_of scores key)))"
    unfolding r cols_eq
    using cell_step [where names = names and runs = runs and name = name
            and asg = test_assignments and f = f
            and val = "\<lambda>sc key. map_option (round3 mt) (map_of sc key)" and ?sc0.0 = scores]
    by simp
  with l' show ?case by (intro exI [of _ "scores # runs"]) simp
qed

lemma cv_report_dict:
  assumes "cv_report sk mt estimator X y balancing splits metric_names random_state n_jobs g
             = (Inr scores, g')"
  shows "\<exists>folds f1_micro f1_macro f1 roc_auc recall precision average_precision.
           cross_validate sk (cv_estimator estimator balancing random_state n_jobs) (np_asarray X)
             y metric_names (StratifiedKFold splits random_state) n_jobs False g = (Inr folds, g')
         \<and> map_of folds ''test_f1_micro'' = Some f1_micro
         \<and> map_of folds ''test_f1_macro'' = Some f1_macro
         \<and> map_of folds ''test_f1'' = Some f1
         \<and> map_of folds ''test_roc_auc'' = Some roc_auc
         \<and> map_of folds ''test_recall'' = Some recall
         \<and> map_of folds ''test_precision'' = Some precision
         \<and> map_of folds ''test_average_precision'' = Some average_precision
         \<and> scores =
             [(''f1_micr_score'', np_mean mt f1_micro), (''f1_micr_std'', np_std mt f1_micro),
              (''auc_score'', np_mean mt roc_auc), (''auc_std'', np_std mt roc_auc),
              (''rec_score'', np_mean mt recall), (''rec_std'', np_std mt recall),
              (''prec_score'', np_mean mt precision), (''prec_std'', np_std mt precision),
              (''f1_macro_score'', np_mean mt f1_macro), (''f1_macro_std'', np_std mt f1_macro),
              (''f1_score'', np_mean mt f1), (''f1_std'', np_std mt f1),
              (''avp_score'', np_mean mt average_precision),
              (''avp_std'', np_std mt average_precision)]"
  using assms
  by (auto simp: cv_report_def bindE_Inr_iff dict_get_Inr split: sum.splits prod.splits)

lemma score_report_dict:
  assumes "score_report mt estimator X y plot name = (Inr scores, figs)"
  shows "\<exists>y_pred proba probabilities f1_micro f1_macro f1 auc recall precision
            average_precision.
           predict estimator X = Inr y_pred
         \<and> predict_proba estimator = Some proba \<and> proba X = Inr probabilities
         \<and> 1 < length probabilities
         \<and> f1_score mt y y_pred ''micro'' = Inr f1_micro
         \<and> f1_score mt y y_pred ''macro'' = Inr f1_macro
         \<and> f1_score mt y y_pred ''binary'' = Inr f1
         \<and> roc_auc_score mt y y_pred = Inr auc
         \<and> recall_score mt y y_pred ''binary'' = Inr recall
         \<and> precision_score mt y y_pred ''binary'' = Inr precision
         \<and> average_precision_score mt y (probabilities ! 1) = Inr average_precision
         \<and> scores =
             [(''f1_micr_score'', f1_micro), (''auc_score'', auc), (''rec_score'', recall),
              (''prec_score'', precision), (''f1_macro_score'', f1_macro), (''f1_s_score'', f1),
              (''prec_rec_score'', average_precision)]"
  using assms
  apply (simp add: score_report_def Let_def split: sum.splits prod.splits if_splits)
   apply (auto simp: bindE_Inr_iff column1_def split: option.splits if_splits)
  done

lemma cv_fill_map:
  "map_of cv_assignments
   = map_of [(''F1 Binary'', ''f1_score''), (''F1 Micro'', ''f1_micr_score''),
             (''F1 Macro'', ''f1_macro_score''), (''ROC_AUC'', ''auc_score''),
             (''Recall'', ''rec_score''), (''Precision'', ''prec_score''),
             (''Average Precision'', ''avp_score'')]"
  by (intro ext) (simp add: cv_assignments_def)

lemma test_fill_map:
  "map_of test_assignments
   = map_of [(''F1 Binary'', ''f1_s_score''), (''F1 Micro'', ''f1_micr_score''),
             (''F1 Macro'', ''f1_macro_score''), (''ROC_AUC'', ''auc_score''),
             (''Recall'', ''rec_score''), (''Precision'', ''prec_score''),
             (''Average Prec-Rec'', ''prec_rec_score'')]"
  by (intro ext) (simp add: test_assignments_def)

lemma score_cell_fill:
  "map_of asg = map_of asg' \<Longrightarrow> score_cell mt asg runs = score_cell mt asg' runs"
  by (intro ext) (simp add: score_cell_def split: option.splits)

lemma score_cell_unfold:
  "(\<lambda>r c. case map_of (rev runs) r of
             None \<Rightarrow> None
           | Some scores \<Rightarrow>
               (case map_of asg c of
                  None \<Rightarrow> None
                | Some key \<Rightarrow> map_option (round3 mt) (map_of scores key)))
   = score_cell mt asg runs"
  by (intro ext) (simp add: score_cell_def)

lemma cv_multi_report_table:
  assumes "cv_multi_report sk mt X_train_dic y_train out_names model balancing modelname spec
             random_state splits n_jobs g = (Inr (Some rep), g', out)"
  shows "\<exists>runs.
           list_all2 (\<lambda>name scores. \<exists>estimator X y g1 g2.
               (if truthy spec then cv_model_temp modelname spec random_state n_jobs name
                else Inr (Some model)) = Inr (Some estimator)
             \<and> getitem X_train_dic name = Inr X \<and> getitem y_train name = Inr y
             \<and> cv_report sk mt estimator X y balancing splits
                 [''f1_micro'', ''f1_macro'', ''f1'', ''roc_auc'', ''recall'', ''precision'',
                  ''average_precision'']
                 random_state n_jobs g1 = (Inr scores, g2)) out_names runs
         \<and> rep = apply_to_numeric mt
             (table_of out_names
                [''F1 Binary'', ''F1 Micro'', ''F1 Macro'', ''ROC_AUC'', ''Recall'', ''Precision'',
                 ''Average Precision'']
                (score_cell mt
                   [(''F1 Binary'', ''f1_score''), (''F1 Micro'', ''f1_micr_score''),
                    (''F1 Macro'', ''f1_macro_score''), (''ROC_AUC'', ''auc_score''),
                    (''Recall'', ''rec_score''), (''Precision'', ''prec_score''),
                    (''Average Precision'', ''avp_score'')]
                   (zip out_names runs)))"
proof -
  from assms obtain raw where
    loop: "cv_multi_loop sk mt X_train_dic y_train model balancing modelname spec random_state
             splits n_jobs out_names (table_of out_names cv_columns (\<lambda>r c. None)) g
           = (Inr (Some raw), g', out)"
    and rep: "rep = apply_to_numeric mt raw"
    by (auto simp: cv_multi_report_def new_report_table split: sum.splits option.splits prod.splits)
  have cols: "(if out_names = [] then cv_columns
               else append_new cv_columns (map fst cv_assignments)) = cv_columns"
    by (simp add: cv_columns_def cv_assignments_def)
  from cv_multi_loop_table [OF loop] obtain runs where
    l: "list_all2 (\<lambda>name scores. \<exists>estimator X y g1 g2.
               (if truthy spec then cv_model_temp modelname spec random_state n_jobs name
                else Inr (Some model)) = Inr (Some estimator)
             \<and> getitem X_train_dic name = Inr X \<and> getitem y_train name = Inr y
             \<and> cv_report sk mt estimator X y balancing splits scoring_metrics random_state
                 n_jobs g1 = (Inr scores, g2)) out_names runs"
    and r: "raw = table_of out_names cv_columns (score_cell mt cv_assignments (zip out_names runs))"
    unfolding cols score_cell_unfold by auto
  have fill: "score_cell mt cv_assignments (zip out_names runs)
            = score_cell mt
                   [(''F1 Binary'', ''f1_score''), (''F1 Micro'', ''f1_micr_score''),
                    (''F1 Macro'', ''f1_macro_score''), (''ROC_AUC'', ''auc_score''),
                    (''Recall'', ''rec_score''), (''Precision'', ''prec_score''),
                    (''Average Precision'', ''avp_score'')]
                   (zip out_names runs)"
    by (rule score_cell_fill) (rule cv_fill_map)
  have l': "list_all2 (\<lambda>name scores. \<exists>estimator X y g1 g2.
               (if truthy spec then cv_model_temp modelname spec random_state n_jobs name
                else Inr (Some model)) = Inr (Some estimator)
             \<and> getitem X_train_dic name = Inr X \<and> getitem y_train name = Inr y
             \<and> cv_report sk mt estimator X y balancing splits
                 [''f1_micro'', ''f1_macro'', ''f1'', ''roc_auc'', ''recall'', ''precision'',
                  ''average_precision'']
                 random_state n_jobs g1 = (Inr scores, g2)) out_names runs"
    using l by (simp only: scoring_metrics_def)
  have r': "rep = apply_to_numeric mt
             (table_of out_names
                [''F1 Binary'', ''F1 Micro'', ''F1 Macro'', ''ROC_AUC'', ''Recall'', ''Precision'',
                 ''Average Precision'']
                (score_cell mt
                   [(''F1 Binary'', ''f1_score''), (''F1 Micro'', ''f1_micr_score''),
                    (''F1 Macro'', ''f1_macro_score''), (''ROC_AUC'', ''auc_score''),
                    (''Recall'', ''rec_score''), (''Precision'', ''prec_score''),
                    (''Average Precision'', ''avp_score'')]
                   (zip out_names runs)))"
    unfolding rep r fill by (simp only: cv_columns_def)
  from l' r' show ?thesis by blast
qed

lemma test_score_multi_report_table:
  assumes "test_score_multi_report sk mt X_train_dic y_train X_test y_test out_names model
             modelname spec balancing random_state plot n_jobs g
           = (Inr (Some rep), g', out, figs)"
    and "out_names \<noteq> []"
  shows "\<exists>runs.
           list_all2 (\<lambda>name scores. \<exists>estimator g1 g2 saved.
               (if truthy spec then test_model_temp modelname spec random_state name
                else Inr (Some model)) = Inr (Some estimator)
             \<and> fit_and_score sk mt X_train_dic y_train X_test y_test estimator balancing
                 random_state plot n_jobs name g1 = (Inr scores, g2, saved)) out_names runs
         \<and> rep = apply_to_numeric mt
             (table_of out_names
                [''F1 Binary'', ''F1 Micro'', ''F1 Macro'', ''ROC_AUC'', ''Recall'', ''Precision'',
                 ''Average Prec-Rec'']
                (score_cell mt
                   [(''F1 Binary'', ''f1_s_score''), (''F1 Micro'', ''f1_micr_score''),
                    (''F1 Macro'', ''f1_macro_score''), (''ROC_AUC'', ''auc_score''),
                    (''Recall'', ''rec_score''), (''Precision'', ''prec_score''),
                    (''Average Prec-Rec'', ''prec_rec_score'')]
                   (zip out_names runs)))"
proof -
  from assms(1) obtain raw where
    loop: "test_score_loop sk mt X_train_dic y_train X_test y_test model modelname spec balancing
             random_state plot n_jobs out_names (table_of out_names test_columns (\<lambda>r c. None))
             g [] = (Inr (Some raw), g', out, figs)"
    and rep: "rep = apply_to_numeric mt raw"
    by (auto simp: test_score_multi_report_def new_report_table
        split: sum.splits option.splits prod.splits)
  have cols: "(if out_names = [] then test_columns
               else append_new test_columns (map fst test_assignments))
            = [''F1 Binary'', ''F1 Micro'', ''F1 Macro'', ''ROC_AUC'', ''Recall'', ''Precision'',
               ''Average Prec-Rec'']"
    using assms(2) by (simp add: test_columns_def test_assignments_def)
  from test_score_loop_table [OF loop] obtain runs where
    l: "list_all2 (\<lambda>name scores. \<exists>estimator g1 g2 saved.
               (if truthy spec then test_model_temp modelname spec random_state name
                else Inr (Some model)) = Inr (Some estimator)
             \<and> fit_and_score sk mt X_train_dic y_train X_test y_test estimator balancing
                 random_state plot n_jobs name g1 = (Inr scores, g2, saved)) out_names runs"
    and r: "raw = table_of out_names
                [''F1 Binary'', ''F1 Micro'', ''F1 Macro'', ''ROC_AUC'', ''Recall'', ''Precision'',
                 ''Average Prec-Rec'']
                (score_cell mt test_assignments (zip out_names runs))"
    unfolding cols score_cell_unfold by auto
  have fill: "score_cell mt test_assignments (zip out_names runs)
            = score_cell mt
                   [(''F1 Binary'', ''f1_s_score''), (''F1 Micro'', ''f1_micr_score''),
                    (''F1 Macro'', ''f1_macro_score''), (''ROC_AUC'', ''auc_score''),
                    (''Recall'', ''rec_score''), (''Precision'', ''prec_score''),
                    (''Average Prec-Rec'', ''prec_rec_score'')]
                   (zip out_names runs)"
    by (rule score_cell_fill) (rule test_fill_map)
  have r': "rep = apply_to_numeric mt
             (table_of out_names
                [''F1 Binary'', ''F1 Micro'', ''F1 Macro'', ''ROC_AUC'', ''Recall'', ''Precision'',
                 ''Average Prec-Rec'']
                (score_cell mt
                   [(''F1 Binary'', ''f1_s_score''), (''F1 Micro'', ''f1_micr_score''),
                    (''F1 Macro'', ''f1_macro_score''), (''ROC_AUC'', ''auc_score''),
                    (''Recall'', ''rec_score''), (''Precision'', ''prec_score''),
                    (''Average Prec-Rec'', ''prec_rec_score'')]
                   (zip out_names runs)))"
    unfolding rep r fill ..
  from l r' show ?thesis by blast
qed

lemma fit_and_score_report:
  assumes "fit_and_score sk mt X_train_dic y_train X_test y_test estimator balancing random_state
             plot n_jobs name g = (Inr scores, g', saved)"
  shows "\<exists>X y g0 fitted_estimator Xt yt.
           getitem X_train_dic name = Inr X \<and> getitem y_train name = Inr y
         \<and> fit sk (if balancing
                    then Pipeline (SMOTENC cat_shape random_state n_jobs) estimator
                    else estimator) (np_asarray X) y g0 = (Inr fitted_estimator, g')
         \<and> getitem X_test name = Inr Xt \<and> getitem y_test name = Inr yt
         \<and> score_report mt fitted_estimator (np_asarray Xt) yt plot (Some name)
             = (Inr scores, saved)"
  using assms
  by (auto simp: fit_and_score_def split: sum.splits prod.splits if_splits)

lemma apply_to_numeric_table:
  "apply_to_numeric mt (table_of idx cols cell)
   = \<lparr> row_index = idx,
       cells = map (\<lambda>c. (c, to_numeric mt (map (\<lambda>r. cell r c) idx))) cols \<rparr>"
  by (simp add: apply_to_numeric_def table_of_def comp_def)

text \<open>
  Claim C5, as amended. Whenever \<^verbatim>\<open>cv_multi_report\<close> returns a table, and whenever
  \<^verbatim>\<open>test_score_multi_report\<close> returns a table for at least one label, the table has exactly
  the labels of \<open>out_names\<close> as its rows, in order, and seven columns; the cell of a label in
  a column is the rounded score, under the key written next to the column, of the run of
  that label (the last run if a label is listed twice); and every column of the table has
  gone through \<^verbatim>\<open>pd.to_numeric\<close>. The first six columns have the same names in both
  reports, and every column holds the same metric in both (more precisely, the mean over
  the folds of that metric in the cross-validated report); the seventh column is named
  \<^verbatim>\<open>Average Precision\<close> in the cross-validated report and \<^verbatim>\<open>Average Prec-Rec\<close> in the
  held-out report.
\<close>

theorem reports_rows_columns_cells:
  "(\<forall>rep g' out.
      cv_multi_report sk mt X_train_dic y_train out_names model balancing modelname spec
        random_state splits n_jobs g = (Inr (Some rep), g', out) \<longrightarrow>
      (\<exists>runs.
         list_all2 (\<lambda>name scores. \<exists>estimator X y g1 g2.
             (if truthy spec then cv_model_temp modelname spec random_state n_jobs name
              else Inr (Some model)) = Inr (Some estimator)
           \<and> getitem X_train_dic name = Inr X \<and> getitem y_train name = Inr y
           \<and> cv_report sk mt estimator X y balancing splits
               [''f1_micro'', ''f1_macro'', ''f1'', ''roc_auc'', ''recall'', ''precision'',
                ''average_precision'']
               random_state n_jobs g1 = (Inr scores, g2)) out_names runs
       \<and> rep = apply_to_numeric mt
           (table_of out_names
              [''F1 Binary'', ''F1 Micro'', ''F1 Macro'', ''ROC_AUC'', ''Recall'', ''Precision'',
               ''Average Precision'']
              (score_cell mt
                 [(''F1 Binary'', ''f1_score''), (''F1 Micro'', ''f1_micr_score''),
                  (''F1 Macro'', ''f1_macro_score''), (''ROC_AUC'', ''auc_score''),
                  (''Recall'', ''rec_score''), (''Precision'', ''prec_score''),
                  (''Average Precision'', ''avp_score'')]
                 (zip out_names runs)))))
   \<and> (\<forall>rep g' out figs.
        out_names \<noteq> []
      \<and> test_score_multi_report sk mt X_train_dic y_train X_test y_test out_names model
          modelname spec balancing random_state plot n_jobs g
          = (Inr (Some rep), g', out, figs) \<longrightarrow>
        (\<exists>runs.
           list_all2 (\<lambda>name scores. \<exists>estimator g1 g2 saved.
               (if truthy spec then test_model_temp modelname spec random_state name
                else Inr (Some model)) = Inr (Some estimator)
             \<and> fit_and_score sk mt X_train_dic y_train X_test y_test estimator balancing
                 random_state plot n_jobs name g1 = (Inr scores, g2, saved)) out_names runs
         \<and> rep = apply_to_numeric mt
             (table_of out_names
                [''F1 Binary'', ''F1 Micro'', ''F1 Macro'', ''ROC_AUC'', ''Recall'', ''Precision'',
                 ''Average Prec-Rec'']
                (score_cell mt
                   [(''F1 Binary'', ''f1_s_score''), (''F1 Micro'', ''f1_micr_score''),
                    (''F1 Macro'', ''f1_macro_score''), (''ROC_AUC'', ''auc_score''),
                    (''Recall'', ''rec_score''), (''Precision'', ''prec_score''),
                    (''Average Prec-Rec'', ''prec_rec_score'')]
                   (zip out_names runs)))))
   \<and> (\<forall>idx cols cell.
        apply_to_numeric mt (table_of idx cols cell)
        = \<lparr> row_index = idx,
            cells = map (\<lambda>c. (c, to_numeric mt (map (\<lambda>r. cell r c) idx))) cols \<rparr>)
   \<and> (\<forall>estimator X y metric_names g1 g2 scores.
        cv_report sk mt estimator X y balancing splits metric_names random_state n_jobs g1
          = (Inr scores, g2) \<longrightarrow>
        (\<exists>folds f1_micro f1_macro f1 roc_auc recall precision average_precision.
           cross_validate sk (cv_estimator estimator balancing random_state n_jobs) (np_asarray X)
             y metric_names (StratifiedKFold splits random_state) n_jobs False g1
             = (Inr folds, g2)
         \<and> map_of folds ''test_f1_micro'' = Some f1_micro
         \<and> map_of folds ''test_f1_macro'' = Some f1_macro
         \<and> map_of folds ''test_f1'' = Some f1
         \<and> map_of folds ''test_roc_auc'' = Some roc_auc
         \<and> map_of folds ''test_recall'' = Some recall
         \<and> map_of folds ''test_precision'' = Some precision
         \<and> map_of folds ''test_average_precision'' = Some average_precision
         \<and> scores =
             [(''f1_micr_score'', np_mean mt f1_micro), (''f1_micr_std'', np_std mt f1_micro),
              (''auc_score'', np_mean mt roc_auc), (''auc_std'', np_std mt roc_auc),
              (''rec_score'', np_mean mt recall), (''rec_std'', np_std mt recall),
              (''prec_score'', np_mean mt precision), (''prec_std'', np_std mt precision),
              (''f1_macro_score'', np_mean mt f1_macro), (''f1_macro_std'', np_std mt f1_macro),
              (''f1_score'', np_mean mt f1), (''f1_std'', np_std mt f1),
              (''avp_score'', np_mean mt average_precision),
              (''avp_std'', np_std mt average_precision)]))
   \<and> (\<forall>estimator name g1 g2 scores saved.
        fit_and_score sk mt X_train_dic y_train X_test y_test estimator balancing random_state
          plot n_jobs name g1 = (Inr scores, g2, saved) \<longrightarrow>
        (\<exists>X y g0 fitted_estimator Xt yt.
           getitem X_train_dic name = Inr X \<and> getitem y_train name = Inr y
         \<and> fit sk (if balancing
                    then Pipeline (SMOTENC cat_shape random_state n_jobs) estimator
                    else estimator) (np_asarray X) y g0 = (Inr fitted_estimator, g2)
         \<and> getitem X_test name = Inr Xt \<and> getitem y_test name = Inr yt
         \<and> score_report mt fitted_estimator (np_asarray Xt) yt plot (Some name)
             = (Inr scores, saved)))
   \<and> (\<forall>fitted_estimator Xt yt name scores saved.
        score_report mt fitted_estimator Xt yt plot name = (Inr scores, saved) \<longrightarrow>
        (\<exists>y_pred proba probabilities f1_micro f1_macro f1 auc recall precision
            average_precision.
           predict fitted_estimator Xt = Inr y_pred
         \<and> predict_proba fitted_estimator = Some proba \<and> proba Xt = Inr probabilities
         \<and> 1 < length probabilities
         \<and> f1_score mt yt y_pred ''micro'' = Inr f1_micro
         \<and> f1_score mt yt y_pred ''macro'' = Inr f1_macro
         \<and> f1_score mt yt y_pred ''binary'' = Inr f1
         \<and> roc_auc_score mt yt y_pred = Inr auc
         \<and> recall_score mt yt y_pred ''binary'' = Inr recall
         \<and> precision_score mt yt y_pred ''binary'' = Inr precision
         \<and> average_precision_score mt yt (probabilities ! 1) = Inr average_precision
         \<and> scores =
             [(''f1_micr_score'', f1_micro), (''auc_score'', auc), (''rec_score'', recall),
              (''prec_score'', precision), (''f1_macro_score'', f1_macro), (''f1_s_score'', f1),
              (''prec_rec_score'', average_precision)]))"
proof (intro conjI allI impI)
  fix rep g' out
  assume "cv_multi_report sk mt X_train_dic y_train out_names model balancing modelname spec
        random_state splits n_jobs g = (Inr (Some rep), g', out)"
  then show "\<exists>runs.
         list_all2 (\<lambda>name scores. \<exists>estimator X y g1 g2.
             (if truthy spec then cv_model_temp modelname spec random_state n_jobs name
              else Inr (Some model)) = Inr (Some estimator)
           \<and> getitem X_train_dic name = Inr X \<and> getitem y_train name = Inr y
           \<and> cv_report sk mt estimator X y balancing splits
               [''f1_micro'', ''f1_macro'', ''f1'', ''roc_auc'', ''recall'', ''precision'',
                ''average_precision'']
               random_state n_jobs g1 = (Inr scores, g2)) out_names runs
       \<and> rep = apply_to_numeric mt
           (table_of out_names
              [''F1 Binary'', ''F1 Micro'', ''F1 Macro'', ''ROC_AUC'', ''Recall'', ''Precision'',
               ''Average Precision'']
              (score_cell mt
                 [(''F1 Binary'', ''f1_score''), (''F1 Micro'', ''f1_micr_score''),
                  (''F1 Macro'', ''f1_macro_score''), (''ROC_AUC'', ''auc_score''),
                  (''Recall'', ''rec_score''), (''Precision'', ''prec_score''),
                  (''Average Precision'', ''avp_score'')]
                 (zip out_names runs)))"
    by (rule cv_multi_report_table)
next
  fix rep g' out figs
  assume a: "out_names \<noteq> []
      \<and> test_score_multi_report sk mt X_train_dic y_train X_test y_test out_names model
          modelname spec balancing random_state plot n_jobs g
          = (Inr (Some rep), g', out, figs)"
  show "\<exists>runs.
           list_all2 (\<lambda>name scores. \<exists>estimator g1 g2 saved.
               (if truthy spec then test_model_temp modelname spec random_state name
                else Inr (Some model)) = Inr (Some estimator)
             \<and> fit_and_score sk mt X_train_dic y_train X_test y_test estimator balancing
                 random_state plot n_jobs name g1 = (Inr scores, g2, saved)) out_names runs
         \<and> rep = apply_to_numeric mt
             (table_of out_names
                [''F1 Binary'', ''F1 Micro'', ''F1 Macro'', ''ROC_AUC'', ''Recall'', ''Precision'',
                 ''Average Prec-Rec'']
                (score_cell mt
                   [(''F1 Binary'', ''f1_s_score''), (''F1 Micro'', ''f1_micr_score''),
                    (''F1 Macro'', ''f1_macro_score''), (''ROC_AUC'', ''auc_score''),
                    (''Recall'', ''rec_score''), (''Precision'', ''prec_score''),
                    (''Average Prec-Rec'', ''prec_rec_score'')]
                   (zip out_names runs)))"
    by (rule test_score_multi_report_table [OF conjunct2 [OF a] conjunct1 [OF a]])
next
  fix idx cols cell
  show "apply_to_numeric mt (table_of idx cols cell)
        = \<lparr> row_index = idx,
            cells = map (\<lambda>c. (c, to_numeric mt (map (\<lambda>r. cell r c) idx))) cols \<rparr>"
    by (rule apply_to_numeric_table)
next
  fix estimator X y metric_names g1 g2 scores
  assume "cv_report sk mt estimator X y balancing splits metric_names random_state n_jobs g1
          = (Inr scores, g2)"
  then show "\<exists>folds f1_micro f1_macro f1 roc_auc recall precision average_precision.
           cross_validate sk (cv_estimator estimator balancing random_state n_jobs) (np_asarray X)
             y metric_names (StratifiedKFold splits random_state) n_jobs False g1
             = (Inr folds, g2)
         \<and> map_of folds ''test_f1_micro'' = Some f1_micro
         \<and> map_of folds ''test_f1_macro'' = Some f1_macro
         \<and> map_of folds ''test_f1'' = Some f1
         \<and> map_of folds ''test_roc_auc'' = Some roc_auc
         \<and> map_of folds ''test_recall'' = Some recall
         \<and> map_of folds ''test_precision'' = Some precision
         \<and> map_of folds ''test_average_precision'' = Some average_precision
         \<and> scores =
             [(''f1_micr_score'', np_mean mt f1_micro), (''f1_micr_std'', np_std mt f1_micro),
              (''auc_score'', np_mean mt roc_auc), (''auc_std'', np_std mt roc_auc),
              (''rec_score'', np_mean mt recall), (''rec_std'', np_std mt recall),
              (''prec_score'', np_mean mt precision), (''prec_std'', np_std mt precision),
              (''f1_macro_score'', np_mean mt f1_macro), (''f1_macro_std'', np_std mt f1_macro),
              (''f1_score'', np_mean mt f1), (''f1_std'', np_std mt f1),
              (''avp_score'', np_mean mt average_precision),
              (''avp_std'', np_std mt average_precision)]"
    by (rule cv_report_dict)
next
  fix estimator name g1 g2 scores saved
  assume "fit_and_score sk mt X_train_dic y_train X_test y_test estimator balancing random_state
          plot n_jobs name g1 = (Inr scores, g2, saved)"
  then show "\<exists>X y g0 fitted_estimator Xt yt.
           getitem X_train_dic name = Inr X \<and> getitem y_train name = Inr y
         \<and> fit sk (if balancing
                    then Pipeline (SMOTENC cat_shape random_state n_jobs) estimator
                    else estimator) (np_asarray X) y g0 = (Inr fitted_estimator, g2)
         \<and> getitem X_test name = Inr Xt \<and> getitem y_test name = Inr yt
         \<and> score_report mt fitted_estimator (np_asarray Xt) yt plot (Some name)
             = (Inr scores, saved)"
    by (rule fit_and_score_report)
next
  fix fitted_estimator Xt yt name scores saved
  assume "score_report mt fitted_estimator Xt yt plot name = (Inr scores, saved)"
  then show "\<exists>y_pred proba probabilities f1_micro f1_macro f1 auc recall precision
            average_precision.
           predict fitted_estimator Xt = Inr y_pred
         \<and> predict_proba fitted_estimator = Some proba \<and> proba Xt = Inr probabilities
         \<and> 1 < length probabilities
         \<and> f1_score mt yt y_pred ''micro'' = Inr f1_micro
         \<and> f1_score mt yt y_pred ''macro'' = Inr f1_macro
         \<and> f1_score mt yt y_pred ''binary'' = Inr f1
         \<and> roc_auc_score mt yt y_pred = Inr auc
         \<and> recall_score mt yt y_pred ''binary'' = Inr recall
         \<and> precision_score mt yt y_pred ''binary'' = Inr precision
         \<and> average_precision_score mt yt (probabilities ! 1) = Inr average_precision
         \<and> scores =
             [(''f1_micr_score'', f1_micro), (''auc_score'', auc), (''rec_score'', recall),
              (''prec_score'', precision), (''f1_macro_score'', f1_macro), (''f1_s_score'', f1),
              (''prec_rec_score'', average_precision)]"
    by (rule score_report_dict)
qed

end
